theory Spec2Isabelle
  imports Complex_Main
begin

section \<open>Data model of the 3D CTU + CT integrator\<close>

text \<open>
  The development embeds \<^verbatim>\<open>src/integrators/integrate_3d_ctu.c\<close>.  The C type
  \<^verbatim>\<open>Real\<close> is modelled by the HOL reals (exact arithmetic), C arrays by total
  functions on integer indices (the allocation bounds of the arrays are not part of
  the model), and every \<^verbatim>\<open>for (x=lo; x<=hi; x++)\<close> loop by a \<open>fold\<close> over the index
  list \<open>[lo..hi]\<close>.  The conditional-compilation switches of the source are fields of
  the record \<open>Config\<close> and become \<open>if\<close>s of the model.
\<close>

type_synonym 'a array1 = "int \<Rightarrow> 'a"
type_synonym 'a array2 = "int \<Rightarrow> int \<Rightarrow> 'a"
type_synonym 'a array3 = "int \<Rightarrow> int \<Rightarrow> int \<Rightarrow> 'a"

text \<open>The conserved cell state \<^verbatim>\<open>Gas\<close>: \<^verbatim>\<open>d, M1, M2, M3, E, B1c, B2c, B3c, s[]\<close>.\<close>

record Gas =
  g_d :: real
  g_M1 :: real
  g_M2 :: real
  g_M3 :: real
  g_E :: real
  g_B1c :: real
  g_B2c :: real
  g_B3c :: real
  g_s :: "nat \<Rightarrow> real"

text \<open>The 1D conserved vector \<^verbatim>\<open>Cons1D\<close>: \<^verbatim>\<open>d, Mx, My, Mz, E, By, Bz, s[]\<close>.\<close>

record Cons1D =
  c_d :: real
  c_Mx :: real
  c_My :: real
  c_Mz :: real
  c_E :: real
  c_By :: real
  c_Bz :: real
  c_s :: "nat \<Rightarrow> real"

text \<open>The 1D primitive vector \<^verbatim>\<open>Prim1D\<close>: \<^verbatim>\<open>d, Vx, Vy, Vz, P, By, Bz, s[]\<close>.\<close>

record Prim1D =
  w_d :: real
  w_Vx :: real
  w_Vy :: real
  w_Vz :: real
  w_P :: real
  w_By :: real
  w_Bz :: real
  w_s :: "nat \<Rightarrow> real"

text \<open>
  The fields of \<^verbatim>\<open>Grid\<close> that the integrator touches (\<^verbatim>\<open>is, ie, js, je, ks, ke\<close> are
  written \<open>i_s, i_e, j_s, j_e, k_s, k_e\<close>), and \<^verbatim>\<open>time\<close>, which it never names.
\<close>

record Grid =
  U :: "Gas array3"
  B1i :: "real array3"
  B2i :: "real array3"
  B3i :: "real array3"
  Phi :: "real array3"
  x1MassFlux :: "real array3"
  x2MassFlux :: "real array3"
  x3MassFlux :: "real array3"
  dt :: real
  time :: real
  dx1 :: real
  dx2 :: real
  dx3 :: real
  i_s :: int
  i_e :: int
  j_s :: int
  j_e :: int
  k_s :: int
  k_e :: int
  my_id :: int

record Domain =
  NGrid_x1 :: int

text \<open>The file-level scratch arrays of the integrator, and the global \<^verbatim>\<open>etah\<close>.\<close>

record Scratch =
  Ul_x1Face :: "Cons1D array3"
  Ur_x1Face :: "Cons1D array3"
  Ul_x2Face :: "Cons1D array3"
  Ur_x2Face :: "Cons1D array3"
  Ul_x3Face :: "Cons1D array3"
  Ur_x3Face :: "Cons1D array3"
  x1Flux :: "Cons1D array3"
  x2Flux :: "Cons1D array3"
  x3Flux :: "Cons1D array3"
  B1_x1Face :: "real array3"
  B2_x2Face :: "real array3"
  B3_x3Face :: "real array3"
  emf1 :: "real array3"
  emf2 :: "real array3"
  emf3 :: "real array3"
  emf1_cc :: "real array3"
  emf2_cc :: "real array3"
  emf3_cc :: "real array3"
  Bxc :: "real array1"
  Bxi :: "real array1"
  W :: "Prim1D array1"
  Wl :: "Prim1D array1"
  Wr :: "Prim1D array1"
  U1d :: "Cons1D array1"
  dhalf :: "real array3"
  phalf :: "real array3"
  etah :: real
  eta1 :: "real array3"
  eta2 :: "real array3"
  eta3 :: "real array3"
  remapEyiib :: "real array2"
  remapEyoib :: "real array2"

text \<open>
  The compile-time switches and the global constants of \<^verbatim>\<open>defs.h\<close> and
  \<^verbatim>\<open>globals.h\<close>, which are not part of the sources at hand and are therefore
  parameters of the model.
\<close>

record Config =
  MHD :: bool
  BAROTROPIC :: bool
  SELF_GRAVITY :: bool
  H_CORRECTION :: bool
  SHEARING_BOX :: bool
  FARGO :: bool
  NSCALARS :: nat
  nghost :: int
  Gamma_1 :: real
  Omega :: real
  four_pi_G :: real
  grav_mean_rho :: real

text \<open>
  The collaborators the integrator calls but does not define: the two nullable
  callbacks, reconstruction, the Riemann solver (which reads \<^verbatim>\<open>etah\<close>, passed here
  as its first argument), the variable conversions, the fast speed, the cell position
  and the shearing-box remap.  Each is a pure function of its inputs, as their
  interface contract states.  \<^verbatim>\<open>cc_pos(pG,i,j,k,&x1,&x2,&x3)\<close> reads the geometry of the
  grid only (origin and spacing, which the integrator never writes and which are not
  fields of \<open>Grid\<close> here), so it is a function of the indices \<open>i j k\<close>.  Calling a
  callback that is \<^verbatim>\<open>NULL\<close> is the error \<open>NullCallback\<close>; passing to \<^verbatim>\<open>free\<close> a pointer
  that was freed before is the error \<open>InvalidFree\<close>; \<open>Fatal\<close> is the fatal error of
  \<^verbatim>\<open>ath_error\<close> with its message.
\<close>

datatype error = NullCallback | InvalidFree | Fatal string

record Ext =
  StaticGravPot :: "(real \<Rightarrow> real \<Rightarrow> real \<Rightarrow> real) option"
  CoolingFunc :: "(real \<Rightarrow> real \<Rightarrow> real \<Rightarrow> real) option"
  cc_pos :: "int \<Rightarrow> int \<Rightarrow> int \<Rightarrow> real \<times> real \<times> real"
  lr_states :: "Prim1D array1 \<Rightarrow> real array1 \<Rightarrow> real \<Rightarrow> real \<Rightarrow> int \<Rightarrow> int \<Rightarrow>
    Prim1D array1 \<Rightarrow> Prim1D array1 \<Rightarrow> Prim1D array1 \<times> Prim1D array1"
  GET_FLUXES :: "real \<Rightarrow> Cons1D \<Rightarrow> Cons1D \<Rightarrow> Prim1D \<Rightarrow> Prim1D \<Rightarrow> real \<Rightarrow> Cons1D"
  Cons1D_to_Prim1D :: "Cons1D \<Rightarrow> real \<Rightarrow> Prim1D"
  Prim1D_to_Cons1D :: "Prim1D \<Rightarrow> real \<Rightarrow> Cons1D"
  cfast :: "Cons1D \<Rightarrow> real \<Rightarrow> real"
  get_myGridIndex :: "Domain \<Rightarrow> int \<Rightarrow> int \<times> int \<times> int"
  RemapEy_ix1 :: "Grid \<Rightarrow> Domain \<Rightarrow> real array3 \<Rightarrow> real array2 \<Rightarrow> real array2"
  RemapEy_ox1 :: "Grid \<Rightarrow> Domain \<Rightarrow> real array3 \<Rightarrow> real array2 \<Rightarrow> real array2"

text \<open>
  The locals that \<^verbatim>\<open>integrate_3d_ctu\<close> initialises from the grid in its declarations
  and never assigns again.
\<close>

record Locals =
  dtodx1 :: real
  dtodx2 :: real
  dtodx3 :: real
  dx1i :: real
  dx2i :: real
  dx3i :: real
  q1 :: real
  q2 :: real
  q3 :: real
  hdt :: real
  om_dt :: real
  l_is :: int
  l_ie :: int
  l_js :: int
  l_je :: int
  l_ks :: int
  l_ke :: int

definition init_locals :: "Config \<Rightarrow> Grid \<Rightarrow> Locals" where
  "init_locals cfg pG =
    \<lparr> dtodx1 = dt pG / dx1 pG, dtodx2 = dt pG / dx2 pG, dtodx3 = dt pG / dx3 pG,
      dx1i = 1 / dx1 pG, dx2i = 1 / dx2 pG, dx3i = 1 / dx3 pG,
      q1 = 0.5 * (dt pG / dx1 pG), q2 = 0.5 * (dt pG / dx2 pG), q3 = 0.5 * (dt pG / dx3 pG),
      hdt = 0.5 * dt pG, om_dt = Omega cfg * dt pG,
      l_is = i_s pG, l_ie = i_e pG, l_js = j_s pG, l_je = j_e pG,
      l_ks = k_s pG, l_ke = k_e pG \<rparr>"

text \<open>The assignment \<^verbatim>\<open>a[k][j][i] = v\<close>.\<close>

definition upd3 :: "'a array3 \<Rightarrow> int \<Rightarrow> int \<Rightarrow> int \<Rightarrow> 'a \<Rightarrow> 'a array3" where
  "upd3 a k j i v = a(k := (a k)(j := (a k j)(i := v)))"

text \<open>
  The loop nest \<^verbatim>\<open>for (k=kl; k<=ku; k++) for (j=jl; j<=ju; j++) for (i=il; i<=iu; i++)\<close>.
\<close>

definition loop_kji ::
  "int \<Rightarrow> int \<Rightarrow> int \<Rightarrow> int \<Rightarrow> int \<Rightarrow> int \<Rightarrow> (int \<Rightarrow> int \<Rightarrow> int \<Rightarrow> 's \<Rightarrow> 's) \<Rightarrow> 's \<Rightarrow> 's" where
  "loop_kji kl ku jl ju il iu body =
    fold (\<lambda>k. fold (\<lambda>j. fold (\<lambda>i. body k j i) [il..iu]) [jl..ju]) [kl..ku]"

text \<open>
  The loop \<^verbatim>\<open>for (n=0; n<NSCALARS; n++) s[n] = f(n, s[n])\<close> over the passive scalars.
\<close>

definition for_scalars :: "nat \<Rightarrow> (nat \<Rightarrow> real \<Rightarrow> real) \<Rightarrow> (nat \<Rightarrow> real) \<Rightarrow> (nat \<Rightarrow> real)" where
  "for_scalars N f a = fold (\<lambda>n a. a(n := f n (a n))) [0..<N] a"

text \<open>A grid with its cell states blanked: what a loop over the cell states may read.\<close>

definition clearU :: "Grid \<Rightarrow> Grid" where
  "clearU pG = pG\<lparr>U := (\<lambda>k j i. undefined)\<rparr>"

section \<open>The limiter of the MHD source terms\<close>

text \<open>
  The inline code of Steps 1b, 2b and 3b that limits the source term: with \<open>a\<close> the
  field difference along the sweep and \<open>b\<close> a transverse one, the two statements
  \<^verbatim>\<open>l = a < -b ? a : -b; l = l > 0.0 ? l : 0.0;\<close> of the branch \<^verbatim>\<open>a >= 0.0\<close>, and
  \<^verbatim>\<open>l = a > -b ? a : -b; l = l < 0.0 ? l : 0.0;\<close> of the other branch.
\<close>

definition limit_db :: "real \<Rightarrow> real \<Rightarrow> real" where
  "limit_db a b =
    (if a \<ge> 0
     then (let l = (if a < - b then a else - b) in (if l > 0 then l else 0))
     else (let l = (if a > - b then a else - b) in (if l < 0 then l else 0)))"

section \<open>Step 1: left and right states at the x1-interfaces and the x1-fluxes\<close>

text \<open>Step 1a: load the 1D vector \<^verbatim>\<open>U1d = (d, M1, M2, M3, E, B2c, B3c, s[n])\<close>.\<close>

definition step1a_cell :: "Config \<Rightarrow> Grid \<Rightarrow> int \<Rightarrow> int \<Rightarrow> int \<Rightarrow> Scratch \<Rightarrow> Scratch" where
  "step1a_cell cfg pG k j i sc =
    (let u = U1d sc i;
         u = u\<lparr>c_d := g_d (U pG k j i)\<rparr>;
         u = u\<lparr>c_Mx := g_M1 (U pG k j i)\<rparr>;
         u = u\<lparr>c_My := g_M2 (U pG k j i)\<rparr>;
         u = u\<lparr>c_Mz := g_M3 (U pG k j i)\<rparr>;
         u = (if BAROTROPIC cfg then u else u\<lparr>c_E := g_E (U pG k j i)\<rparr>);
         u = (if MHD cfg
              then u\<lparr>c_By := g_B2c (U pG k j i), c_Bz := g_B3c (U pG k j i)\<rparr> else u);
         sc = (if MHD cfg
               then sc\<lparr>Bxc := (Bxc sc)(i := g_B1c (U pG k j i)),
                       Bxi := (Bxi sc)(i := B1i pG k j i),
                       B1_x1Face := upd3 (B1_x1Face sc) k j i (B1i pG k j i)\<rparr>
               else sc);
         u = u\<lparr>c_s := for_scalars (NSCALARS cfg) (\<lambda>n sn. g_s (U pG k j i) n) (c_s u)\<rparr>
     in sc\<lparr>U1d := (U1d sc)(i := u)\<rparr>)"

text \<open>Step 1b: primitive variables, reconstruction, and the MHD source terms for \<open>dt/2\<close>.\<close>

definition step1b_prim :: "Ext \<Rightarrow> int \<Rightarrow> Scratch \<Rightarrow> Scratch" where
  "step1b_prim ext i sc =
    sc\<lparr>W := (W sc)(i := Cons1D_to_Prim1D ext (U1d sc i) (Bxc sc i))\<rparr>"

definition step1b_lr :: "Ext \<Rightarrow> Locals \<Rightarrow> Grid \<Rightarrow> Scratch \<Rightarrow> Scratch" where
  "step1b_lr ext lv pG sc =
    (case lr_states ext (W sc) (Bxc sc) (dt pG) (dtodx1 lv) (l_is lv - 1) (l_ie lv + 1)
            (Wl sc) (Wr sc) of
       (wl, wr) \<Rightarrow> sc\<lparr>Wl := wl, Wr := wr\<rparr>)"

definition step1b_src_l :: "Locals \<Rightarrow> Grid \<Rightarrow> int \<Rightarrow> int \<Rightarrow> int \<Rightarrow> Prim1D \<Rightarrow> Prim1D" where
  "step1b_src_l lv pG k j i wl =
    (let db1 = (B1i pG k j i - B1i pG k j (i - 1)) * dx1i lv;
         db2 = (B2i pG k (j + 1) (i - 1) - B2i pG k j (i - 1)) * dx2i lv;
         db3 = (B3i pG (k + 1) j (i - 1) - B3i pG k j (i - 1)) * dx3i lv;
         l3 = limit_db db1 db3;
         l2 = limit_db db1 db2;
         MHD_src_By = (g_M2 (U pG k j (i - 1)) / g_d (U pG k j (i - 1))) * l2;
         MHD_src_Bz = (g_M3 (U pG k j (i - 1)) / g_d (U pG k j (i - 1))) * l3;
         wl = wl\<lparr>w_By := w_By wl + hdt lv * MHD_src_By\<rparr>;
         wl = wl\<lparr>w_Bz := w_Bz wl + hdt lv * MHD_src_Bz\<rparr>
     in wl)"

definition step1b_src_r :: "Locals \<Rightarrow> Grid \<Rightarrow> int \<Rightarrow> int \<Rightarrow> int \<Rightarrow> Prim1D \<Rightarrow> Prim1D" where
  "step1b_src_r lv pG k j i wr =
    (let db1 = (B1i pG k j (i + 1) - B1i pG k j i) * dx1i lv;
         db2 = (B2i pG k (j + 1) i - B2i pG k j i) * dx2i lv;
         db3 = (B3i pG (k + 1) j i - B3i pG k j i) * dx3i lv;
         l3 = limit_db db1 db3;
         l2 = limit_db db1 db2;
         MHD_src_By = (g_M2 (U pG k j i) / g_d (U pG k j i)) * l2;
         MHD_src_Bz = (g_M3 (U pG k j i) / g_d (U pG k j i)) * l3;
         wr = wr\<lparr>w_By := w_By wr + hdt lv * MHD_src_By\<rparr>;
         wr = wr\<lparr>w_Bz := w_Bz wr + hdt lv * MHD_src_Bz\<rparr>
     in wr)"

definition step1b_mhd_cell :: "Locals \<Rightarrow> Grid \<Rightarrow> int \<Rightarrow> int \<Rightarrow> int \<Rightarrow> Scratch \<Rightarrow> Scratch" where
  "step1b_mhd_cell lv pG k j i sc =
    sc\<lparr>Wl := (Wl sc)(i := step1b_src_l lv pG k j i (Wl sc i)),
       Wr := (Wr sc)(i := step1b_src_r lv pG k j i (Wr sc i))\<rparr>"

definition step1b_mhd :: "Locals \<Rightarrow> Grid \<Rightarrow> int \<Rightarrow> int \<Rightarrow> Scratch \<Rightarrow> Scratch" where
  "step1b_mhd lv pG k j sc =
    fold (\<lambda>i. step1b_mhd_cell lv pG k j i) [l_is lv - 1..l_ie lv + 2] sc"

text \<open>Step 1c: source terms of the static potential, of self-gravity, of cooling and of the shearing box for \<open>dt/2\<close>.\<close>

definition step1c_grav_cell ::
  "Ext \<Rightarrow> Locals \<Rightarrow> Grid \<Rightarrow> (real \<Rightarrow> real \<Rightarrow> real \<Rightarrow> real) \<Rightarrow> int \<Rightarrow> int \<Rightarrow> int \<Rightarrow>
   Scratch \<Rightarrow> Scratch" where
  "step1c_grav_cell ext lv pG phi k j i sc =
    (case cc_pos ext i j k of (x1, x2, x3) \<Rightarrow>
      (let phicr = phi x1 x2 x3;
           phicl = phi (x1 - dx1 pG) x2 x3;
           phifc = phi (x1 - 0.5 * dx1 pG) x2 x3
       in sc\<lparr>Wl := (Wl sc)(i := (Wl sc i)\<lparr>w_Vx := w_Vx (Wl sc i) - dtodx1 lv * (phifc - phicl)\<rparr>),
             Wr := (Wr sc)(i := (Wr sc i)\<lparr>w_Vx := w_Vx (Wr sc i) - dtodx1 lv * (phicr - phifc)\<rparr>)\<rparr>))"

definition step1c_selfg_cell :: "Locals \<Rightarrow> Grid \<Rightarrow> int \<Rightarrow> int \<Rightarrow> int \<Rightarrow> Scratch \<Rightarrow> Scratch" where
  "step1c_selfg_cell lv pG k j i sc =
    sc\<lparr>Wl := (Wl sc)(i := (Wl sc i)\<lparr>w_Vx := w_Vx (Wl sc i) - q1 lv * (Phi pG k j i - Phi pG k j (i - 1))\<rparr>),
       Wr := (Wr sc)(i := (Wr sc i)\<lparr>w_Vx := w_Vx (Wr sc i) - q1 lv * (Phi pG k j i - Phi pG k j (i - 1))\<rparr>)\<rparr>"

definition step1c_cool_cell ::
  "Config \<Rightarrow> Grid \<Rightarrow> (real \<Rightarrow> real \<Rightarrow> real \<Rightarrow> real) \<Rightarrow> int \<Rightarrow> Scratch \<Rightarrow> Scratch" where
  "step1c_cool_cell cfg pG cool i sc =
    (let coolfl = cool (w_d (Wl sc i)) (w_P (Wl sc i)) (0.5 * dt pG);
         coolfr = cool (w_d (Wr sc i)) (w_P (Wr sc i)) (0.5 * dt pG)
     in sc\<lparr>Wl := (Wl sc)(i := (Wl sc i)\<lparr>w_P := w_P (Wl sc i) - 0.5 * dt pG * Gamma_1 cfg * coolfl\<rparr>),
           Wr := (Wr sc)(i := (Wr sc i)\<lparr>w_P := w_P (Wr sc i) - 0.5 * dt pG * Gamma_1 cfg * coolfr\<rparr>)\<rparr>)"

definition step1c_shear_l :: "Config \<Rightarrow> Grid \<Rightarrow> Prim1D \<Rightarrow> Prim1D \<Rightarrow> Prim1D" where
  "step1c_shear_l cfg pG w wl =
    (let wl = wl\<lparr>w_Vx := w_Vx wl + dt pG * Omega cfg * w_Vy w\<rparr>;
         wl = (if FARGO cfg then wl\<lparr>w_Vy := w_Vy wl - 0.25 * dt pG * Omega cfg * w_Vx w\<rparr>
               else wl\<lparr>w_Vy := w_Vy wl - dt pG * Omega cfg * w_Vx w\<rparr>)
     in wl)"

definition step1c_shear_cell :: "Config \<Rightarrow> Grid \<Rightarrow> int \<Rightarrow> Scratch \<Rightarrow> Scratch" where
  "step1c_shear_cell cfg pG i sc =
    sc\<lparr>Wl := (Wl sc)(i := step1c_shear_l cfg pG (W sc (i - 1)) (Wl sc i)),
       Wr := (Wr sc)(i := step1c_shear_l cfg pG (W sc i) (Wr sc i))\<rparr>"

definition step1c_shear :: "Config \<Rightarrow> Locals \<Rightarrow> Grid \<Rightarrow> Scratch \<Rightarrow> Scratch" where
  "step1c_shear cfg lv pG sc = fold (step1c_shear_cell cfg pG) [l_is lv - 1..l_ie lv + 2] sc"

text \<open>
  The source terms that Steps 1b and 1c add to the reconstructed states of one pencil.
\<close>

definition step1_sources :: "Config \<Rightarrow> Ext \<Rightarrow> Locals \<Rightarrow> Grid \<Rightarrow> int \<Rightarrow> int \<Rightarrow> Scratch \<Rightarrow> Scratch" where
  "step1_sources cfg ext lv pG k j sc =
    (let sc = (if MHD cfg then step1b_mhd lv pG k j sc else sc);
         sc = (case StaticGravPot ext of None \<Rightarrow> sc
               | Some phi \<Rightarrow> fold (\<lambda>i. step1c_grav_cell ext lv pG phi k j i) [l_is lv - 1..l_ie lv + 2] sc);
         sc = (if SELF_GRAVITY cfg
               then fold (\<lambda>i. step1c_selfg_cell lv pG k j i) [l_is lv - 1..l_ie lv + 2] sc else sc);
         sc = (if BAROTROPIC cfg then sc
               else (case CoolingFunc ext of None \<Rightarrow> sc
                     | Some cool \<Rightarrow> fold (step1c_cool_cell cfg pG cool) [l_is lv - 1..l_ie lv + 2] sc));
         sc = (if SHEARING_BOX cfg then step1c_shear cfg lv pG sc else sc)
     in sc)"

text \<open>Step 1d: the 1D fluxes in the x1-direction.\<close>

definition step1d_cell :: "Ext \<Rightarrow> int \<Rightarrow> int \<Rightarrow> int \<Rightarrow> Scratch \<Rightarrow> Scratch" where
  "step1d_cell ext k j i sc =
    (let sc = sc\<lparr>Ul_x1Face := upd3 (Ul_x1Face sc) k j i (Prim1D_to_Cons1D ext (Wl sc i) (Bxi sc i))\<rparr>;
         sc = sc\<lparr>Ur_x1Face := upd3 (Ur_x1Face sc) k j i (Prim1D_to_Cons1D ext (Wr sc i) (Bxi sc i))\<rparr>
     in sc\<lparr>x1Flux := upd3 (x1Flux sc) k j i
          (GET_FLUXES ext (etah sc) (Ul_x1Face sc k j i) (Ur_x1Face sc k j i)
             (Wl sc i) (Wr sc i) (B1_x1Face sc k j i))\<rparr>)"

definition step1_pencil :: "Config \<Rightarrow> Ext \<Rightarrow> Locals \<Rightarrow> Grid \<Rightarrow> int \<Rightarrow> int \<Rightarrow> Scratch \<Rightarrow> Scratch" where
  "step1_pencil cfg ext lv pG k j sc =
    (let sc = fold (\<lambda>i. step1a_cell cfg pG k j i) [l_is lv - nghost cfg..l_ie lv + nghost cfg] sc;
         sc = fold (step1b_prim ext) [l_is lv - nghost cfg..l_ie lv + nghost cfg] sc;
         sc = step1b_lr ext lv pG sc;
         sc = step1_sources cfg ext lv pG k j sc;
         sc = fold (\<lambda>i. step1d_cell ext k j i) [l_is lv - 1..l_ie lv + 2] sc
     in sc)"

definition step1 :: "Config \<Rightarrow> Ext \<Rightarrow> Locals \<Rightarrow> Grid \<Rightarrow> Scratch \<Rightarrow> Scratch" where
  "step1 cfg ext lv pG sc =
    fold (\<lambda>k. fold (\<lambda>j. step1_pencil cfg ext lv pG k j) [l_js lv - 2..l_je lv + 2])
      [l_ks lv - 2..l_ke lv + 2] sc"

section \<open>Step 2: left and right states at the x2-interfaces and the x2-fluxes\<close>

text \<open>Step 2a: load the 1D vector \<^verbatim>\<open>U1d = (d, M2, M3, M1, E, B3c, B1c, s[n])\<close>.\<close>

definition step2a_cell :: "Config \<Rightarrow> Grid \<Rightarrow> int \<Rightarrow> int \<Rightarrow> int \<Rightarrow> Scratch \<Rightarrow> Scratch" where
  "step2a_cell cfg pG k j i sc =
    (let u = U1d sc j;
         u = u\<lparr>c_d := g_d (U pG k j i)\<rparr>;
         u = u\<lparr>c_Mx := g_M2 (U pG k j i)\<rparr>;
         u = u\<lparr>c_My := g_M3 (U pG k j i)\<rparr>;
         u = u\<lparr>c_Mz := g_M1 (U pG k j i)\<rparr>;
         u = (if BAROTROPIC cfg then u else u\<lparr>c_E := g_E (U pG k j i)\<rparr>);
         u = (if MHD cfg
              then u\<lparr>c_By := g_B3c (U pG k j i), c_Bz := g_B1c (U pG k j i)\<rparr> else u);
         sc = (if MHD cfg
               then sc\<lparr>Bxc := (Bxc sc)(j := g_B2c (U pG k j i)),
                       Bxi := (Bxi sc)(j := B2i pG k j i),
                       B2_x2Face := upd3 (B2_x2Face sc) k j i (B2i pG k j i)\<rparr>
               else sc);
         u = u\<lparr>c_s := for_scalars (NSCALARS cfg) (\<lambda>n sn. g_s (U pG k j i) n) (c_s u)\<rparr>
     in sc\<lparr>U1d := (U1d sc)(j := u)\<rparr>)"

text \<open>Step 2b: primitive variables, reconstruction, and the MHD source terms for \<open>dt/2\<close>.\<close>

definition step2b_prim :: "Ext \<Rightarrow> int \<Rightarrow> Scratch \<Rightarrow> Scratch" where
  "step2b_prim ext j sc =
    sc\<lparr>W := (W sc)(j := Cons1D_to_Prim1D ext (U1d sc j) (Bxc sc j))\<rparr>"

definition step2b_lr :: "Ext \<Rightarrow> Locals \<Rightarrow> Grid \<Rightarrow> Scratch \<Rightarrow> Scratch" where
  "step2b_lr ext lv pG sc =
    (case lr_states ext (W sc) (Bxc sc) (dt pG) (dtodx2 lv) (l_js lv - 1) (l_je lv + 1)
            (Wl sc) (Wr sc) of
       (wl, wr) \<Rightarrow> sc\<lparr>Wl := wl, Wr := wr\<rparr>)"

definition step2b_src_l :: "Locals \<Rightarrow> Grid \<Rightarrow> int \<Rightarrow> int \<Rightarrow> int \<Rightarrow> Prim1D \<Rightarrow> Prim1D" where
  "step2b_src_l lv pG k j i wl =
    (let db1 = (B1i pG k (j - 1) (i + 1) - B1i pG k (j - 1) i) * dx1i lv;
         db2 = (B2i pG k j i - B2i pG k (j - 1) i) * dx2i lv;
         db3 = (B3i pG (k + 1) (j - 1) i - B3i pG k (j - 1) i) * dx3i lv;
         l1 = limit_db db2 db1;
         l3 = limit_db db2 db3;
         MHD_src_By = (g_M3 (U pG k (j - 1) i) / g_d (U pG k (j - 1) i)) * l3;
         MHD_src_Bz = (g_M1 (U pG k (j - 1) i) / g_d (U pG k (j - 1) i)) * l1;
         wl = wl\<lparr>w_By := w_By wl + hdt lv * MHD_src_By\<rparr>;
         wl = wl\<lparr>w_Bz := w_Bz wl + hdt lv * MHD_src_Bz\<rparr>
     in wl)"

definition step2b_src_r :: "Locals \<Rightarrow> Grid \<Rightarrow> int \<Rightarrow> int \<Rightarrow> int \<Rightarrow> Prim1D \<Rightarrow> Prim1D" where
  "step2b_src_r lv pG k j i wr =
    (let db1 = (B1i pG k j (i + 1) - B1i pG k j i) * dx1i lv;
         db2 = (B2i pG k (j + 1) i - B2i pG k j i) * dx2i lv;
         db3 = (B3i pG (k + 1) j i - B3i pG k j i) * dx3i lv;
         l1 = limit_db db2 db1;
         l3 = limit_db db2 db3;
         MHD_src_By = (g_M3 (U pG k j i) / g_d (U pG k j i)) * l3;
         MHD_src_Bz = (g_M1 (U pG k j i) / g_d (U pG k j i)) * l1;
         wr = wr\<lparr>w_By := w_By wr + hdt lv * MHD_src_By\<rparr>;
         wr = wr\<lparr>w_Bz := w_Bz wr + hdt lv * MHD_src_Bz\<rparr>
     in wr)"

definition step2b_mhd_cell :: "Locals \<Rightarrow> Grid \<Rightarrow> int \<Rightarrow> int \<Rightarrow> int \<Rightarrow> Scratch \<Rightarrow> Scratch" where
  "step2b_mhd_cell lv pG k j i sc =
    sc\<lparr>Wl := (Wl sc)(j := step2b_src_l lv pG k j i (Wl sc j)),
       Wr := (Wr sc)(j := step2b_src_r lv pG k j i (Wr sc j))\<rparr>"

definition step2b_mhd :: "Locals \<Rightarrow> Grid \<Rightarrow> int \<Rightarrow> int \<Rightarrow> Scratch \<Rightarrow> Scratch" where
  "step2b_mhd lv pG k i sc =
    fold (\<lambda>j. step2b_mhd_cell lv pG k j i) [l_js lv - 1..l_je lv + 2] sc"

text \<open>Step 2c: source terms of the static potential, of self-gravity and of cooling for \<open>dt/2\<close>.\<close>

definition step2c_grav_cell ::
  "Ext \<Rightarrow> Locals \<Rightarrow> Grid \<Rightarrow> (real \<Rightarrow> real \<Rightarrow> real \<Rightarrow> real) \<Rightarrow> int \<Rightarrow> int \<Rightarrow> int \<Rightarrow>
   Scratch \<Rightarrow> Scratch" where
  "step2c_grav_cell ext lv pG phi k j i sc =
    (case cc_pos ext i j k of (x1, x2, x3) \<Rightarrow>
      (let phicr = phi x1 x2 x3;
           phicl = phi x1 (x2 - dx2 pG) x3;
           phifc = phi x1 (x2 - 0.5 * dx2 pG) x3
       in sc\<lparr>Wl := (Wl sc)(j := (Wl sc j)\<lparr>w_Vx := w_Vx (Wl sc j) - dtodx2 lv * (phifc - phicl)\<rparr>),
             Wr := (Wr sc)(j := (Wr sc j)\<lparr>w_Vx := w_Vx (Wr sc j) - dtodx2 lv * (phicr - phifc)\<rparr>)\<rparr>))"

definition step2c_selfg_cell :: "Locals \<Rightarrow> Grid \<Rightarrow> int \<Rightarrow> int \<Rightarrow> int \<Rightarrow> Scratch \<Rightarrow> Scratch" where
  "step2c_selfg_cell lv pG k j i sc =
    sc\<lparr>Wl := (Wl sc)(j := (Wl sc j)\<lparr>w_Vx := w_Vx (Wl sc j) - q2 lv * (Phi pG k j i - Phi pG k (j - 1) i)\<rparr>),
       Wr := (Wr sc)(j := (Wr sc j)\<lparr>w_Vx := w_Vx (Wr sc j) - q2 lv * (Phi pG k j i - Phi pG k (j - 1) i)\<rparr>)\<rparr>"

definition step2c_cool_cell ::
  "Config \<Rightarrow> Grid \<Rightarrow> (real \<Rightarrow> real \<Rightarrow> real \<Rightarrow> real) \<Rightarrow> int \<Rightarrow> Scratch \<Rightarrow> Scratch" where
  "step2c_cool_cell cfg pG cool j sc =
    (let coolfl = cool (w_d (Wl sc j)) (w_P (Wl sc j)) (0.5 * dt pG);
         coolfr = cool (w_d (Wr sc j)) (w_P (Wr sc j)) (0.5 * dt pG)
     in sc\<lparr>Wl := (Wl sc)(j := (Wl sc j)\<lparr>w_P := w_P (Wl sc j) - 0.5 * dt pG * Gamma_1 cfg * coolfl\<rparr>),
           Wr := (Wr sc)(j := (Wr sc j)\<lparr>w_P := w_P (Wr sc j) - 0.5 * dt pG * Gamma_1 cfg * coolfr\<rparr>)\<rparr>)"

text \<open>
  The source terms that Steps 2b and 2c add to the reconstructed states of one pencil.
\<close>

definition step2_sources :: "Config \<Rightarrow> Ext \<Rightarrow> Locals \<Rightarrow> Grid \<Rightarrow> int \<Rightarrow> int \<Rightarrow> Scratch \<Rightarrow> Scratch" where
  "step2_sources cfg ext lv pG k i sc =
    (let sc = (if MHD cfg then step2b_mhd lv pG k i sc else sc);
         sc = (case StaticGravPot ext of None \<Rightarrow> sc
               | Some phi \<Rightarrow> fold (\<lambda>j. step2c_grav_cell ext lv pG phi k j i) [l_js lv - 1..l_je lv + 2] sc);
         sc = (if SELF_GRAVITY cfg
               then fold (\<lambda>j. step2c_selfg_cell lv pG k j i) [l_js lv - 1..l_je lv + 2] sc else sc);
         sc = (if BAROTROPIC cfg then sc
               else (case CoolingFunc ext of None \<Rightarrow> sc
                     | Some cool \<Rightarrow> fold (step2c_cool_cell cfg pG cool) [l_js lv - 1..l_je lv + 2] sc))
     in sc)"

text \<open>Step 2d: the 1D fluxes in the x2-direction.\<close>

definition step2d_cell :: "Ext \<Rightarrow> int \<Rightarrow> int \<Rightarrow> int \<Rightarrow> Scratch \<Rightarrow> Scratch" where
  "step2d_cell ext k j i sc =
    (let sc = sc\<lparr>Ul_x2Face := upd3 (Ul_x2Face sc) k j i (Prim1D_to_Cons1D ext (Wl sc j) (Bxi sc j))\<rparr>;
         sc = sc\<lparr>Ur_x2Face := upd3 (Ur_x2Face sc) k j i (Prim1D_to_Cons1D ext (Wr sc j) (Bxi sc j))\<rparr>
     in sc\<lparr>x2Flux := upd3 (x2Flux sc) k j i
          (GET_FLUXES ext (etah sc) (Ul_x2Face sc k j i) (Ur_x2Face sc k j i)
             (Wl sc j) (Wr sc j) (B2_x2Face sc k j i))\<rparr>)"

definition step2_pencil :: "Config \<Rightarrow> Ext \<Rightarrow> Locals \<Rightarrow> Grid \<Rightarrow> int \<Rightarrow> int \<Rightarrow> Scratch \<Rightarrow> Scratch" where
  "step2_pencil cfg ext lv pG k i sc =
    (let sc = fold (\<lambda>j. step2a_cell cfg pG k j i) [l_js lv - nghost cfg..l_je lv + nghost cfg] sc;
         sc = fold (step2b_prim ext) [l_js lv - nghost cfg..l_je lv + nghost cfg] sc;
         sc = step2b_lr ext lv pG sc;
         sc = step2_sources cfg ext lv pG k i sc;
         sc = fold (\<lambda>j. step2d_cell ext k j i) [l_js lv - 1..l_je lv + 2] sc
     in sc)"

definition step2 :: "Config \<Rightarrow> Ext \<Rightarrow> Locals \<Rightarrow> Grid \<Rightarrow> Scratch \<Rightarrow> Scratch" where
  "step2 cfg ext lv pG sc =
    fold (\<lambda>k. fold (\<lambda>i. step2_pencil cfg ext lv pG k i) [l_is lv - 2..l_ie lv + 2])
      [l_ks lv - 2..l_ke lv + 2] sc"

section \<open>Step 3: left and right states at the x3-interfaces and the x3-fluxes\<close>

text \<open>Step 3a: load the 1D vector \<^verbatim>\<open>U1d = (d, M3, M1, M2, E, B1c, B2c, s[n])\<close>.\<close>

definition step3a_cell :: "Config \<Rightarrow> Grid \<Rightarrow> int \<Rightarrow> int \<Rightarrow> int \<Rightarrow> Scratch \<Rightarrow> Scratch" where
  "step3a_cell cfg pG k j i sc =
    (let u = U1d sc k;
         u = u\<lparr>c_d := g_d (U pG k j i)\<rparr>;
         u = u\<lparr>c_Mx := g_M3 (U pG k j i)\<rparr>;
         u = u\<lparr>c_My := g_M1 (U pG k j i)\<rparr>;
         u = u\<lparr>c_Mz := g_M2 (U pG k j i)\<rparr>;
         u = (if BAROTROPIC cfg then u else u\<lparr>c_E := g_E (U pG k j i)\<rparr>);
         u = (if MHD cfg
              then u\<lparr>c_By := g_B1c (U pG k j i), c_Bz := g_B2c (U pG k j i)\<rparr> else u);
         sc = (if MHD cfg
               then sc\<lparr>Bxc := (Bxc sc)(k := g_B3c (U pG k j i)),
                       Bxi := (Bxi sc)(k := B3i pG k j i),
                       B3_x3Face := upd3 (B3_x3Face sc) k j i (B3i pG k j i)\<rparr>
               else sc);
         u = u\<lparr>c_s := for_scalars (NSCALARS cfg) (\<lambda>n sn. g_s (U pG k j i) n) (c_s u)\<rparr>
     in sc\<lparr>U1d := (U1d sc)(k := u)\<rparr>)"

text \<open>Step 3b: primitive variables, reconstruction, and the MHD source terms for \<open>dt/2\<close>.\<close>

definition step3b_prim :: "Ext \<Rightarrow> int \<Rightarrow> Scratch \<Rightarrow> Scratch" where
  "step3b_prim ext k sc =
    sc\<lparr>W := (W sc)(k := Cons1D_to_Prim1D ext (U1d sc k) (Bxc sc k))\<rparr>"

definition step3b_lr :: "Ext \<Rightarrow> Locals \<Rightarrow> Grid \<Rightarrow> Scratch \<Rightarrow> Scratch" where
  "step3b_lr ext lv pG sc =
    (case lr_states ext (W sc) (Bxc sc) (dt pG) (dtodx3 lv) (l_ks lv - 1) (l_ke lv + 1)
            (Wl sc) (Wr sc) of
       (wl, wr) \<Rightarrow> sc\<lparr>Wl := wl, Wr := wr\<rparr>)"

definition step3b_src_l :: "Locals \<Rightarrow> Grid \<Rightarrow> int \<Rightarrow> int \<Rightarrow> int \<Rightarrow> Prim1D \<Rightarrow> Prim1D" where
  "step3b_src_l lv pG k j i wl =
    (let db1 = (B1i pG (k - 1) j (i + 1) - B1i pG (k - 1) j i) * dx1i lv;
         db2 = (B2i pG (k - 1) (j + 1) i - B2i pG (k - 1) j i) * dx2i lv;
         db3 = (B3i pG k j i - B3i pG (k - 1) j i) * dx3i lv;
         l1 = limit_db db3 db1;
         l2 = limit_db db3 db2;
         MHD_src_By = (g_M1 (U pG (k - 1) j i) / g_d (U pG (k - 1) j i)) * l1;
         MHD_src_Bz = (g_M2 (U pG (k - 1) j i) / g_d (U pG (k - 1) j i)) * l2;
         wl = wl\<lparr>w_By := w_By wl + hdt lv * MHD_src_By\<rparr>;
         wl = wl\<lparr>w_Bz := w_Bz wl + hdt lv * MHD_src_Bz\<rparr>
     in wl)"

definition step3b_src_r :: "Locals \<Rightarrow> Grid \<Rightarrow> int \<Rightarrow> int \<Rightarrow> int \<Rightarrow> Prim1D \<Rightarrow> Prim1D" where
  "step3b_src_r lv pG k j i wr =
    (let db1 = (B1i pG k j (i + 1) - B1i pG k j i) * dx1i lv;
         db2 = (B2i pG k (j + 1) i - B2i pG k j i) * dx2i lv;
         db3 = (B3i pG (k + 1) j i - B3i pG k j i) * dx3i lv;
         l1 = limit_db db3 db1;
         l2 = limit_db db3 db2;
         MHD_src_By = (g_M1 (U pG k j i) / g_d (U pG k j i)) * l1;
         MHD_src_Bz = (g_M2 (U pG k j i) / g_d (U pG k j i)) * l2;
         wr = wr\<lparr>w_By := w_By wr + hdt lv * MHD_src_By\<rparr>;
         wr = wr\<lparr>w_Bz := w_Bz wr + hdt lv * MHD_src_Bz\<rparr>
     in wr)"

definition step3b_mhd_cell :: "Locals \<Rightarrow> Grid \<Rightarrow> int \<Rightarrow> int \<Rightarrow> int \<Rightarrow> Scratch \<Rightarrow> Scratch" where
  "step3b_mhd_cell lv pG k j i sc =
    sc\<lparr>Wl := (Wl sc)(k := step3b_src_l lv pG k j i (Wl sc k)),
       Wr := (Wr sc)(k := step3b_src_r lv pG k j i (Wr sc k))\<rparr>"

definition step3b_mhd :: "Locals \<Rightarrow> Grid \<Rightarrow> int \<Rightarrow> int \<Rightarrow> Scratch \<Rightarrow> Scratch" where
  "step3b_mhd lv pG j i sc =
    fold (\<lambda>k. step3b_mhd_cell lv pG k j i) [l_ks lv - 1..l_ke lv + 2] sc"

text \<open>Step 3c: source terms of the static potential, of self-gravity and of cooling for \<open>dt/2\<close>.\<close>

definition step3c_grav_cell ::
  "Ext \<Rightarrow> Locals \<Rightarrow> Grid \<Rightarrow> (real \<Rightarrow> real \<Rightarrow> real \<Rightarrow> real) \<Rightarrow> int \<Rightarrow> int \<Rightarrow> int \<Rightarrow>
   Scratch \<Rightarrow> Scratch" where
  "step3c_grav_cell ext lv pG phi k j i sc =
    (case cc_pos ext i j k of (x1, x2, x3) \<Rightarrow>
      (let phicr = phi x1 x2 x3;
           phicl = phi x1 x2 (x3 - dx3 pG);
           phifc = phi x1 x2 (x3 - 0.5 * dx3 pG)
       in sc\<lparr>Wl := (Wl sc)(k := (Wl sc k)\<lparr>w_Vx := w_Vx (Wl sc k) - dtodx3 lv * (phifc - phicl)\<rparr>),
             Wr := (Wr sc)(k := (Wr sc k)\<lparr>w_Vx := w_Vx (Wr sc k) - dtodx3 lv * (phicr - phifc)\<rparr>)\<rparr>))"

definition step3c_selfg_cell :: "Locals \<Rightarrow> Grid \<Rightarrow> int \<Rightarrow> int \<Rightarrow> int \<Rightarrow> Scratch \<Rightarrow> Scratch" where
  "step3c_selfg_cell lv pG k j i sc =
    sc\<lparr>Wl := (Wl sc)(k := (Wl sc k)\<lparr>w_Vx := w_Vx (Wl sc k) - q3 lv * (Phi pG k j i - Phi pG (k - 1) j i)\<rparr>),
       Wr := (Wr sc)(k := (Wr sc k)\<lparr>w_Vx := w_Vx (Wr sc k) - q3 lv * (Phi pG k j i - Phi pG (k - 1) j i)\<rparr>)\<rparr>"

definition step3c_cool_cell ::
  "Config \<Rightarrow> Grid \<Rightarrow> (real \<Rightarrow> real \<Rightarrow> real \<Rightarrow> real) \<Rightarrow> int \<Rightarrow> Scratch \<Rightarrow> Scratch" where
  "step3c_cool_cell cfg pG cool k sc =
    (let coolfl = cool (w_d (Wl sc k)) (w_P (Wl sc k)) (0.5 * dt pG);
         coolfr = cool (w_d (Wr sc k)) (w_P (Wr sc k)) (0.5 * dt pG)
     in sc\<lparr>Wl := (Wl sc)(k := (Wl sc k)\<lparr>w_P := w_P (Wl sc k) - 0.5 * dt pG * Gamma_1 cfg * coolfl\<rparr>),
           Wr := (Wr sc)(k := (Wr sc k)\<lparr>w_P := w_P (Wr sc k) - 0.5 * dt pG * Gamma_1 cfg * coolfr\<rparr>)\<rparr>)"

text \<open>
  The source terms that Steps 3b and 3c add to the reconstructed states of one pencil.
\<close>

definition step3_sources :: "Config \<Rightarrow> Ext \<Rightarrow> Locals \<Rightarrow> Grid \<Rightarrow> int \<Rightarrow> int \<Rightarrow> Scratch \<Rightarrow> Scratch" where
  "step3_sources cfg ext lv pG j i sc =
    (let sc = (if MHD cfg then step3b_mhd lv pG j i sc else sc);
         sc = (case StaticGravPot ext of None \<Rightarrow> sc
               | Some phi \<Rightarrow> fold (\<lambda>k. step3c_grav_cell ext lv pG phi k j i) [l_ks lv - 1..l_ke lv + 2] sc);
         sc = (if SELF_GRAVITY cfg
               then fold (\<lambda>k. step3c_selfg_cell lv pG k j i) [l_ks lv - 1..l_ke lv + 2] sc else sc);
         sc = (if BAROTROPIC cfg then sc
               else (case CoolingFunc ext of None \<Rightarrow> sc
                     | Some cool \<Rightarrow> fold (step3c_cool_cell cfg pG cool) [l_ks lv - 1..l_ke lv + 2] sc))
     in sc)"

text \<open>Step 3d: the 1D fluxes in the x3-direction.\<close>

definition step3d_cell :: "Ext \<Rightarrow> int \<Rightarrow> int \<Rightarrow> int \<Rightarrow> Scratch \<Rightarrow> Scratch" where
  "step3d_cell ext k j i sc =
    (let sc = sc\<lparr>Ul_x3Face := upd3 (Ul_x3Face sc) k j i (Prim1D_to_Cons1D ext (Wl sc k) (Bxi sc k))\<rparr>;
         sc = sc\<lparr>Ur_x3Face := upd3 (Ur_x3Face sc) k j i (Prim1D_to_Cons1D ext (Wr sc k) (Bxi sc k))\<rparr>
     in sc\<lparr>x3Flux := upd3 (x3Flux sc) k j i
          (GET_FLUXES ext (etah sc) (Ul_x3Face sc k j i) (Ur_x3Face sc k j i)
             (Wl sc k) (Wr sc k) (B3_x3Face sc k j i))\<rparr>)"

definition step3_pencil :: "Config \<Rightarrow> Ext \<Rightarrow> Locals \<Rightarrow> Grid \<Rightarrow> int \<Rightarrow> int \<Rightarrow> Scratch \<Rightarrow> Scratch" where
  "step3_pencil cfg ext lv pG j i sc =
    (let sc = fold (\<lambda>k. step3a_cell cfg pG k j i) [l_ks lv - nghost cfg..l_ke lv + nghost cfg] sc;
         sc = fold (step3b_prim ext) [l_ks lv - nghost cfg..l_ke lv + nghost cfg] sc;
         sc = step3b_lr ext lv pG sc;
         sc = step3_sources cfg ext lv pG j i sc;
         sc = fold (\<lambda>k. step3d_cell ext k j i) [l_ks lv - 1..l_ke lv + 2] sc
     in sc)"

definition step3 :: "Config \<Rightarrow> Ext \<Rightarrow> Locals \<Rightarrow> Grid \<Rightarrow> Scratch \<Rightarrow> Scratch" where
  "step3 cfg ext lv pG sc =
    fold (\<lambda>j. fold (\<lambda>i. step3_pencil cfg ext lv pG j i) [l_is lv - 2..l_ie lv + 2])
      [l_js lv - 2..l_je lv + 2] sc"

section \<open>The limited source term in the words of the specification\<close>

text \<open>
  \<open>limited_spec a b\<close> is \<open>min a (- b)\<close> clipped below by \<open>0\<close> when \<open>a \<ge> 0\<close>, and
  \<open>max a (- b)\<close> clipped above by \<open>0\<close> when \<open>a < 0\<close>; \<open>db1_cell\<close>, \<open>db2_cell\<close>, \<open>db3_cell\<close>
  are the differences of the face field across cell \<open>(k, j, i)\<close> along the three axes.
\<close>

definition limited_spec :: "real \<Rightarrow> real \<Rightarrow> real" where
  "limited_spec a b = (if 0 \<le> a then max (min a (- b)) 0 else min (max a (- b)) 0)"

definition db1_cell :: "Grid \<Rightarrow> int \<Rightarrow> int \<Rightarrow> int \<Rightarrow> real" where
  "db1_cell pG k j i = (B1i pG k j (i + 1) - B1i pG k j i) / dx1 pG"

definition db2_cell :: "Grid \<Rightarrow> int \<Rightarrow> int \<Rightarrow> int \<Rightarrow> real" where
  "db2_cell pG k j i = (B2i pG k (j + 1) i - B2i pG k j i) / dx2 pG"

definition db3_cell :: "Grid \<Rightarrow> int \<Rightarrow> int \<Rightarrow> int \<Rightarrow> real" where
  "db3_cell pG k j i = (B3i pG (k + 1) j i - B3i pG k j i) / dx3 pG"

section \<open>The corner EMFs: \<^verbatim>\<open>integrate_emf1_corner\<close>, \<^verbatim>\<open>integrate_emf2_corner\<close>, \<^verbatim>\<open>integrate_emf3_corner\<close>\<close>

text \<open>
  The value that the loop body of \<^verbatim>\<open>integrate_emf1_corner\<close> stores in
  \<^verbatim>\<open>emf1[k][j][i]\<close>, as a function of the arrays it reads.
\<close>

definition emf1_corner_val ::
  "Cons1D array3 \<Rightarrow> Cons1D array3 \<Rightarrow> real array3 \<Rightarrow> int \<Rightarrow> int \<Rightarrow> int \<Rightarrow> real" where
  "emf1_corner_val x2F x3F e1cc k j i =
    (let de1_l3 =
           (if c_d (x2F (k - 1) j i) > 0 then c_Bz (x3F k (j - 1) i) - e1cc (k - 1) (j - 1) i
            else if c_d (x2F (k - 1) j i) < 0 then c_Bz (x3F k j i) - e1cc (k - 1) j i
            else 0.5 * (c_Bz (x3F k (j - 1) i) - e1cc (k - 1) (j - 1) i +
                        c_Bz (x3F k j i) - e1cc (k - 1) j i));
         de1_r3 =
           (if c_d (x2F k j i) > 0 then c_Bz (x3F k (j - 1) i) - e1cc k (j - 1) i
            else if c_d (x2F k j i) < 0 then c_Bz (x3F k j i) - e1cc k j i
            else 0.5 * (c_Bz (x3F k (j - 1) i) - e1cc k (j - 1) i +
                        c_Bz (x3F k j i) - e1cc k j i));
         de1_l2 =
           (if c_d (x3F k (j - 1) i) > 0 then - c_By (x2F (k - 1) j i) - e1cc (k - 1) (j - 1) i
            else if c_d (x3F k (j - 1) i) < 0 then - c_By (x2F k j i) - e1cc k (j - 1) i
            else 0.5 * (- c_By (x2F (k - 1) j i) - e1cc (k - 1) (j - 1) i
                        - c_By (x2F k j i) - e1cc k (j - 1) i));
         de1_r2 =
           (if c_d (x3F k j i) > 0 then - c_By (x2F (k - 1) j i) - e1cc (k - 1) j i
            else if c_d (x3F k j i) < 0 then - c_By (x2F k j i) - e1cc k j i
            else 0.5 * (- c_By (x2F (k - 1) j i) - e1cc (k - 1) j i
                        - c_By (x2F k j i) - e1cc k j i))
     in 0.25 * (c_Bz (x3F k j i) + c_Bz (x3F k (j - 1) i)
                - c_By (x2F k j i) - c_By (x2F (k - 1) j i)
                + de1_l2 + de1_r2 + de1_l3 + de1_r3))"

definition emf1_corner_cell :: "int \<Rightarrow> int \<Rightarrow> int \<Rightarrow> Scratch \<Rightarrow> Scratch" where
  "emf1_corner_cell k j i sc =
    sc\<lparr>emf1 := upd3 (emf1 sc) k j i
          (emf1_corner_val (x2Flux sc) (x3Flux sc) (emf1_cc sc) k j i)\<rparr>"

definition integrate_emf1_corner :: "Grid \<Rightarrow> Scratch \<Rightarrow> Scratch" where
  "integrate_emf1_corner pG sc =
    loop_kji (k_s pG - 1) (k_e pG + 2) (j_s pG - 1) (j_e pG + 2) (i_s pG - 2) (i_e pG + 2)
      emf1_corner_cell sc"

definition emf2_corner_val ::
  "Cons1D array3 \<Rightarrow> Cons1D array3 \<Rightarrow> real array3 \<Rightarrow> int \<Rightarrow> int \<Rightarrow> int \<Rightarrow> real" where
  "emf2_corner_val x1F x3F e2cc k j i =
    (let de2_l3 =
           (if c_d (x1F (k - 1) j i) > 0 then - c_By (x3F k j (i - 1)) - e2cc (k - 1) j (i - 1)
            else if c_d (x1F (k - 1) j i) < 0 then - c_By (x3F k j i) - e2cc (k - 1) j i
            else 0.5 * (- c_By (x3F k j (i - 1)) - e2cc (k - 1) j (i - 1)
                        - c_By (x3F k j i) - e2cc (k - 1) j i));
         de2_r3 =
           (if c_d (x1F k j i) > 0 then - c_By (x3F k j (i - 1)) - e2cc k j (i - 1)
            else if c_d (x1F k j i) < 0 then - c_By (x3F k j i) - e2cc k j i
            else 0.5 * (- c_By (x3F k j (i - 1)) - e2cc k j (i - 1)
                        - c_By (x3F k j i) - e2cc k j i));
         de2_l1 =
           (if c_d (x3F k j (i - 1)) > 0 then c_Bz (x1F (k - 1) j i) - e2cc (k - 1) j (i - 1)
            else if c_d (x3F k j (i - 1)) < 0 then c_Bz (x1F k j i) - e2cc k j (i - 1)
            else 0.5 * (c_Bz (x1F (k - 1) j i) - e2cc (k - 1) j (i - 1) +
                        c_Bz (x1F k j i) - e2cc k j (i - 1)));
         de2_r1 =
           (if c_d (x3F k j i) > 0 then c_Bz (x1F (k - 1) j i) - e2cc (k - 1) j i
            else if c_d (x3F k j i) < 0 then c_Bz (x1F k j i) - e2cc k j i
            else 0.5 * (c_Bz (x1F (k - 1) j i) - e2cc (k - 1) j i +
                        c_Bz (x1F k j i) - e2cc k j i))
     in 0.25 * (c_Bz (x1F k j i) + c_Bz (x1F (k - 1) j i)
                - c_By (x3F k j i) - c_By (x3F k j (i - 1))
                + de2_l1 + de2_r1 + de2_l3 + de2_r3))"

definition emf2_corner_cell :: "int \<Rightarrow> int \<Rightarrow> int \<Rightarrow> Scratch \<Rightarrow> Scratch" where
  "emf2_corner_cell k j i sc =
    sc\<lparr>emf2 := upd3 (emf2 sc) k j i
          (emf2_corner_val (x1Flux sc) (x3Flux sc) (emf2_cc sc) k j i)\<rparr>"

definition integrate_emf2_corner :: "Grid \<Rightarrow> Scratch \<Rightarrow> Scratch" where
  "integrate_emf2_corner pG sc =
    loop_kji (k_s pG - 1) (k_e pG + 2) (j_s pG - 2) (j_e pG + 2) (i_s pG - 1) (i_e pG + 2)
      emf2_corner_cell sc"

definition emf3_corner_val ::
  "Cons1D array3 \<Rightarrow> Cons1D array3 \<Rightarrow> real array3 \<Rightarrow> int \<Rightarrow> int \<Rightarrow> int \<Rightarrow> real" where
  "emf3_corner_val x1F x2F e3cc k j i =
    (let de3_l2 =
           (if c_d (x1F k (j - 1) i) > 0 then c_Bz (x2F k j (i - 1)) - e3cc k (j - 1) (i - 1)
            else if c_d (x1F k (j - 1) i) < 0 then c_Bz (x2F k j i) - e3cc k (j - 1) i
            else 0.5 * (c_Bz (x2F k j (i - 1)) - e3cc k (j - 1) (i - 1) +
                        c_Bz (x2F k j i) - e3cc k (j - 1) i));
         de3_r2 =
           (if c_d (x1F k j i) > 0 then c_Bz (x2F k j (i - 1)) - e3cc k j (i - 1)
            else if c_d (x1F k j i) < 0 then c_Bz (x2F k j i) - e3cc k j i
            else 0.5 * (c_Bz (x2F k j (i - 1)) - e3cc k j (i - 1) +
                        c_Bz (x2F k j i) - e3cc k j i));
         de3_l1 =
           (if c_d (x2F k j (i - 1)) > 0 then - c_By (x1F k (j - 1) i) - e3cc k (j - 1) (i - 1)
            else if c_d (x2F k j (i - 1)) < 0 then - c_By (x1F k j i) - e3cc k j (i - 1)
            else 0.5 * (- c_By (x1F k (j - 1) i) - e3cc k (j - 1) (i - 1)
                        - c_By (x1F k j i) - e3cc k j (i - 1)));
         de3_r1 =
           (if c_d (x2F k j i) > 0 then - c_By (x1F k (j - 1) i) - e3cc k (j - 1) i
            else if c_d (x2F k j i) < 0 then - c_By (x1F k j i) - e3cc k j i
            else 0.5 * (- c_By (x1F k (j - 1) i) - e3cc k (j - 1) i
                        - c_By (x1F k j i) - e3cc k j i))
     in 0.25 * (c_Bz (x2F k j (i - 1)) + c_Bz (x2F k j i)
                - c_By (x1F k (j - 1) i) - c_By (x1F k j i)
                + de3_l1 + de3_r1 + de3_l2 + de3_r2))"

definition emf3_corner_cell :: "int \<Rightarrow> int \<Rightarrow> int \<Rightarrow> Scratch \<Rightarrow> Scratch" where
  "emf3_corner_cell k j i sc =
    sc\<lparr>emf3 := upd3 (emf3 sc) k j i
          (emf3_corner_val (x1Flux sc) (x2Flux sc) (emf3_cc sc) k j i)\<rparr>"

definition integrate_emf3_corner :: "Grid \<Rightarrow> Scratch \<Rightarrow> Scratch" where
  "integrate_emf3_corner pG sc =
    loop_kji (k_s pG - 2) (k_e pG + 2) (j_s pG - 1) (j_e pG + 2) (i_s pG - 1) (i_e pG + 2)
      emf3_corner_cell sc"

text \<open>
  The corner EMF in the words of the specification.  \<open>upwind_spec m l r\<close> selects by the
  sign of the mass flux \<open>m\<close>: the left difference when it is positive, the right one when
  it is negative, their arithmetic mean when it is zero.  For the EMF along direction
  \<open>a\<close> with transverse directions \<open>b\<close> and \<open>c\<close> (in cyclic order), \<open>Eb\<close> and \<open>Ec\<close> are the
  sign-corrected face-flux EMFs on the faces normal to \<open>b\<close> and \<open>c\<close>, \<open>mb\<close> and \<open>mc\<close> the
  mass fluxes across those faces, \<open>cc\<close> the cell-centred EMF, and \<open>pb\<close>, \<open>pc\<close> step one
  cell back along \<open>b\<close> and \<open>c\<close>.
\<close>

type_synonym idx = "int \<times> int \<times> int"

definition upwind_spec :: "real \<Rightarrow> real \<Rightarrow> real \<Rightarrow> real" where
  "upwind_spec m l r = (if m > 0 then l else if m < 0 then r else (l + r) / 2)"

definition corner_emf_spec ::
  "(idx \<Rightarrow> real) \<Rightarrow> (idx \<Rightarrow> real) \<Rightarrow> (idx \<Rightarrow> real) \<Rightarrow> (idx \<Rightarrow> real) \<Rightarrow> (idx \<Rightarrow> real) \<Rightarrow>
   (idx \<Rightarrow> idx) \<Rightarrow> (idx \<Rightarrow> idx) \<Rightarrow> idx \<Rightarrow> real" where
  "corner_emf_spec Eb Ec mb mc cc pb pc p =
    0.25 * (Ec p + Ec (pb p) + Eb p + Eb (pc p)
      + upwind_spec (mc (pb p)) (Eb (pc p) - cc (pb (pc p))) (Eb p - cc (pb p))
      + upwind_spec (mc p) (Eb (pc p) - cc (pc p)) (Eb p - cc p)
      + upwind_spec (mb (pc p)) (Ec (pb p) - cc (pb (pc p))) (Ec p - cc (pc p))
      + upwind_spec (mb p) (Ec (pb p) - cc (pb p)) (Ec p - cc p))"

text \<open>Reading an array at an index triple, and the three backward steps.\<close>

definition at3 :: "'a array3 \<Rightarrow> idx \<Rightarrow> 'a" where
  "at3 a p = (case p of (k, j, i) \<Rightarrow> a k j i)"

definition back1 :: "idx \<Rightarrow> idx" where
  "back1 p = (case p of (k, j, i) \<Rightarrow> (k, j, i - 1))"

definition back2 :: "idx \<Rightarrow> idx" where
  "back2 p = (case p of (k, j, i) \<Rightarrow> (k, j - 1, i))"

definition back3 :: "idx \<Rightarrow> idx" where
  "back3 p = (case p of (k, j, i) \<Rightarrow> (k - 1, j, i))"

section \<open>Step 9: the fluxes from the corrected left and right states\<close>

text \<open>
  Modelled from the spec: the macro \<^verbatim>\<open>MAX\<close> of \<^verbatim>\<open>defs.h\<close> is not among the sources; it
  is the maximum of its two arguments.
\<close>

definition MAX_real :: "real \<Rightarrow> real \<Rightarrow> real" where
  "MAX_real a b = (if a > b then a else b)"

text \<open>
  Step 9a: the wave-speed difference \<^verbatim>\<open>eta\<close> of a face, from its right and left states and
  its normal field (the same four statements for the three face arrays).
\<close>

definition step9a_eta :: "Ext \<Rightarrow> Cons1D \<Rightarrow> Cons1D \<Rightarrow> real \<Rightarrow> real" where
  "step9a_eta ext Ur Ul Bx =
    (let cfr = cfast ext Ur Bx;
         cfl = cfast ext Ul Bx;
         lambdar = c_Mx Ur / c_d Ur + cfr;
         lambdal = c_Mx Ul / c_d Ul - cfl
     in 0.5 * \<bar>lambdar - lambdal\<bar>)"

definition step9a_eta1_cell :: "Ext \<Rightarrow> int \<Rightarrow> int \<Rightarrow> int \<Rightarrow> Scratch \<Rightarrow> Scratch" where
  "step9a_eta1_cell ext k j i sc =
    sc\<lparr>eta1 := upd3 (eta1 sc) k j i
          (step9a_eta ext (Ur_x1Face sc k j i) (Ul_x1Face sc k j i) (B1_x1Face sc k j i))\<rparr>"

definition step9a_eta2_cell :: "Ext \<Rightarrow> int \<Rightarrow> int \<Rightarrow> int \<Rightarrow> Scratch \<Rightarrow> Scratch" where
  "step9a_eta2_cell ext k j i sc =
    sc\<lparr>eta2 := upd3 (eta2 sc) k j i
          (step9a_eta ext (Ur_x2Face sc k j i) (Ul_x2Face sc k j i) (B2_x2Face sc k j i))\<rparr>"

definition step9a_eta3_cell :: "Ext \<Rightarrow> int \<Rightarrow> int \<Rightarrow> int \<Rightarrow> Scratch \<Rightarrow> Scratch" where
  "step9a_eta3_cell ext k j i sc =
    sc\<lparr>eta3 := upd3 (eta3 sc) k j i
          (step9a_eta ext (Ur_x3Face sc k j i) (Ul_x3Face sc k j i) (B3_x3Face sc k j i))\<rparr>"

definition step9a_eta1 :: "Ext \<Rightarrow> Locals \<Rightarrow> Scratch \<Rightarrow> Scratch" where
  "step9a_eta1 ext lv sc =
    loop_kji (l_ks lv - 1) (l_ke lv + 1) (l_js lv - 1) (l_je lv + 1) (l_is lv - 1) (l_ie lv + 2)
      (step9a_eta1_cell ext) sc"

definition step9a_eta2 :: "Ext \<Rightarrow> Locals \<Rightarrow> Scratch \<Rightarrow> Scratch" where
  "step9a_eta2 ext lv sc =
    loop_kji (l_ks lv - 1) (l_ke lv + 1) (l_js lv - 1) (l_je lv + 2) (l_is lv - 1) (l_ie lv + 1)
      (step9a_eta2_cell ext) sc"

definition step9a_eta3 :: "Ext \<Rightarrow> Locals \<Rightarrow> Scratch \<Rightarrow> Scratch" where
  "step9a_eta3 ext lv sc =
    loop_kji (l_ks lv - 1) (l_ke lv + 2) (l_js lv - 1) (l_je lv + 1) (l_is lv - 1) (l_ie lv + 1)
      (step9a_eta3_cell ext) sc"

definition step9a :: "Config \<Rightarrow> Ext \<Rightarrow> Locals \<Rightarrow> Scratch \<Rightarrow> Scratch" where
  "step9a cfg ext lv sc =
    (if H_CORRECTION cfg
     then step9a_eta3 ext lv (step9a_eta2 ext lv (step9a_eta1 ext lv sc))
     else sc)"

text \<open>Steps 9b, 9c, 9d: the value assigned to \<^verbatim>\<open>etah\<close> before each Riemann solve.\<close>

definition etah_x1 :: "real array3 \<Rightarrow> real array3 \<Rightarrow> real array3 \<Rightarrow> int \<Rightarrow> int \<Rightarrow> int \<Rightarrow> real" where
  "etah_x1 e1 e2 e3 k j i =
    (let etah = MAX_real (e2 k j (i - 1)) (e2 k j i);
         etah = MAX_real etah (e2 k (j + 1) (i - 1));
         etah = MAX_real etah (e2 k (j + 1) i);
         etah = MAX_real etah (e3 k j (i - 1));
         etah = MAX_real etah (e3 k j i);
         etah = MAX_real etah (e3 (k + 1) j (i - 1));
         etah = MAX_real etah (e3 (k + 1) j i);
         etah = MAX_real etah (e1 k j i)
     in etah)"

definition etah_x2 :: "real array3 \<Rightarrow> real array3 \<Rightarrow> real array3 \<Rightarrow> int \<Rightarrow> int \<Rightarrow> int \<Rightarrow> real" where
  "etah_x2 e1 e2 e3 k j i =
    (let etah = MAX_real (e1 k (j - 1) i) (e1 k j i);
         etah = MAX_real etah (e1 k (j - 1) (i + 1));
         etah = MAX_real etah (e1 k j (i + 1));
         etah = MAX_real etah (e3 k (j - 1) i);
         etah = MAX_real etah (e3 k j i);
         etah = MAX_real etah (e3 (k + 1) (j - 1) i);
         etah = MAX_real etah (e3 (k + 1) j i);
         etah = MAX_real etah (e2 k j i)
     in etah)"

definition etah_x3 :: "real array3 \<Rightarrow> real array3 \<Rightarrow> real array3 \<Rightarrow> int \<Rightarrow> int \<Rightarrow> int \<Rightarrow> real" where
  "etah_x3 e1 e2 e3 k j i =
    (let etah = MAX_real (e1 (k - 1) j i) (e1 k j i);
         etah = MAX_real etah (e1 (k - 1) j (i + 1));
         etah = MAX_real etah (e1 k j (i + 1));
         etah = MAX_real etah (e2 (k - 1) j i);
         etah = MAX_real etah (e2 k j i);
         etah = MAX_real etah (e2 (k - 1) (j + 1) i);
         etah = MAX_real etah (e2 k (j + 1) i);
         etah = MAX_real etah (e3 k j i)
     in etah)"

definition step9b_cell :: "Config \<Rightarrow> Ext \<Rightarrow> int \<Rightarrow> int \<Rightarrow> int \<Rightarrow> Scratch \<Rightarrow> Scratch" where
  "step9b_cell cfg ext k j i sc =
    (let sc = (if H_CORRECTION cfg
               then sc\<lparr>etah := etah_x1 (eta1 sc) (eta2 sc) (eta3 sc) k j i\<rparr> else sc);
         sc = sc\<lparr>Wl := (Wl sc)(i := Cons1D_to_Prim1D ext (Ul_x1Face sc k j i) (B1_x1Face sc k j i))\<rparr>;
         sc = sc\<lparr>Wr := (Wr sc)(i := Cons1D_to_Prim1D ext (Ur_x1Face sc k j i) (B1_x1Face sc k j i))\<rparr>
     in sc\<lparr>x1Flux := upd3 (x1Flux sc) k j i
          (GET_FLUXES ext (etah sc) (Ul_x1Face sc k j i) (Ur_x1Face sc k j i)
             (Wl sc i) (Wr sc i) (B1_x1Face sc k j i))\<rparr>)"

definition step9b :: "Config \<Rightarrow> Ext \<Rightarrow> Locals \<Rightarrow> Scratch \<Rightarrow> Scratch" where
  "step9b cfg ext lv sc =
    loop_kji (l_ks lv - 1) (l_ke lv + 1) (l_js lv - 1) (l_je lv + 1) (l_is lv) (l_ie lv + 1)
      (step9b_cell cfg ext) sc"

definition step9c_cell :: "Config \<Rightarrow> Ext \<Rightarrow> int \<Rightarrow> int \<Rightarrow> int \<Rightarrow> Scratch \<Rightarrow> Scratch" where
  "step9c_cell cfg ext k j i sc =
    (let sc = (if H_CORRECTION cfg
               then sc\<lparr>etah := etah_x2 (eta1 sc) (eta2 sc) (eta3 sc) k j i\<rparr> else sc);
         sc = sc\<lparr>Wl := (Wl sc)(i := Cons1D_to_Prim1D ext (Ul_x2Face sc k j i) (B2_x2Face sc k j i))\<rparr>;
         sc = sc\<lparr>Wr := (Wr sc)(i := Cons1D_to_Prim1D ext (Ur_x2Face sc k j i) (B2_x2Face sc k j i))\<rparr>
     in sc\<lparr>x2Flux := upd3 (x2Flux sc) k j i
          (GET_FLUXES ext (etah sc) (Ul_x2Face sc k j i) (Ur_x2Face sc k j i)
             (Wl sc i) (Wr sc i) (B2_x2Face sc k j i))\<rparr>)"

definition step9c :: "Config \<Rightarrow> Ext \<Rightarrow> Locals \<Rightarrow> Scratch \<Rightarrow> Scratch" where
  "step9c cfg ext lv sc =
    loop_kji (l_ks lv - 1) (l_ke lv + 1) (l_js lv) (l_je lv + 1) (l_is lv - 1) (l_ie lv + 1)
      (step9c_cell cfg ext) sc"

definition step9d_cell :: "Config \<Rightarrow> Ext \<Rightarrow> int \<Rightarrow> int \<Rightarrow> int \<Rightarrow> Scratch \<Rightarrow> Scratch" where
  "step9d_cell cfg ext k j i sc =
    (let sc = (if H_CORRECTION cfg
               then sc\<lparr>etah := etah_x3 (eta1 sc) (eta2 sc) (eta3 sc) k j i\<rparr> else sc);
         sc = sc\<lparr>Wl := (Wl sc)(i := Cons1D_to_Prim1D ext (Ul_x3Face sc k j i) (B3_x3Face sc k j i))\<rparr>;
         sc = sc\<lparr>Wr := (Wr sc)(i := Cons1D_to_Prim1D ext (Ur_x3Face sc k j i) (B3_x3Face sc k j i))\<rparr>
     in sc\<lparr>x3Flux := upd3 (x3Flux sc) k j i
          (GET_FLUXES ext (etah sc) (Ul_x3Face sc k j i) (Ur_x3Face sc k j i)
             (Wl sc i) (Wr sc i) (B3_x3Face sc k j i))\<rparr>)"

definition step9d :: "Config \<Rightarrow> Ext \<Rightarrow> Locals \<Rightarrow> Scratch \<Rightarrow> Scratch" where
  "step9d cfg ext lv sc =
    loop_kji (l_ks lv) (l_ke lv + 1) (l_js lv - 1) (l_je lv + 1) (l_is lv - 1) (l_ie lv + 1)
      (step9d_cell cfg ext) sc"

definition step9 :: "Config \<Rightarrow> Ext \<Rightarrow> Locals \<Rightarrow> Scratch \<Rightarrow> Scratch" where
  "step9 cfg ext lv sc =
    step9d cfg ext lv (step9c cfg ext lv (step9b cfg ext lv (step9a cfg ext lv sc)))"

section \<open>Step 10b: constrained-transport update of the face fields for a full step\<close>

definition step10b_cell :: "Locals \<Rightarrow> Scratch \<Rightarrow> int \<Rightarrow> int \<Rightarrow> int \<Rightarrow> Grid \<Rightarrow> Grid" where
  "step10b_cell lv sc k j i pG =
    (let pG = pG\<lparr>B1i := upd3 (B1i pG) k j i (B1i pG k j i +
                (dtodx3 lv * (emf2 sc (k + 1) j i - emf2 sc k j i) -
                 dtodx2 lv * (emf3 sc k (j + 1) i - emf3 sc k j i)))\<rparr>;
         pG = pG\<lparr>B2i := upd3 (B2i pG) k j i (B2i pG k j i +
                (dtodx1 lv * (emf3 sc k j (i + 1) - emf3 sc k j i) -
                 dtodx3 lv * (emf1 sc (k + 1) j i - emf1 sc k j i)))\<rparr>;
         pG = pG\<lparr>B3i := upd3 (B3i pG) k j i (B3i pG k j i +
                (dtodx2 lv * (emf1 sc k (j + 1) i - emf1 sc k j i) -
                 dtodx1 lv * (emf2 sc k j (i + 1) - emf2 sc k j i)))\<rparr>
     in pG)"

definition step10b_B1edge :: "Locals \<Rightarrow> Scratch \<Rightarrow> int \<Rightarrow> int \<Rightarrow> Grid \<Rightarrow> Grid" where
  "step10b_B1edge lv sc k j pG =
    pG\<lparr>B1i := upd3 (B1i pG) k j (l_ie lv + 1) (B1i pG k j (l_ie lv + 1) +
          (dtodx3 lv * (emf2 sc (k + 1) j (l_ie lv + 1) - emf2 sc k j (l_ie lv + 1)) -
           dtodx2 lv * (emf3 sc k (j + 1) (l_ie lv + 1) - emf3 sc k j (l_ie lv + 1))))\<rparr>"

definition step10b_B2edge :: "Locals \<Rightarrow> Scratch \<Rightarrow> int \<Rightarrow> int \<Rightarrow> Grid \<Rightarrow> Grid" where
  "step10b_B2edge lv sc k i pG =
    pG\<lparr>B2i := upd3 (B2i pG) k (l_je lv + 1) i (B2i pG k (l_je lv + 1) i +
          (dtodx1 lv * (emf3 sc k (l_je lv + 1) (i + 1) - emf3 sc k (l_je lv + 1) i) -
           dtodx3 lv * (emf1 sc (k + 1) (l_je lv + 1) i - emf1 sc k (l_je lv + 1) i)))\<rparr>"

definition step10b_B3edge :: "Locals \<Rightarrow> Scratch \<Rightarrow> int \<Rightarrow> int \<Rightarrow> Grid \<Rightarrow> Grid" where
  "step10b_B3edge lv sc j i pG =
    pG\<lparr>B3i := upd3 (B3i pG) (l_ke lv + 1) j i (B3i pG (l_ke lv + 1) j i +
          (dtodx2 lv * (emf1 sc (l_ke lv + 1) (j + 1) i - emf1 sc (l_ke lv + 1) j i) -
           dtodx1 lv * (emf2 sc (l_ke lv + 1) j (i + 1) - emf2 sc (l_ke lv + 1) j i)))\<rparr>"

definition step10b_row :: "Locals \<Rightarrow> Scratch \<Rightarrow> int \<Rightarrow> int \<Rightarrow> Grid \<Rightarrow> Grid" where
  "step10b_row lv sc k j pG =
    step10b_B1edge lv sc k j (fold (\<lambda>i. step10b_cell lv sc k j i) [l_is lv..l_ie lv] pG)"

definition step10b_plane :: "Locals \<Rightarrow> Scratch \<Rightarrow> int \<Rightarrow> Grid \<Rightarrow> Grid" where
  "step10b_plane lv sc k pG =
    fold (\<lambda>i. step10b_B2edge lv sc k i) [l_is lv..l_ie lv]
      (fold (\<lambda>j. step10b_row lv sc k j) [l_js lv..l_je lv] pG)"

definition step10b :: "Locals \<Rightarrow> Scratch \<Rightarrow> Grid \<Rightarrow> Grid" where
  "step10b lv sc pG =
    fold (\<lambda>j. fold (\<lambda>i. step10b_B3edge lv sc j i) [l_is lv..l_ie lv]) [l_js lv..l_je lv]
      (fold (\<lambda>k. step10b_plane lv sc k) [l_ks lv..l_ke lv] pG)"

text \<open>The discrete divergence of the face field in cell \<open>(k, j, i)\<close>.\<close>

definition divB :: "Grid \<Rightarrow> int \<Rightarrow> int \<Rightarrow> int \<Rightarrow> real" where
  "divB pG k j i =
    (B1i pG k j (i + 1) - B1i pG k j i) / dx1 pG +
    (B2i pG k (j + 1) i - B2i pG k j i) / dx2 pG +
    (B3i pG (k + 1) j i - B3i pG k j i) / dx3 pG"

text \<open>The increments that one constrained-transport update adds to the three face fields.\<close>

definition dB1 :: "Locals \<Rightarrow> Scratch \<Rightarrow> int \<Rightarrow> int \<Rightarrow> int \<Rightarrow> real" where
  "dB1 lv sc k j i = dtodx3 lv * (emf2 sc (k + 1) j i - emf2 sc k j i) -
                 dtodx2 lv * (emf3 sc k (j + 1) i - emf3 sc k j i)"

definition dB2 :: "Locals \<Rightarrow> Scratch \<Rightarrow> int \<Rightarrow> int \<Rightarrow> int \<Rightarrow> real" where
  "dB2 lv sc k j i = dtodx1 lv * (emf3 sc k j (i + 1) - emf3 sc k j i) -
                 dtodx3 lv * (emf1 sc (k + 1) j i - emf1 sc k j i)"

definition dB3 :: "Locals \<Rightarrow> Scratch \<Rightarrow> int \<Rightarrow> int \<Rightarrow> int \<Rightarrow> real" where
  "dB3 lv sc k j i = dtodx2 lv * (emf1 sc k (j + 1) i - emf1 sc k j i) -
                 dtodx1 lv * (emf2 sc k j (i + 1) - emf2 sc k j i)"

text \<open>A grid with its face fields blanked: what the update of the face fields leaves alone.\<close>

definition clearB :: "Grid \<Rightarrow> Grid" where
  "clearB pG = pG\<lparr>B1i := (\<lambda>k j i. 0), B2i := (\<lambda>k j i. 0), B3i := (\<lambda>k j i. 0)\<rparr>"

section \<open>Step 11: source terms for a full step\<close>

text \<open>
  Step 11a with the shearing box: the Crank-Nicholson update of the momenta, followed by
  the energy and \<^verbatim>\<open>M3\<close> source terms of the static potential.  \<open>g\<close> is the grid, read
  for its spacings only.  The forward-Euler predictions \<^verbatim>\<open>M1e\<close> and \<^verbatim>\<open>dM2e\<close> and the state
  \<^verbatim>\<open>dM2n\<close> at time \<open>n\<close> are the locals of the loop body.
\<close>

definition shear_dM2n :: "Config \<Rightarrow> real \<Rightarrow> Gas \<Rightarrow> real" where
  "shear_dM2n cfg x1 u =
    (let TH_om = 1.5 * Omega cfg
     in if FARGO cfg then g_M2 u else g_M2 u + g_d u * TH_om * x1)"

definition shear_M1e :: "Locals \<Rightarrow> Scratch \<Rightarrow> int \<Rightarrow> int \<Rightarrow> int \<Rightarrow> Gas \<Rightarrow> real" where
  "shear_M1e lv sc k j i u =
    (let M1n = g_M1 u
     in M1n - q1 lv * (c_Mx (x1Flux sc k j (i + 1)) - c_Mx (x1Flux sc k j i))
            - q2 lv * (c_Mz (x2Flux sc k (j + 1) i) - c_Mz (x2Flux sc k j i))
            - q3 lv * (c_My (x3Flux sc (k + 1) j i) - c_My (x3Flux sc k j i)))"

definition shear_dM2e ::
  "Config \<Rightarrow> Locals \<Rightarrow> Scratch \<Rightarrow> Grid \<Rightarrow> real \<Rightarrow> int \<Rightarrow> int \<Rightarrow> int \<Rightarrow> Gas \<Rightarrow> real" where
  "shear_dM2e cfg lv sc g x1 k j i u =
    (let TH_om = 1.5 * Omega cfg;
         dM2n = shear_dM2n cfg x1 u;
         frx1_dM2 = c_My (x1Flux sc k j (i + 1));
         flx1_dM2 = c_My (x1Flux sc k j i);
         frx2_dM2 = c_Mx (x2Flux sc k (j + 1) i);
         flx2_dM2 = c_Mx (x2Flux sc k j i);
         frx3_dM2 = c_Mz (x3Flux sc (k + 1) j i);
         flx3_dM2 = c_Mz (x3Flux sc k j i);
         frx1_dM2 = (if FARGO cfg then frx1_dM2
                     else frx1_dM2 + TH_om * (x1 + 0.5 * dx1 g) * c_d (x1Flux sc k j (i + 1)));
         flx1_dM2 = (if FARGO cfg then flx1_dM2
                     else flx1_dM2 + TH_om * (x1 - 0.5 * dx1 g) * c_d (x1Flux sc k j i));
         frx2_dM2 = (if FARGO cfg then frx2_dM2
                     else frx2_dM2 + TH_om * x1 * c_d (x2Flux sc k (j + 1) i));
         flx2_dM2 = (if FARGO cfg then flx2_dM2
                     else flx2_dM2 + TH_om * x1 * c_d (x2Flux sc k j i));
         frx3_dM2 = (if FARGO cfg then frx3_dM2
                     else frx3_dM2 + TH_om * x1 * c_d (x3Flux sc (k + 1) j i));
         flx3_dM2 = (if FARGO cfg then flx3_dM2
                     else flx3_dM2 + TH_om * x1 * c_d (x3Flux sc k j i))
     in dM2n - q1 lv * (frx1_dM2 - flx1_dM2)
             - q2 lv * (frx2_dM2 - flx2_dM2)
             - q3 lv * (frx3_dM2 - flx3_dM2))"

definition step11a_shear_gas ::
  "Config \<Rightarrow> Ext \<Rightarrow> Locals \<Rightarrow> Scratch \<Rightarrow> (real \<Rightarrow> real \<Rightarrow> real \<Rightarrow> real) \<Rightarrow> Grid \<Rightarrow>
   int \<Rightarrow> int \<Rightarrow> int \<Rightarrow> Gas \<Rightarrow> Gas" where
  "step11a_shear_gas cfg ext lv sc phi g k j i u =
    (case cc_pos ext i j k of (x1, x2, x3) \<Rightarrow>
      (let fact = om_dt lv / (1.0 + 0.25 * om_dt lv * om_dt lv);
           M1e = shear_M1e lv sc k j i u;
           dM2e = shear_dM2e cfg lv sc g x1 k j i u;
           u = u\<lparr>g_M1 := g_M1 u + (2.0 * dM2e - 0.5 * om_dt lv * M1e) * fact\<rparr>;
           u = u\<lparr>g_M2 := g_M2 u - 0.5 * (M1e + om_dt lv * dM2e) * fact\<rparr>;
           u = (if FARGO cfg then u
                else u\<lparr>g_M2 := g_M2 u -
                       0.75 * om_dt lv * (c_d (x1Flux sc k j i) + c_d (x1Flux sc k j (i + 1)))\<rparr>);
           phic = phi x1 x2 x3;
           phir = phi (x1 + 0.5 * dx1 g) x2 x3;
           phil = phi (x1 - 0.5 * dx1 g) x2 x3;
           u = (if BAROTROPIC cfg then u
                else u\<lparr>g_E := g_E u - dtodx1 lv * (c_d (x1Flux sc k j i) * (phic - phil) +
                                                  c_d (x1Flux sc k j (i + 1)) * (phir - phic))\<rparr>);
           phir = phi x1 (x2 + 0.5 * dx2 g) x3;
           phil = phi x1 (x2 - 0.5 * dx2 g) x3;
           u = (if BAROTROPIC cfg then u
                else u\<lparr>g_E := g_E u - dtodx2 lv * (c_d (x2Flux sc k j i) * (phic - phil) +
                                                  c_d (x2Flux sc k (j + 1) i) * (phir - phic))\<rparr>);
           phir = phi x1 x2 (x3 + 0.5 * dx3 g);
           phil = phi x1 x2 (x3 - 0.5 * dx3 g);
           u = u\<lparr>g_M3 := g_M3 u - dtodx3 lv * (phir - phil) * dhalf sc k j i\<rparr>;
           u = (if BAROTROPIC cfg then u
                else u\<lparr>g_E := g_E u - dtodx3 lv * (c_d (x3Flux sc k j i) * (phic - phil) +
                                                  c_d (x3Flux sc (k + 1) j i) * (phir - phic))\<rparr>)
       in u))"

definition step11a_shear_cell ::
  "Config \<Rightarrow> Ext \<Rightarrow> Locals \<Rightarrow> Scratch \<Rightarrow> (real \<Rightarrow> real \<Rightarrow> real \<Rightarrow> real) \<Rightarrow>
   int \<Rightarrow> int \<Rightarrow> int \<Rightarrow> Grid \<Rightarrow> Grid" where
  "step11a_shear_cell cfg ext lv sc phi k j i pG =
    pG\<lparr>U := upd3 (U pG) k j i (step11a_shear_gas cfg ext lv sc phi pG k j i (U pG k j i))\<rparr>"

text \<open>Step 11a without the shearing box: the source terms of the static potential.\<close>

definition step11a_grav_gas ::
  "Config \<Rightarrow> Ext \<Rightarrow> Locals \<Rightarrow> Scratch \<Rightarrow> (real \<Rightarrow> real \<Rightarrow> real \<Rightarrow> real) \<Rightarrow> Grid \<Rightarrow>
   int \<Rightarrow> int \<Rightarrow> int \<Rightarrow> Gas \<Rightarrow> Gas" where
  "step11a_grav_gas cfg ext lv sc phi g k j i u =
    (case cc_pos ext i j k of (x1, x2, x3) \<Rightarrow>
      (let phic = phi x1 x2 x3;
           phir = phi (x1 + 0.5 * dx1 g) x2 x3;
           phil = phi (x1 - 0.5 * dx1 g) x2 x3;
           u = u\<lparr>g_M1 := g_M1 u - dtodx1 lv * (phir - phil) * dhalf sc k j i\<rparr>;
           u = (if BAROTROPIC cfg then u
                else u\<lparr>g_E := g_E u - dtodx1 lv * (c_d (x1Flux sc k j i) * (phic - phil) +
                                                  c_d (x1Flux sc k j (i + 1)) * (phir - phic))\<rparr>);
           phir = phi x1 (x2 + 0.5 * dx2 g) x3;
           phil = phi x1 (x2 - 0.5 * dx2 g) x3;
           u = u\<lparr>g_M2 := g_M2 u - dtodx2 lv * (phir - phil) * dhalf sc k j i\<rparr>;
           u = (if BAROTROPIC cfg then u
                else u\<lparr>g_E := g_E u - dtodx2 lv * (c_d (x2Flux sc k j i) * (phic - phil) +
                                                  c_d (x2Flux sc k (j + 1) i) * (phir - phic))\<rparr>);
           phir = phi x1 x2 (x3 + 0.5 * dx3 g);
           phil = phi x1 x2 (x3 - 0.5 * dx3 g);
           u = u\<lparr>g_M3 := g_M3 u - dtodx3 lv * (phir - phil) * dhalf sc k j i\<rparr>;
           u = (if BAROTROPIC cfg then u
                else u\<lparr>g_E := g_E u - dtodx3 lv * (c_d (x3Flux sc k j i) * (phic - phil) +
                                                  c_d (x3Flux sc (k + 1) j i) * (phir - phic))\<rparr>)
       in u))"

definition step11a_grav_cell ::
  "Config \<Rightarrow> Ext \<Rightarrow> Locals \<Rightarrow> Scratch \<Rightarrow> (real \<Rightarrow> real \<Rightarrow> real \<Rightarrow> real) \<Rightarrow>
   int \<Rightarrow> int \<Rightarrow> int \<Rightarrow> Grid \<Rightarrow> Grid" where
  "step11a_grav_cell cfg ext lv sc phi k j i pG =
    pG\<lparr>U := upd3 (U pG) k j i (step11a_grav_gas cfg ext lv sc phi pG k j i (U pG k j i))\<rparr>"

text \<open>
  With the shearing box the loop body calls \<^verbatim>\<open>StaticGravPot\<close> without testing it: when the
  callback is \<^verbatim>\<open>NULL\<close> and the loop has an iteration, the step fails.
\<close>

definition step11a :: "Config \<Rightarrow> Ext \<Rightarrow> Locals \<Rightarrow> Scratch \<Rightarrow> Grid \<Rightarrow> error + Grid" where
  "step11a cfg ext lv sc pG =
    (if SHEARING_BOX cfg
     then (case StaticGravPot ext of
             None \<Rightarrow>
               (if l_ks lv \<le> l_ke lv \<and> l_js lv \<le> l_je lv \<and> l_is lv \<le> l_ie lv
                then Inl NullCallback else Inr pG)
           | Some phi \<Rightarrow>
               Inr (loop_kji (l_ks lv) (l_ke lv) (l_js lv) (l_je lv) (l_is lv) (l_ie lv)
                      (step11a_shear_cell cfg ext lv sc phi) pG))
     else (case StaticGravPot ext of
             None \<Rightarrow> Inr pG
           | Some phi \<Rightarrow>
               Inr (loop_kji (l_ks lv) (l_ke lv) (l_js lv) (l_je lv) (l_is lv) (l_ie lv)
                      (step11a_grav_cell cfg ext lv sc phi) pG)))"

text \<open>Step 11b: the source terms of self-gravity, one loop nest for each direction.\<close>

definition step11b_x1_gas :: "Config \<Rightarrow> Locals \<Rightarrow> Scratch \<Rightarrow> Grid \<Rightarrow> int \<Rightarrow> int \<Rightarrow> int \<Rightarrow> Gas \<Rightarrow> Gas" where
  "step11b_x1_gas cfg lv sc g k j i u =
    (let phic = Phi g k j i;
         phil = 0.5 * (Phi g k j (i - 1) + Phi g k j i);
         phir = 0.5 * (Phi g k j i + Phi g k j (i + 1));
         gxl = (Phi g k j (i - 1) - Phi g k j i) * dx1i lv;
         gxr = (Phi g k j i - Phi g k j (i + 1)) * dx1i lv;
         gyl = 0.25 * ((Phi g k (j - 1) (i - 1) - Phi g k (j + 1) (i - 1)) +
                       (Phi g k (j - 1) i - Phi g k (j + 1) i)) * dx2i lv;
         gyr = 0.25 * ((Phi g k (j - 1) i - Phi g k (j + 1) i) +
                       (Phi g k (j - 1) (i + 1) - Phi g k (j + 1) (i + 1))) * dx2i lv;
         gzl = 0.25 * ((Phi g (k - 1) j (i - 1) - Phi g (k + 1) j (i - 1)) +
                       (Phi g (k - 1) j i - Phi g (k + 1) j i)) * dx3i lv;
         gzr = 0.25 * ((Phi g (k - 1) j i - Phi g (k + 1) j i) +
                       (Phi g (k - 1) j (i + 1) - Phi g (k + 1) j (i + 1))) * dx3i lv;
         flx_m1l = 0.5 * (gxl * gxl - gyl * gyl - gzl * gzl) / four_pi_G cfg
                   + grav_mean_rho cfg * phil;
         flx_m1r = 0.5 * (gxr * gxr - gyr * gyr - gzr * gzr) / four_pi_G cfg
                   + grav_mean_rho cfg * phir;
         flx_m2l = gxl * gyl / four_pi_G cfg;
         flx_m2r = gxr * gyr / four_pi_G cfg;
         flx_m3l = gxl * gzl / four_pi_G cfg;
         flx_m3r = gxr * gzr / four_pi_G cfg;
         u = u\<lparr>g_M1 := g_M1 u - dtodx1 lv * (flx_m1r - flx_m1l)\<rparr>;
         u = u\<lparr>g_M2 := g_M2 u - dtodx1 lv * (flx_m2r - flx_m2l)\<rparr>;
         u = u\<lparr>g_M3 := g_M3 u - dtodx1 lv * (flx_m3r - flx_m3l)\<rparr>;
         u = (if BAROTROPIC cfg then u
              else u\<lparr>g_E := g_E u - dtodx1 lv * (c_d (x1Flux sc k j i) * (phic - phil) +
                                                c_d (x1Flux sc k j (i + 1)) * (phir - phic))\<rparr>)
     in u)"

definition step11b_x2_gas :: "Config \<Rightarrow> Locals \<Rightarrow> Scratch \<Rightarrow> Grid \<Rightarrow> int \<Rightarrow> int \<Rightarrow> int \<Rightarrow> Gas \<Rightarrow> Gas" where
  "step11b_x2_gas cfg lv sc g k j i u =
    (let phic = Phi g k j i;
         phil = 0.5 * (Phi g k (j - 1) i + Phi g k j i);
         phir = 0.5 * (Phi g k j i + Phi g k (j + 1) i);
         gxl = 0.25 * ((Phi g k (j - 1) (i - 1) - Phi g k (j - 1) (i + 1)) +
                       (Phi g k j (i - 1) - Phi g k j (i + 1))) * dx1i lv;
         gxr = 0.25 * ((Phi g k j (i - 1) - Phi g k j (i + 1)) +
                       (Phi g k (j + 1) (i - 1) - Phi g k (j + 1) (i + 1))) * dx1i lv;
         gyl = (Phi g k (j - 1) i - Phi g k j i) * dx2i lv;
         gyr = (Phi g k j i - Phi g k (j + 1) i) * dx2i lv;
         gzl = 0.25 * ((Phi g (k - 1) (j - 1) i - Phi g (k + 1) (j - 1) i) +
                       (Phi g (k - 1) j i - Phi g (k + 1) j i)) * dx3i lv;
         gzr = 0.25 * ((Phi g (k - 1) j i - Phi g (k + 1) j i) +
                       (Phi g (k - 1) (j + 1) i - Phi g (k + 1) (j + 1) i)) * dx3i lv;
         flx_m1l = gyl * gxl / four_pi_G cfg;
         flx_m1r = gyr * gxr / four_pi_G cfg;
         flx_m2l = 0.5 * (gyl * gyl - gxl * gxl - gzl * gzl) / four_pi_G cfg
                   + grav_mean_rho cfg * phil;
         flx_m2r = 0.5 * (gyr * gyr - gxr * gxr - gzr * gzr) / four_pi_G cfg
                   + grav_mean_rho cfg * phir;
         flx_m3l = gyl * gzl / four_pi_G cfg;
         flx_m3r = gyr * gzr / four_pi_G cfg;
         u = u\<lparr>g_M1 := g_M1 u - dtodx2 lv * (flx_m1r - flx_m1l)\<rparr>;
         u = u\<lparr>g_M2 := g_M2 u - dtodx2 lv * (flx_m2r - flx_m2l)\<rparr>;
         u = u\<lparr>g_M3 := g_M3 u - dtodx2 lv * (flx_m3r - flx_m3l)\<rparr>;
         u = (if BAROTROPIC cfg then u
              else u\<lparr>g_E := g_E u - dtodx2 lv * (c_d (x2Flux sc k j i) * (phic - phil) +
                                                c_d (x2Flux sc k (j + 1) i) * (phir - phic))\<rparr>)
     in u)"

definition step11b_x3_gas :: "Config \<Rightarrow> Locals \<Rightarrow> Scratch \<Rightarrow> Grid \<Rightarrow> int \<Rightarrow> int \<Rightarrow> int \<Rightarrow> Gas \<Rightarrow> Gas" where
  "step11b_x3_gas cfg lv sc g k j i u =
    (let phic = Phi g k j i;
         phil = 0.5 * (Phi g (k - 1) j i + Phi g k j i);
         phir = 0.5 * (Phi g k j i + Phi g (k + 1) j i);
         gxl = 0.25 * ((Phi g (k - 1) j (i - 1) - Phi g (k - 1) j (i + 1)) +
                       (Phi g k j (i - 1) - Phi g k j (i + 1))) * dx1i lv;
         gxr = 0.25 * ((Phi g k j (i - 1) - Phi g k j (i + 1)) +
                       (Phi g (k + 1) j (i - 1) - Phi g (k + 1) j (i + 1))) * dx1i lv;
         gyl = 0.25 * ((Phi g (k - 1) (j - 1) i - Phi g (k - 1) (j + 1) i) +
                       (Phi g k (j - 1) i - Phi g k (j + 1) i)) * dx2i lv;
         gyr = 0.25 * ((Phi g k (j - 1) i - Phi g k (j + 1) i) +
                       (Phi g (k + 1) (j - 1) i - Phi g (k + 1) (j + 1) i)) * dx2i lv;
         gzl = (Phi g (k - 1) j i - Phi g k j i) * dx3i lv;
         gzr = (Phi g k j i - Phi g (k + 1) j i) * dx3i lv;
         flx_m1l = gzl * gxl / four_pi_G cfg;
         flx_m1r = gzr * gxr / four_pi_G cfg;
         flx_m2l = gzl * gyl / four_pi_G cfg;
         flx_m2r = gzr * gyr / four_pi_G cfg;
         flx_m3l = 0.5 * (gzl * gzl - gxl * gxl - gyl * gyl) / four_pi_G cfg
                   + grav_mean_rho cfg * phil;
         flx_m3r = 0.5 * (gzr * gzr - gxr * gxr - gyr * gyr) / four_pi_G cfg
                   + grav_mean_rho cfg * phir;
         u = u\<lparr>g_M1 := g_M1 u - dtodx3 lv * (flx_m1r - flx_m1l)\<rparr>;
         u = u\<lparr>g_M2 := g_M2 u - dtodx3 lv * (flx_m2r - flx_m2l)\<rparr>;
         u = u\<lparr>g_M3 := g_M3 u - dtodx3 lv * (flx_m3r - flx_m3l)\<rparr>;
         u = (if BAROTROPIC cfg then u
              else u\<lparr>g_E := g_E u - dtodx3 lv * (c_d (x3Flux sc k j i) * (phic - phil) +
                                                c_d (x3Flux sc (k + 1) j i) * (phir - phic))\<rparr>)
     in u)"

definition step11b_x1_cell :: "Config \<Rightarrow> Locals \<Rightarrow> Scratch \<Rightarrow> int \<Rightarrow> int \<Rightarrow> int \<Rightarrow> Grid \<Rightarrow> Grid" where
  "step11b_x1_cell cfg lv sc k j i pG =
    pG\<lparr>U := upd3 (U pG) k j i (step11b_x1_gas cfg lv sc pG k j i (U pG k j i))\<rparr>"

definition step11b_x2_cell :: "Config \<Rightarrow> Locals \<Rightarrow> Scratch \<Rightarrow> int \<Rightarrow> int \<Rightarrow> int \<Rightarrow> Grid \<Rightarrow> Grid" where
  "step11b_x2_cell cfg lv sc k j i pG =
    pG\<lparr>U := upd3 (U pG) k j i (step11b_x2_gas cfg lv sc pG k j i (U pG k j i))\<rparr>"

definition step11b_x3_cell :: "Config \<Rightarrow> Locals \<Rightarrow> Scratch \<Rightarrow> int \<Rightarrow> int \<Rightarrow> int \<Rightarrow> Grid \<Rightarrow> Grid" where
  "step11b_x3_cell cfg lv sc k j i pG =
    pG\<lparr>U := upd3 (U pG) k j i (step11b_x3_gas cfg lv sc pG k j i (U pG k j i))\<rparr>"

text \<open>The mass fluxes saved in the grid for the later correction of the source terms.\<close>

definition step11b_save_cell :: "Scratch \<Rightarrow> int \<Rightarrow> int \<Rightarrow> int \<Rightarrow> Grid \<Rightarrow> Grid" where
  "step11b_save_cell sc k j i pG =
    (let pG = pG\<lparr>x1MassFlux := upd3 (x1MassFlux pG) k j i (c_d (x1Flux sc k j i))\<rparr>;
         pG = pG\<lparr>x2MassFlux := upd3 (x2MassFlux pG) k j i (c_d (x2Flux sc k j i))\<rparr>;
         pG = pG\<lparr>x3MassFlux := upd3 (x3MassFlux pG) k j i (c_d (x3Flux sc k j i))\<rparr>
     in pG)"

definition step11b :: "Config \<Rightarrow> Locals \<Rightarrow> Scratch \<Rightarrow> Grid \<Rightarrow> Grid" where
  "step11b cfg lv sc pG =
    (if SELF_GRAVITY cfg
     then (let pG = loop_kji (l_ks lv) (l_ke lv) (l_js lv) (l_je lv) (l_is lv) (l_ie lv)
                      (step11b_x1_cell cfg lv sc) pG;
               pG = loop_kji (l_ks lv) (l_ke lv) (l_js lv) (l_je lv) (l_is lv) (l_ie lv)
                      (step11b_x2_cell cfg lv sc) pG;
               pG = loop_kji (l_ks lv) (l_ke lv) (l_js lv) (l_je lv) (l_is lv) (l_ie lv)
                      (step11b_x3_cell cfg lv sc) pG;
               pG = loop_kji (l_ks lv) (l_ke lv + 1) (l_js lv) (l_je lv + 1) (l_is lv)
                      (l_ie lv + 1) (step11b_save_cell sc) pG
           in pG)
     else pG)"

text \<open>Step 11c: the source term of optically thin cooling.\<close>

definition step11c_gas ::
  "Scratch \<Rightarrow> (real \<Rightarrow> real \<Rightarrow> real \<Rightarrow> real) \<Rightarrow> Grid \<Rightarrow> int \<Rightarrow> int \<Rightarrow> int \<Rightarrow> Gas \<Rightarrow> Gas" where
  "step11c_gas sc cool g k j i u =
    (let coolf = cool (dhalf sc k j i) (phalf sc k j i) (dt g)
     in u\<lparr>g_E := g_E u - dt g * coolf\<rparr>)"

definition step11c_cell ::
  "Scratch \<Rightarrow> (real \<Rightarrow> real \<Rightarrow> real \<Rightarrow> real) \<Rightarrow> int \<Rightarrow> int \<Rightarrow> int \<Rightarrow> Grid \<Rightarrow> Grid" where
  "step11c_cell sc cool k j i pG =
    pG\<lparr>U := upd3 (U pG) k j i (step11c_gas sc cool pG k j i (U pG k j i))\<rparr>"

definition step11c :: "Config \<Rightarrow> Ext \<Rightarrow> Locals \<Rightarrow> Scratch \<Rightarrow> Grid \<Rightarrow> Grid" where
  "step11c cfg ext lv sc pG =
    (if BAROTROPIC cfg then pG
     else (case CoolingFunc ext of
             None \<Rightarrow> pG
           | Some cool \<Rightarrow>
               loop_kji (l_ks lv) (l_ke lv) (l_js lv) (l_je lv) (l_is lv) (l_ie lv)
                 (step11c_cell sc cool) pG))"

section \<open>Step 12: update of the cell-centred variables for a full step\<close>

text \<open>Steps 12a, 12b, 12c: the flux differences of the three directions.\<close>

definition step12a_gas :: "Config \<Rightarrow> Locals \<Rightarrow> Scratch \<Rightarrow> int \<Rightarrow> int \<Rightarrow> int \<Rightarrow> Gas \<Rightarrow> Gas" where
  "step12a_gas cfg lv sc k j i u =
    (let u = u\<lparr>g_d := g_d u - dtodx1 lv * (c_d (x1Flux sc k j (i + 1)) - c_d (x1Flux sc k j i))\<rparr>;
         u = u\<lparr>g_M1 := g_M1 u - dtodx1 lv * (c_Mx (x1Flux sc k j (i + 1)) - c_Mx (x1Flux sc k j i))\<rparr>;
         u = u\<lparr>g_M2 := g_M2 u - dtodx1 lv * (c_My (x1Flux sc k j (i + 1)) - c_My (x1Flux sc k j i))\<rparr>;
         u = u\<lparr>g_M3 := g_M3 u - dtodx1 lv * (c_Mz (x1Flux sc k j (i + 1)) - c_Mz (x1Flux sc k j i))\<rparr>;
         u = (if BAROTROPIC cfg then u
              else u\<lparr>g_E := g_E u - dtodx1 lv * (c_E (x1Flux sc k j (i + 1)) - c_E (x1Flux sc k j i))\<rparr>);
         u = u\<lparr>g_s := for_scalars (NSCALARS cfg)
                (\<lambda>n sn. sn - dtodx1 lv * (c_s (x1Flux sc k j (i + 1)) n - c_s (x1Flux sc k j i) n)) (g_s u)\<rparr>
     in u)"

definition step12a_cell :: "Config \<Rightarrow> Locals \<Rightarrow> Scratch \<Rightarrow> int \<Rightarrow> int \<Rightarrow> int \<Rightarrow> Grid \<Rightarrow> Grid" where
  "step12a_cell cfg lv sc k j i pG =
    pG\<lparr>U := upd3 (U pG) k j i (step12a_gas cfg lv sc k j i (U pG k j i))\<rparr>"

definition step12a :: "Config \<Rightarrow> Locals \<Rightarrow> Scratch \<Rightarrow> Grid \<Rightarrow> Grid" where
  "step12a cfg lv sc pG =
    loop_kji (l_ks lv) (l_ke lv) (l_js lv) (l_je lv) (l_is lv) (l_ie lv)
      (step12a_cell cfg lv sc) pG"

definition step12b_gas :: "Config \<Rightarrow> Locals \<Rightarrow> Scratch \<Rightarrow> int \<Rightarrow> int \<Rightarrow> int \<Rightarrow> Gas \<Rightarrow> Gas" where
  "step12b_gas cfg lv sc k j i u =
    (let u = u\<lparr>g_d := g_d u - dtodx2 lv * (c_d (x2Flux sc k (j + 1) i) - c_d (x2Flux sc k j i))\<rparr>;
         u = u\<lparr>g_M1 := g_M1 u - dtodx2 lv * (c_Mz (x2Flux sc k (j + 1) i) - c_Mz (x2Flux sc k j i))\<rparr>;
         u = u\<lparr>g_M2 := g_M2 u - dtodx2 lv * (c_Mx (x2Flux sc k (j + 1) i) - c_Mx (x2Flux sc k j i))\<rparr>;
         u = u\<lparr>g_M3 := g_M3 u - dtodx2 lv * (c_My (x2Flux sc k (j + 1) i) - c_My (x2Flux sc k j i))\<rparr>;
         u = (if BAROTROPIC cfg then u
              else u\<lparr>g_E := g_E u - dtodx2 lv * (c_E (x2Flux sc k (j + 1) i) - c_E (x2Flux sc k j i))\<rparr>);
         u = u\<lparr>g_s := for_scalars (NSCALARS cfg)
                (\<lambda>n sn. sn - dtodx2 lv * (c_s (x2Flux sc k (j + 1) i) n - c_s (x2Flux sc k j i) n)) (g_s u)\<rparr>
     in u)"

definition step12b_cell :: "Config \<Rightarrow> Locals \<Rightarrow> Scratch \<Rightarrow> int \<Rightarrow> int \<Rightarrow> int \<Rightarrow> Grid \<Rightarrow> Grid" where
  "step12b_cell cfg lv sc k j i pG =
    pG\<lparr>U := upd3 (U pG) k j i (step12b_gas cfg lv sc k j i (U pG k j i))\<rparr>"

definition step12b :: "Config \<Rightarrow> Locals \<Rightarrow> Scratch \<Rightarrow> Grid \<Rightarrow> Grid" where
  "step12b cfg lv sc pG =
    loop_kji (l_ks lv) (l_ke lv) (l_js lv) (l_je lv) (l_is lv) (l_ie lv)
      (step12b_cell cfg lv sc) pG"

definition step12c_gas :: "Config \<Rightarrow> Locals \<Rightarrow> Scratch \<Rightarrow> int \<Rightarrow> int \<Rightarrow> int \<Rightarrow> Gas \<Rightarrow> Gas" where
  "step12c_gas cfg lv sc k j i u =
    (let u = u\<lparr>g_d := g_d u - dtodx3 lv * (c_d (x3Flux sc (k + 1) j i) - c_d (x3Flux sc k j i))\<rparr>;
         u = u\<lparr>g_M1 := g_M1 u - dtodx3 lv * (c_My (x3Flux sc (k + 1) j i) - c_My (x3Flux sc k j i))\<rparr>;
         u = u\<lparr>g_M2 := g_M2 u - dtodx3 lv * (c_Mz (x3Flux sc (k + 1) j i) - c_Mz (x3Flux sc k j i))\<rparr>;
         u = u\<lparr>g_M3 := g_M3 u - dtodx3 lv * (c_Mx (x3Flux sc (k + 1) j i) - c_Mx (x3Flux sc k j i))\<rparr>;
         u = (if BAROTROPIC cfg then u
              else u\<lparr>g_E := g_E u - dtodx3 lv * (c_E (x3Flux sc (k + 1) j i) - c_E (x3Flux sc k j i))\<rparr>);
         u = u\<lparr>g_s := for_scalars (NSCALARS cfg)
                (\<lambda>n sn. sn - dtodx3 lv * (c_s (x3Flux sc (k + 1) j i) n - c_s (x3Flux sc k j i) n)) (g_s u)\<rparr>
     in u)"

definition step12c_cell :: "Config \<Rightarrow> Locals \<Rightarrow> Scratch \<Rightarrow> int \<Rightarrow> int \<Rightarrow> int \<Rightarrow> Grid \<Rightarrow> Grid" where
  "step12c_cell cfg lv sc k j i pG =
    pG\<lparr>U := upd3 (U pG) k j i (step12c_gas cfg lv sc k j i (U pG k j i))\<rparr>"

definition step12c :: "Config \<Rightarrow> Locals \<Rightarrow> Scratch \<Rightarrow> Grid \<Rightarrow> Grid" where
  "step12c cfg lv sc pG =
    loop_kji (l_ks lv) (l_ke lv) (l_js lv) (l_je lv) (l_is lv) (l_ie lv)
      (step12c_cell cfg lv sc) pG"

text \<open>Step 12d: the cell-centred field is the average of the updated face fields.\<close>

definition step12d_gas :: "Grid \<Rightarrow> int \<Rightarrow> int \<Rightarrow> int \<Rightarrow> Gas \<Rightarrow> Gas" where
  "step12d_gas pG k j i u =
    (let u = u\<lparr>g_B1c := 0.5 * (B1i pG k j i + B1i pG k j (i + 1))\<rparr>;
         u = u\<lparr>g_B2c := 0.5 * (B2i pG k j i + B2i pG k (j + 1) i)\<rparr>;
         u = u\<lparr>g_B3c := 0.5 * (B3i pG k j i + B3i pG (k + 1) j i)\<rparr>
     in u)"

definition step12d_cell :: "int \<Rightarrow> int \<Rightarrow> int \<Rightarrow> Grid \<Rightarrow> Grid" where
  "step12d_cell k j i pG = pG\<lparr>U := upd3 (U pG) k j i (step12d_gas pG k j i (U pG k j i))\<rparr>"

definition step12d :: "Config \<Rightarrow> Locals \<Rightarrow> Grid \<Rightarrow> Grid" where
  "step12d cfg lv pG =
    (if MHD cfg
     then loop_kji (l_ks lv) (l_ke lv) (l_js lv) (l_je lv) (l_is lv) (l_ie lv) step12d_cell pG
     else pG)"

definition step12 :: "Config \<Rightarrow> Locals \<Rightarrow> Scratch \<Rightarrow> Grid \<Rightarrow> Grid" where
  "step12 cfg lv sc pG =
    step12d cfg lv (step12c cfg lv sc (step12b cfg lv sc (step12a cfg lv sc pG)))"

section \<open>\<^verbatim>\<open>integrate_init_3d\<close> and \<^verbatim>\<open>integrate_destruct_3d\<close>: the scratch arrays\<close>

text \<open>
  A file-level pointer is \<^verbatim>\<open>NULL\<close>, points to a live
  array of a given shape, or dangles after \<^verbatim>\<open>free\<close>.  The allocation functions
  (\<^verbatim>\<open>calloc_3d_array\<close>, \<^verbatim>\<open>calloc_2d_array\<close>, \<^verbatim>\<open>malloc\<close>) are not among the sources; whether the
  \<open>n\<close>-th allocation of a call succeeds is the parameter \<open>ok n\<close>.
\<close>

datatype shape = Arr1 int | Arr2 int int | Arr3 int int int

datatype cell = Null | Live shape | Freed

text \<open>The names of the file-level pointers to the scratch arrays.\<close>

datatype ptr =
    p_emf1 | p_emf2 | p_emf3 | p_emf1_cc | p_emf2_cc | p_emf3_cc
  | p_eta1 | p_eta2 | p_eta3
  | p_Bxc | p_Bxi | p_B1_x1Face | p_B2_x2Face | p_B3_x3Face
  | p_U1d | p_W | p_Wl | p_Wr
  | p_Ul_x1Face | p_Ur_x1Face | p_Ul_x2Face | p_Ur_x2Face | p_Ul_x3Face | p_Ur_x3Face
  | p_x1Flux | p_x2Flux | p_x3Flux | p_dhalf | p_phalf
  | p_remapEyiib | p_remapEyoib

type_synonym statics = "ptr \<Rightarrow> cell"

text \<open>
  The type \<^verbatim>\<open>int\<close> of C, 32 bits wide: the result of an \<^verbatim>\<open>int\<close> operation is the
  mathematical result wrapped into \<open>[-2\<^sup>3\<^sup>1, 2\<^sup>3\<^sup>1)\<close>, which is what the compiled code
  computes where the operation overflows.
\<close>

definition int32 :: "int \<Rightarrow> int" where
  "int32 x = (x + 2147483648) mod 4294967296 - 2147483648"

definition in_int32 :: "int \<Rightarrow> bool" where
  "in_int32 x = (- 2147483648 \<le> x \<and> x \<le> 2147483647)"

text \<open>
  The allocations of \<^verbatim>\<open>integrate_init_3d\<close> in program order, each with the pointer it
  assigns.  \<^verbatim>\<open>int Nx1 = nx1 + 2*nghost\<close> (and \<^verbatim>\<open>Nx2\<close>, \<^verbatim>\<open>Nx3\<close>) is \<^verbatim>\<open>int\<close> arithmetic;
  \<^verbatim>\<open>nmax = MAX(MAX(Nx1,Nx2),Nx3)\<close> is the length of the 1D vectors.
\<close>

definition init_requests :: "Config \<Rightarrow> Ext \<Rightarrow> int \<Rightarrow> int \<Rightarrow> int \<Rightarrow> (ptr \<times> shape) list" where
  "init_requests cfg ext nx1 nx2 nx3 =
    (let Nx1 = int32 (nx1 + int32 (2 * nghost cfg));
         Nx2 = int32 (nx2 + int32 (2 * nghost cfg));
         Nx3 = int32 (nx3 + int32 (2 * nghost cfg));
         nmax = max (max Nx1 Nx2) Nx3
     in (if MHD cfg
         then [(p_emf1, Arr3 Nx3 Nx2 Nx1), (p_emf2, Arr3 Nx3 Nx2 Nx1),
               (p_emf3, Arr3 Nx3 Nx2 Nx1), (p_emf1_cc, Arr3 Nx3 Nx2 Nx1),
               (p_emf2_cc, Arr3 Nx3 Nx2 Nx1), (p_emf3_cc, Arr3 Nx3 Nx2 Nx1)]
         else []) @
        (if H_CORRECTION cfg
         then [(p_eta1, Arr3 Nx3 Nx2 Nx1), (p_eta2, Arr3 Nx3 Nx2 Nx1),
               (p_eta3, Arr3 Nx3 Nx2 Nx1)]
         else []) @
        (if MHD cfg
         then [(p_Bxc, Arr1 nmax), (p_Bxi, Arr1 nmax),
               (p_B1_x1Face, Arr3 Nx3 Nx2 Nx1), (p_B2_x2Face, Arr3 Nx3 Nx2 Nx1),
               (p_B3_x3Face, Arr3 Nx3 Nx2 Nx1)]
         else []) @
        [(p_U1d, Arr1 nmax), (p_W, Arr1 nmax), (p_Wl, Arr1 nmax), (p_Wr, Arr1 nmax),
         (p_Ul_x1Face, Arr3 Nx3 Nx2 Nx1), (p_Ur_x1Face, Arr3 Nx3 Nx2 Nx1),
         (p_Ul_x2Face, Arr3 Nx3 Nx2 Nx1), (p_Ur_x2Face, Arr3 Nx3 Nx2 Nx1),
         (p_Ul_x3Face, Arr3 Nx3 Nx2 Nx1), (p_Ur_x3Face, Arr3 Nx3 Nx2 Nx1),
         (p_x1Flux, Arr3 Nx3 Nx2 Nx1), (p_x2Flux, Arr3 Nx3 Nx2 Nx1),
         (p_x3Flux, Arr3 Nx3 Nx2 Nx1)] @
        (if MHD cfg \<or> \<not> Option.is_none (StaticGravPot ext) \<or>
            \<not> Option.is_none (CoolingFunc ext)
         then [(p_dhalf, Arr3 Nx3 Nx2 Nx1), (p_phalf, Arr3 Nx3 Nx2 Nx1)]
         else []) @
        (if SHEARING_BOX cfg
         then [(p_remapEyiib, Arr2 Nx3 Nx2), (p_remapEyoib, Arr2 Nx3 Nx2)]
         else []))"

text \<open>
  The chain of \<^verbatim>\<open>if ((p = alloc(...)) == NULL) goto on_error;\<close>: the first failure
  leaves \<^verbatim>\<open>NULL\<close> in its pointer and stops.
\<close>

fun init_allocs :: "(nat \<Rightarrow> bool) \<Rightarrow> nat \<Rightarrow> (ptr \<times> shape) list \<Rightarrow> statics \<Rightarrow> statics \<times> bool" where
  "init_allocs ok n [] p = (p, True)"
| "init_allocs ok n ((x, s) # rs) p =
    (if ok n then init_allocs ok (Suc n) rs (p(x := Live s)) else (p(x := Null), False))"

text \<open>
  \<^verbatim>\<open>if (p != NULL) free(p);\<close>: the array is released and the pointer itself is not reset,
  so it dangles afterwards.  A dangling pointer is not \<^verbatim>\<open>NULL\<close>: it is passed to
  \<^verbatim>\<open>free\<close> again, which is an error.
\<close>

definition free_if_set :: "ptr \<Rightarrow> statics \<Rightarrow> error + statics" where
  "free_if_set x p =
    (case p x of Null \<Rightarrow> Inr p | Live s \<Rightarrow> Inr (p(x := Freed)) | Freed \<Rightarrow> Inl InvalidFree)"

text \<open>A sequence of such statements stops at the first error.\<close>

fun free_seq :: "ptr list \<Rightarrow> statics \<Rightarrow> error + statics" where
  "free_seq [] p = Inr p"
| "free_seq (x # xs) p =
    (case free_if_set x p of Inl e \<Rightarrow> Inl e | Inr p' \<Rightarrow> free_seq xs p')"

definition integrate_destruct_3d :: "Config \<Rightarrow> statics \<Rightarrow> error + statics" where
  "integrate_destruct_3d cfg p =
    free_seq
      ((if MHD cfg
        then [p_emf1, p_emf2, p_emf3, p_emf1_cc, p_emf2_cc, p_emf3_cc] else []) @
       (if H_CORRECTION cfg then [p_eta1, p_eta2, p_eta3] else []) @
       (if MHD cfg
        then [p_Bxc, p_Bxi, p_B1_x1Face, p_B2_x2Face, p_B3_x3Face] else []) @
       [p_U1d, p_W, p_Wl, p_Wr,
        p_Ul_x1Face, p_Ur_x1Face, p_Ul_x2Face, p_Ur_x2Face, p_Ul_x3Face, p_Ur_x3Face,
        p_x1Flux, p_x2Flux, p_x3Flux, p_dhalf, p_phalf] @
       (if SHEARING_BOX cfg then [p_remapEyiib, p_remapEyoib] else []))
      p"

text \<open>
  Modelled from the spec: \<^verbatim>\<open>integrate_destruct\<close> and \<^verbatim>\<open>ath_error\<close> are called by
  \<^verbatim>\<open>integrate_init_3d\<close> but are not among the sources.  \<^verbatim>\<open>integrate_destruct\<close> releases
  the scratch arrays (for this integrator, \<^verbatim>\<open>integrate_destruct_3d\<close>); \<^verbatim>\<open>ath_error\<close> is the
  fatal error: it reports its message and the process aborts, so the caller does not
  continue.
\<close>

definition integrate_destruct :: "Config \<Rightarrow> statics \<Rightarrow> error + statics" where
  "integrate_destruct cfg p = integrate_destruct_3d cfg p"

definition ath_error :: "string \<Rightarrow> statics \<Rightarrow> (error \<times> statics) + statics" where
  "ath_error msg p = Inl (Fatal msg, p)"

text \<open>
  \<^verbatim>\<open>integrate_init_3d\<close>: the allocations, and at \<^verbatim>\<open>on_error\<close> the calls of
  \<^verbatim>\<open>integrate_destruct\<close> and \<^verbatim>\<open>ath_error\<close>.  The result is the state of the pointers at
  the normal return, or the error with the state of the pointers where the process ends.
\<close>

definition integrate_init_3d ::
  "Config \<Rightarrow> Ext \<Rightarrow> (nat \<Rightarrow> bool) \<Rightarrow> int \<Rightarrow> int \<Rightarrow> int \<Rightarrow> statics \<Rightarrow> (error \<times> statics) + statics" where
  "integrate_init_3d cfg ext ok nx1 nx2 nx3 p =
    (case init_allocs ok 0 (init_requests cfg ext nx1 nx2 nx3) p of
       (p', True) \<Rightarrow> Inr p'
     | (p', False) \<Rightarrow>
         (case integrate_destruct cfg p' of
            Inl e \<Rightarrow> Inl (e, p')
          | Inr p'' \<Rightarrow>
              ath_error ''[integrate_init]: malloc returned a NULL pointer\<newline>'' p''))"

definition is_3d :: "shape \<Rightarrow> bool" where
  "is_3d s = (case s of Arr3 a b c \<Rightarrow> True | Arr2 a b \<Rightarrow> False | Arr1 a \<Rightarrow> False)"

section \<open>Concrete data for the instances\<close>

definition gas0 :: Gas where
  "gas0 = \<lparr> g_d = 1, g_M1 = 2, g_M2 = 3, g_M3 = 5, g_E = 7,
            g_B1c = 1, g_B2c = 2, g_B3c = 3, g_s = (\<lambda>n. 4) \<rparr>"

definition cons0 :: Cons1D where
  "cons0 = \<lparr> c_d = 1, c_Mx = 2, c_My = 3, c_Mz = 5, c_E = 7,
             c_By = 2, c_Bz = 3, c_s = (\<lambda>n. 4) \<rparr>"

definition prim0 :: Prim1D where
  "prim0 = \<lparr> w_d = 1, w_Vx = 2, w_Vy = 3, w_Vz = 5, w_P = 7,
             w_By = 2, w_Bz = 3, w_s = (\<lambda>n. 4) \<rparr>"

text \<open>A grid of \<open>2 \<times> 2 \<times> 2\<close> cells whose face field is not divergence free.\<close>

definition grid0 :: Grid where
  "grid0 = \<lparr> U = (\<lambda>k j i. gas0),
      B1i = (\<lambda>k j i. real_of_int i), B2i = (\<lambda>k j i. - real_of_int j),
      B3i = (\<lambda>k j i. 0),
      Phi = (\<lambda>k j i. 0),
      x1MassFlux = (\<lambda>k j i. 0), x2MassFlux = (\<lambda>k j i. 0), x3MassFlux = (\<lambda>k j i. 0),
      dt = 1, time = 0, dx1 = 1, dx2 = 2, dx3 = 4,
      i_s = 0, i_e = 1, j_s = 0, j_e = 1, k_s = 0, k_e = 1, my_id = 0 \<rparr>"

definition scratch0 :: Scratch where
  "scratch0 = \<lparr>
      Ul_x1Face = (\<lambda>k j i. cons0), Ur_x1Face = (\<lambda>k j i. cons0),
      Ul_x2Face = (\<lambda>k j i. cons0), Ur_x2Face = (\<lambda>k j i. cons0),
      Ul_x3Face = (\<lambda>k j i. cons0), Ur_x3Face = (\<lambda>k j i. cons0),
      x1Flux = (\<lambda>k j i. cons0), x2Flux = (\<lambda>k j i. cons0), x3Flux = (\<lambda>k j i. cons0),
      B1_x1Face = (\<lambda>k j i. 0), B2_x2Face = (\<lambda>k j i. 0), B3_x3Face = (\<lambda>k j i. 0),
      emf1 = (\<lambda>k j i. real_of_int (k + 2 * j)), emf2 = (\<lambda>k j i. real_of_int (i * k)),
      emf3 = (\<lambda>k j i. real_of_int (i + j * j)),
      emf1_cc = (\<lambda>k j i. 0), emf2_cc = (\<lambda>k j i. 0), emf3_cc = (\<lambda>k j i. 0),
      Bxc = (\<lambda>i. 0), Bxi = (\<lambda>i. 0),
      W = (\<lambda>i. prim0), Wl = (\<lambda>i. prim0), Wr = (\<lambda>i. prim0), U1d = (\<lambda>i. cons0),
      dhalf = (\<lambda>k j i. 1), phalf = (\<lambda>k j i. 1), etah = 0,
      eta1 = (\<lambda>k j i. real_of_int i), eta2 = (\<lambda>k j i. real_of_int (2 * j)),
      eta3 = (\<lambda>k j i. real_of_int (3 * k)),
      remapEyiib = (\<lambda>k j. 0), remapEyoib = (\<lambda>k j. 0) \<rparr>"

definition cfg0 :: Config where
  "cfg0 = \<lparr> MHD = True, BAROTROPIC = False, SELF_GRAVITY = False, H_CORRECTION = False,
      SHEARING_BOX = False, FARGO = False, NSCALARS = 1, nghost = 4,
      Gamma_1 = 2 / 3, Omega = 1, four_pi_G = 1, grav_mean_rho = 0 \<rparr>"

text \<open>Collaborators for the instances: no callbacks, first-order reconstruction.\<close>

definition ext0 :: Ext where
  "ext0 = \<lparr> StaticGravPot = None, CoolingFunc = None,
      cc_pos = (\<lambda>i j k. (real_of_int i, real_of_int j, real_of_int k)),
      lr_states = (\<lambda>W Bxc dt dtodx il iu Wl Wr. (\<lambda>i. W (i - 1), W)),
      GET_FLUXES = (\<lambda>eta Ul Ur Wl Wr Bx. Ul\<lparr>c_E := eta\<rparr>),
      Cons1D_to_Prim1D = (\<lambda>U Bx. prim0),
      Prim1D_to_Cons1D = (\<lambda>W Bx. cons0),
      cfast = (\<lambda>U Bx. 1),
      get_myGridIndex = (\<lambda>pD my. (0, 0, 0)),
      RemapEy_ix1 = (\<lambda>pG pD e r. r),
      RemapEy_ox1 = (\<lambda>pG pD e r. r) \<rparr>"

text \<open>
  Scratch arrays whose fluxes vary from face to face, every scalar flux being four times
  the mass flux.
\<close>

definition flux_adv :: "real \<Rightarrow> Cons1D" where
  "flux_adv a = \<lparr> c_d = a, c_Mx = 2 * a, c_My = 3 * a, c_Mz = 5 * a, c_E = 7 * a,
             c_By = 2, c_Bz = 3, c_s = (\<lambda>n. 4 * a) \<rparr>"

definition scratch_adv :: Scratch where
  "scratch_adv = scratch0\<lparr>
      x1Flux := (\<lambda>k j i. flux_adv (real_of_int i + 1)),
      x2Flux := (\<lambda>k j i. flux_adv (real_of_int (2 * j) + 1)),
      x3Flux := (\<lambda>k j i. flux_adv (real_of_int (3 * k) + 1)) \<rparr>"

text \<open>A hydrodynamic, barotropic shearing-box configuration.\<close>

definition cfg_shear :: Config where
  "cfg_shear = \<lparr> MHD = False, BAROTROPIC = True, SELF_GRAVITY = False, H_CORRECTION = False,
      SHEARING_BOX = True, FARGO = False, NSCALARS = 0, nghost = 4,
      Gamma_1 = 2 / 3, Omega = 1, four_pi_G = 1, grav_mean_rho = 0 \<rparr>"

text \<open>An MHD configuration with the H-correction.\<close>

definition cfg_h :: Config where
  "cfg_h = \<lparr> MHD = True, BAROTROPIC = False, SELF_GRAVITY = False, H_CORRECTION = True,
      SHEARING_BOX = False, FARGO = False, NSCALARS = 0, nghost = 4,
      Gamma_1 = 2 / 3, Omega = 0, four_pi_G = 1, grav_mean_rho = 0 \<rparr>"

text \<open>The collaborators with a static potential (here the potential \<open>x\<close>).\<close>

definition ext_grav :: Ext where
  "ext_grav = ext0\<lparr>StaticGravPot := Some (\<lambda>x y z. x)\<rparr>"

section \<open>Loops as folds\<close>

lemma upd3_apply [simp]:
  "upd3 a k j i v k' j' i' = (if k' = k \<and> j' = j \<and> i' = i then v else a k' j' i')"
  by (simp add: upd3_def)

lemma fold_keep:
  assumes "\<And>x s. x \<in> set xs \<Longrightarrow> obs (body x s) = obs s"
  shows "obs (fold body xs s) = obs s"
  using assms by (induction xs arbitrary: s) simp_all

lemma fold_once:
  assumes "distinct xs"
    and "\<And>x s. x \<in> set xs \<Longrightarrow> x \<noteq> y \<Longrightarrow> obs (body x s) = obs s"
    and "\<And>s. obs (body y s) = h (obs s)"
  shows "obs (fold body xs s) = (if y \<in> set xs then h (obs s) else obs s)"
  using assms
proof (induction xs arbitrary: s)
  case Nil
  then show ?case by simp
next
  case (Cons x xs)
  show ?case
  proof (cases "x = y")
    case True
    with Cons.prems(1) have "y \<notin> set xs" by simp
    then have "obs (fold body xs (body x s)) = obs (body x s)"
      using Cons.prems(2) by (intro fold_keep) auto
    with True show ?thesis by (simp add: Cons.prems(3))
  next
    case False
    have "obs (fold body xs (body x s)) =
        (if y \<in> set xs then h (obs (body x s)) else obs (body x s))"
      using Cons.prems by (intro Cons.IH) auto
    with False show ?thesis by (simp add: Cons.prems(2))
  qed
qed

lemma upto_once:
  assumes "\<And>x s. x \<noteq> y \<Longrightarrow> obs (body x s) = obs s"
    and "\<And>s. obs (body y s) = h (obs s)"
  shows "obs (fold body [a..b] s) = (if a \<le> y \<and> y \<le> b then h (obs s) else obs s)"
  using fold_once [of "[a..b]" y obs body h s] assms by simp

lemma loop3_once:
  assumes other: "\<And>k j i s. \<not> (k = k0 \<and> j = j0 \<and> i = i0) \<Longrightarrow> obs (body k j i s) = obs s"
    and own: "\<And>s. obs (body k0 j0 i0 s) = h (obs s)"
  shows "obs (loop_kji kl ku jl ju il iu body s) =
    (if kl \<le> k0 \<and> k0 \<le> ku \<and> jl \<le> j0 \<and> j0 \<le> ju \<and> il \<le> i0 \<and> i0 \<le> iu
     then h (obs s) else obs s)"
proof -
  have row: "obs (fold (\<lambda>i. body k j i) [il..iu] t) =
      (if k = k0 \<and> j = j0 \<and> il \<le> i0 \<and> i0 \<le> iu then h (obs t) else obs t)" for k j t
  proof (cases "k = k0 \<and> j = j0")
    case True
    then show ?thesis
      using upto_once [of i0 obs "\<lambda>i. body k0 j0 i" h il iu t] other own by simp
  next
    case False
    then have "obs (fold (\<lambda>i. body k j i) [il..iu] t) = obs t"
      by (intro fold_keep other) auto
    with False show ?thesis by auto
  qed
  have plane: "obs (fold (\<lambda>j. fold (\<lambda>i. body k j i) [il..iu]) [jl..ju] t) =
      (if k = k0 \<and> jl \<le> j0 \<and> j0 \<le> ju \<and> il \<le> i0 \<and> i0 \<le> iu then h (obs t) else obs t)"
    for k t
  proof (cases "k = k0 \<and> il \<le> i0 \<and> i0 \<le> iu")
    case True
    then show ?thesis
      using upto_once [of j0 obs "\<lambda>j. fold (\<lambda>i. body k0 j i) [il..iu]" h jl ju t]
      by (simp add: row)
  next
    case False
    then have "obs (fold (\<lambda>j. fold (\<lambda>i. body k j i) [il..iu]) [jl..ju] t) = obs t"
      by (intro fold_keep [where obs = obs
            and body = "\<lambda>j. fold (\<lambda>i. body k j i) [il..iu]"]) (auto simp: row)
    with False show ?thesis by auto
  qed
  show ?thesis
    unfolding loop_kji_def
  proof (cases "jl \<le> j0 \<and> j0 \<le> ju \<and> il \<le> i0 \<and> i0 \<le> iu")
    case True
    then show "obs (fold (\<lambda>k. fold (\<lambda>j. fold (\<lambda>i. body k j i) [il..iu]) [jl..ju]) [kl..ku] s) =
      (if kl \<le> k0 \<and> k0 \<le> ku \<and> jl \<le> j0 \<and> j0 \<le> ju \<and> il \<le> i0 \<and> i0 \<le> iu
       then h (obs s) else obs s)"
      using upto_once [of k0 obs
          "\<lambda>k. fold (\<lambda>j. fold (\<lambda>i. body k j i) [il..iu]) [jl..ju]" h kl ku s]
      by (simp add: plane)
  next
    case False
    then have "obs (fold (\<lambda>k. fold (\<lambda>j. fold (\<lambda>i. body k j i) [il..iu]) [jl..ju]) [kl..ku] s) =
        obs s"
      by (intro fold_keep [where obs = obs
            and body = "\<lambda>k. fold (\<lambda>j. fold (\<lambda>i. body k j i) [il..iu]) [jl..ju]"])
        (auto simp: plane)
    with False show "obs (fold (\<lambda>k. fold (\<lambda>j. fold (\<lambda>i. body k j i) [il..iu]) [jl..ju]) [kl..ku] s) =
      (if kl \<le> k0 \<and> k0 \<le> ku \<and> jl \<le> j0 \<and> j0 \<le> ju \<and> il \<le> i0 \<and> i0 \<le> iu
       then h (obs s) else obs s)"
      by auto
  qed
qed

lemma loop3_keep:
  assumes "\<And>k j i s. obs (body k j i s) = obs s"
  shows "obs (loop_kji kl ku jl ju il iu body s) = obs s"
  unfolding loop_kji_def
  by (intro fold_keep [where obs = obs]) (simp add: assms)

lemma upto_cond:
  assumes "\<And>x s. obs (body x s) = (if x = y \<and> C then h (obs s) else obs s)"
  shows "obs (fold body [a..b] s) = (if a \<le> y \<and> y \<le> b \<and> C then h (obs s) else obs s)"
  using upto_once [where obs = obs and y = y and body = body
      and h = "\<lambda>v. if C then h v else v" and a = a and b = b and s = s]
  by (simp add: assms)


lemma for_scalars_apply:
  "for_scalars N f a n = (if n < N then f n (a n) else a n)"
  unfolding for_scalars_def
  using fold_once [where xs = "[0..<N]" and y = n and obs = "\<lambda>a. a n"
      and body = "\<lambda>n a. a(n := f n (a n))" and h = "f n" and s = a]
  by simp

lemma clearU_simps [simp]:
  "B1i (clearU pG) = B1i pG" "B2i (clearU pG) = B2i pG" "B3i (clearU pG) = B3i pG"
  "Phi (clearU pG) = Phi pG" "dt (clearU pG) = dt pG" "time (clearU pG) = time pG"
  "dx1 (clearU pG) = dx1 pG" "dx2 (clearU pG) = dx2 pG" "dx3 (clearU pG) = dx3 pG"
  "i_s (clearU pG) = i_s pG" "i_e (clearU pG) = i_e pG" "j_s (clearU pG) = j_s pG"
  "j_e (clearU pG) = j_e pG" "k_s (clearU pG) = k_s pG" "k_e (clearU pG) = k_e pG"
  "my_id (clearU pG) = my_id pG" "x1MassFlux (clearU pG) = x1MassFlux pG"
  "x2MassFlux (clearU pG) = x2MassFlux pG" "x3MassFlux (clearU pG) = x3MassFlux pG"
  "clearU (pG\<lparr>U := a\<rparr>) = clearU pG"
  by (simp_all add: clearU_def)

text \<open>
  A loop nest whose body assigns the cell state \<open>(k, j, i)\<close> from that cell state and from
  the rest of the grid assigns every cell of its range once, and nothing else.
\<close>

lemma loop_kji_U:
  assumes body: "\<And>k j i pG. body k j i pG =
      pG\<lparr>U := upd3 (U pG) k j i (f (clearU pG) k j i (U pG k j i))\<rparr>"
  shows "U (loop_kji kl ku jl ju il iu body pG) k0 j0 i0 =
      (if kl \<le> k0 \<and> k0 \<le> ku \<and> jl \<le> j0 \<and> j0 \<le> ju \<and> il \<le> i0 \<and> i0 \<le> iu
       then f (clearU pG) k0 j0 i0 (U pG k0 j0 i0) else U pG k0 j0 i0)"
    and "clearU (loop_kji kl ku jl ju il iu body pG) = clearU pG"
proof -
  let ?obs = "\<lambda>pG. (U pG k0 j0 i0, clearU pG)"
  let ?h = "\<lambda>(u, c). (f c k0 j0 i0 u, c)"
  have "?obs (loop_kji kl ku jl ju il iu body pG) =
      (if kl \<le> k0 \<and> k0 \<le> ku \<and> jl \<le> j0 \<and> j0 \<le> ju \<and> il \<le> i0 \<and> i0 \<le> iu
       then ?h (?obs pG) else ?obs pG)"
    by (rule loop3_once) (auto simp: body)
  then show "U (loop_kji kl ku jl ju il iu body pG) k0 j0 i0 =
      (if kl \<le> k0 \<and> k0 \<le> ku \<and> jl \<le> j0 \<and> j0 \<le> ju \<and> il \<le> i0 \<and> i0 \<le> iu
       then f (clearU pG) k0 j0 i0 (U pG k0 j0 i0) else U pG k0 j0 i0)"
    and "clearU (loop_kji kl ku jl ju il iu body pG) = clearU pG"
    by (auto split: if_splits)
qed

lemma init_locals_simps:
  "l_is (init_locals cfg pG) = i_s pG" "l_ie (init_locals cfg pG) = i_e pG"
  "l_js (init_locals cfg pG) = j_s pG" "l_je (init_locals cfg pG) = j_e pG"
  "l_ks (init_locals cfg pG) = k_s pG" "l_ke (init_locals cfg pG) = k_e pG"
  "dtodx1 (init_locals cfg pG) = dt pG / dx1 pG" "dtodx2 (init_locals cfg pG) = dt pG / dx2 pG"
  "dtodx3 (init_locals cfg pG) = dt pG / dx3 pG"
  "dx1i (init_locals cfg pG) = 1 / dx1 pG" "dx2i (init_locals cfg pG) = 1 / dx2 pG"
  "dx3i (init_locals cfg pG) = 1 / dx3 pG"
  "q1 (init_locals cfg pG) = 0.5 * (dt pG / dx1 pG)"
  "q2 (init_locals cfg pG) = 0.5 * (dt pG / dx2 pG)"
  "q3 (init_locals cfg pG) = 0.5 * (dt pG / dx3 pG)"
  "hdt (init_locals cfg pG) = 0.5 * dt pG" "om_dt (init_locals cfg pG) = Omega cfg * dt pG"
  by (simp_all add: init_locals_def)

section \<open>The MHD source terms of the sweeps are limited as specified\<close>

lemma limit_db_spec: "limit_db a b = limited_spec a b"
  by (auto simp: limit_db_def limited_spec_def Let_def min_def max_def)

lemma step1b_mhd_W:
  "(Wl (step1b_mhd lv pG k j sc) f, Wr (step1b_mhd lv pG k j sc) f) =
    (if l_is lv - 1 \<le> f \<and> f \<le> l_ie lv + 2
     then (step1b_src_l lv pG k j f (Wl sc f), step1b_src_r lv pG k j f (Wr sc f))
     else (Wl sc f, Wr sc f))"
  unfolding step1b_mhd_def
  using upto_once [where obs = "\<lambda>sc. (Wl sc f, Wr sc f)" and y = f
      and body = "\<lambda>i. step1b_mhd_cell lv pG k j i"
      and h = "\<lambda>(wl, wr). (step1b_src_l lv pG k j f wl, step1b_src_r lv pG k j f wr)"
      and a = "l_is lv - 1" and b = "l_ie lv + 2" and s = sc]
  by (simp add: step1b_mhd_cell_def)

lemma step2b_mhd_W:
  "(Wl (step2b_mhd lv pG k i sc) f, Wr (step2b_mhd lv pG k i sc) f) =
    (if l_js lv - 1 \<le> f \<and> f \<le> l_je lv + 2
     then (step2b_src_l lv pG k f i (Wl sc f), step2b_src_r lv pG k f i (Wr sc f))
     else (Wl sc f, Wr sc f))"
  unfolding step2b_mhd_def
  using upto_once [where obs = "\<lambda>sc. (Wl sc f, Wr sc f)" and y = f
      and body = "\<lambda>j. step2b_mhd_cell lv pG k j i"
      and h = "\<lambda>(wl, wr). (step2b_src_l lv pG k f i wl, step2b_src_r lv pG k f i wr)"
      and a = "l_js lv - 1" and b = "l_je lv + 2" and s = sc]
  by (simp add: step2b_mhd_cell_def)

lemma step3b_mhd_W:
  "(Wl (step3b_mhd lv pG j i sc) f, Wr (step3b_mhd lv pG j i sc) f) =
    (if l_ks lv - 1 \<le> f \<and> f \<le> l_ke lv + 2
     then (step3b_src_l lv pG f j i (Wl sc f), step3b_src_r lv pG f j i (Wr sc f))
     else (Wl sc f, Wr sc f))"
  unfolding step3b_mhd_def
  using upto_once [where obs = "\<lambda>sc. (Wl sc f, Wr sc f)" and y = f
      and body = "\<lambda>k. step3b_mhd_cell lv pG k j i"
      and h = "\<lambda>(wl, wr). (step3b_src_l lv pG f j i wl, step3b_src_r lv pG f j i wr)"
      and a = "l_ks lv - 1" and b = "l_ke lv + 2" and s = sc]
  by (simp add: step3b_mhd_cell_def)

lemma step1b_src_spec:
  "w_By (step1b_src_l (init_locals cfg pG) pG k j f w) = w_By w +
     dt pG / 2 * (g_M2 (U pG k j (f - 1)) / g_d (U pG k j (f - 1))) *
       limited_spec (db1_cell pG k j (f - 1)) (db2_cell pG k j (f - 1))"
  "w_Bz (step1b_src_l (init_locals cfg pG) pG k j f w) = w_Bz w +
     dt pG / 2 * (g_M3 (U pG k j (f - 1)) / g_d (U pG k j (f - 1))) *
       limited_spec (db1_cell pG k j (f - 1)) (db3_cell pG k j (f - 1))"
  "w_By (step1b_src_r (init_locals cfg pG) pG k j f w) = w_By w +
     dt pG / 2 * (g_M2 (U pG k j f) / g_d (U pG k j f)) *
       limited_spec (db1_cell pG k j f) (db2_cell pG k j f)"
  "w_Bz (step1b_src_r (init_locals cfg pG) pG k j f w) = w_Bz w +
     dt pG / 2 * (g_M3 (U pG k j f) / g_d (U pG k j f)) *
       limited_spec (db1_cell pG k j f) (db3_cell pG k j f)"
  by (simp_all add: step1b_src_l_def step1b_src_r_def Let_def limit_db_spec init_locals_simps
      db1_cell_def db2_cell_def db3_cell_def)


lemma step2b_src_spec:
  "w_By (step2b_src_l (init_locals cfg pG) pG k f i w) = w_By w +
     dt pG / 2 * (g_M3 (U pG k (f - 1) i) / g_d (U pG k (f - 1) i)) *
       limited_spec (db2_cell pG k (f - 1) i) (db3_cell pG k (f - 1) i)"
  "w_Bz (step2b_src_l (init_locals cfg pG) pG k f i w) = w_Bz w +
     dt pG / 2 * (g_M1 (U pG k (f - 1) i) / g_d (U pG k (f - 1) i)) *
       limited_spec (db2_cell pG k (f - 1) i) (db1_cell pG k (f - 1) i)"
  "w_By (step2b_src_r (init_locals cfg pG) pG k f i w) = w_By w +
     dt pG / 2 * (g_M3 (U pG k f i) / g_d (U pG k f i)) *
       limited_spec (db2_cell pG k f i) (db3_cell pG k f i)"
  "w_Bz (step2b_src_r (init_locals cfg pG) pG k f i w) = w_Bz w +
     dt pG / 2 * (g_M1 (U pG k f i) / g_d (U pG k f i)) *
       limited_spec (db2_cell pG k f i) (db1_cell pG k f i)"
  by (simp_all add: step2b_src_l_def step2b_src_r_def Let_def limit_db_spec init_locals_simps
      db1_cell_def db2_cell_def db3_cell_def)

lemma step3b_src_spec:
  "w_By (step3b_src_l (init_locals cfg pG) pG f j i w) = w_By w +
     dt pG / 2 * (g_M1 (U pG (f - 1) j i) / g_d (U pG (f - 1) j i)) *
       limited_spec (db3_cell pG (f - 1) j i) (db1_cell pG (f - 1) j i)"
  "w_Bz (step3b_src_l (init_locals cfg pG) pG f j i w) = w_Bz w +
     dt pG / 2 * (g_M2 (U pG (f - 1) j i) / g_d (U pG (f - 1) j i)) *
       limited_spec (db3_cell pG (f - 1) j i) (db2_cell pG (f - 1) j i)"
  "w_By (step3b_src_r (init_locals cfg pG) pG f j i w) = w_By w +
     dt pG / 2 * (g_M1 (U pG f j i) / g_d (U pG f j i)) *
       limited_spec (db3_cell pG f j i) (db1_cell pG f j i)"
  "w_Bz (step3b_src_r (init_locals cfg pG) pG f j i w) = w_Bz w +
     dt pG / 2 * (g_M2 (U pG f j i) / g_d (U pG f j i)) *
       limited_spec (db3_cell pG f j i) (db2_cell pG f j i)"
  by (simp_all add: step3b_src_l_def step3b_src_r_def Let_def limit_db_spec init_locals_simps
      db1_cell_def db2_cell_def db3_cell_def)

lemma step1b_mhd_Wlr:
  "Wl (step1b_mhd lv pG k j sc) f =
    (if l_is lv - 1 \<le> f \<and> f \<le> l_ie lv + 2 then step1b_src_l lv pG k j f (Wl sc f) else Wl sc f)"
  "Wr (step1b_mhd lv pG k j sc) f =
    (if l_is lv - 1 \<le> f \<and> f \<le> l_ie lv + 2 then step1b_src_r lv pG k j f (Wr sc f) else Wr sc f)"
  using step1b_mhd_W [of lv pG k j sc f] by (auto split: if_splits)

lemma step2b_mhd_Wlr:
  "Wl (step2b_mhd lv pG k i sc) f =
    (if l_js lv - 1 \<le> f \<and> f \<le> l_je lv + 2 then step2b_src_l lv pG k f i (Wl sc f) else Wl sc f)"
  "Wr (step2b_mhd lv pG k i sc) f =
    (if l_js lv - 1 \<le> f \<and> f \<le> l_je lv + 2 then step2b_src_r lv pG k f i (Wr sc f) else Wr sc f)"
  using step2b_mhd_W [of lv pG k i sc f] by (auto split: if_splits)

lemma step3b_mhd_Wlr:
  "Wl (step3b_mhd lv pG j i sc) f =
    (if l_ks lv - 1 \<le> f \<and> f \<le> l_ke lv + 2 then step3b_src_l lv pG f j i (Wl sc f) else Wl sc f)"
  "Wr (step3b_mhd lv pG j i sc) f =
    (if l_ks lv - 1 \<le> f \<and> f \<le> l_ke lv + 2 then step3b_src_r lv pG f j i (Wr sc f) else Wr sc f)"
  using step3b_mhd_W [of lv pG j i sc f] by (auto split: if_splits)

text \<open>
  C4: in the MHD source injection of each sweep the limited quantity is \<open>limited_spec\<close>
  of the field difference along the sweep axis and the transverse one, both taken in
  cell \<open>f - 1\<close> for the left state and in cell \<open>f\<close> for the right state; the x1 sweep
  adds \<open>(dt/2) (M2/d) l2\<close> to \<open>By\<close> and \<open>(dt/2) (M3/d) l3\<close> to \<open>Bz\<close>, the x2 sweep
  \<open>(dt/2) (M3/d) l3\<close> and \<open>(dt/2) (M1/d) l1\<close>, the x3 sweep \<open>(dt/2) (M1/d) l1\<close> and
  \<open>(dt/2) (M2/d) l2\<close>.
\<close>

theorem mhd_source_limited:
  "(i_s pG - 1 \<le> f \<and> f \<le> i_e pG + 2 \<longrightarrow>
      w_By (Wl (step1b_mhd (init_locals cfg pG) pG k j sc) f) = w_By (Wl sc f) +
        dt pG / 2 * (g_M2 (U pG k j (f - 1)) / g_d (U pG k j (f - 1))) *
          limited_spec (db1_cell pG k j (f - 1)) (db2_cell pG k j (f - 1)) \<and>
      w_Bz (Wl (step1b_mhd (init_locals cfg pG) pG k j sc) f) = w_Bz (Wl sc f) +
        dt pG / 2 * (g_M3 (U pG k j (f - 1)) / g_d (U pG k j (f - 1))) *
          limited_spec (db1_cell pG k j (f - 1)) (db3_cell pG k j (f - 1)) \<and>
      w_By (Wr (step1b_mhd (init_locals cfg pG) pG k j sc) f) = w_By (Wr sc f) +
        dt pG / 2 * (g_M2 (U pG k j f) / g_d (U pG k j f)) *
          limited_spec (db1_cell pG k j f) (db2_cell pG k j f) \<and>
      w_Bz (Wr (step1b_mhd (init_locals cfg pG) pG k j sc) f) = w_Bz (Wr sc f) +
        dt pG / 2 * (g_M3 (U pG k j f) / g_d (U pG k j f)) *
          limited_spec (db1_cell pG k j f) (db3_cell pG k j f)) \<and>
   (j_s pG - 1 \<le> f \<and> f \<le> j_e pG + 2 \<longrightarrow>
      w_By (Wl (step2b_mhd (init_locals cfg pG) pG k i sc) f) = w_By (Wl sc f) +
        dt pG / 2 * (g_M3 (U pG k (f - 1) i) / g_d (U pG k (f - 1) i)) *
          limited_spec (db2_cell pG k (f - 1) i) (db3_cell pG k (f - 1) i) \<and>
      w_Bz (Wl (step2b_mhd (init_locals cfg pG) pG k i sc) f) = w_Bz (Wl sc f) +
        dt pG / 2 * (g_M1 (U pG k (f - 1) i) / g_d (U pG k (f - 1) i)) *
          limited_spec (db2_cell pG k (f - 1) i) (db1_cell pG k (f - 1) i) \<and>
      w_By (Wr (step2b_mhd (init_locals cfg pG) pG k i sc) f) = w_By (Wr sc f) +
        dt pG / 2 * (g_M3 (U pG k f i) / g_d (U pG k f i)) *
          limited_spec (db2_cell pG k f i) (db3_cell pG k f i) \<and>
      w_Bz (Wr (step2b_mhd (init_locals cfg pG) pG k i sc) f) = w_Bz (Wr sc f) +
        dt pG / 2 * (g_M1 (U pG k f i) / g_d (U pG k f i)) *
          limited_spec (db2_cell pG k f i) (db1_cell pG k f i)) \<and>
   (k_s pG - 1 \<le> f \<and> f \<le> k_e pG + 2 \<longrightarrow>
      w_By (Wl (step3b_mhd (init_locals cfg pG) pG j i sc) f) = w_By (Wl sc f) +
        dt pG / 2 * (g_M1 (U pG (f - 1) j i) / g_d (U pG (f - 1) j i)) *
          limited_spec (db3_cell pG (f - 1) j i) (db1_cell pG (f - 1) j i) \<and>
      w_Bz (Wl (step3b_mhd (init_locals cfg pG) pG j i sc) f) = w_Bz (Wl sc f) +
        dt pG / 2 * (g_M2 (U pG (f - 1) j i) / g_d (U pG (f - 1) j i)) *
          limited_spec (db3_cell pG (f - 1) j i) (db2_cell pG (f - 1) j i) \<and>
      w_By (Wr (step3b_mhd (init_locals cfg pG) pG j i sc) f) = w_By (Wr sc f) +
        dt pG / 2 * (g_M1 (U pG f j i) / g_d (U pG f j i)) *
          limited_spec (db3_cell pG f j i) (db1_cell pG f j i) \<and>
      w_Bz (Wr (step3b_mhd (init_locals cfg pG) pG j i sc) f) = w_Bz (Wr sc f) +
        dt pG / 2 * (g_M2 (U pG f j i) / g_d (U pG f j i)) *
          limited_spec (db3_cell pG f j i) (db2_cell pG f j i))"
  by (simp add: step1b_mhd_Wlr step2b_mhd_Wlr step3b_mhd_Wlr init_locals_simps
      step1b_src_spec step2b_src_spec step3b_src_spec)

theorem mhd_source_limited_witness:
  "w_By (Wl (step1b_mhd (init_locals cfg0 grid0) grid0 0 0 scratch0) 0) = 2 + 3 / 4 \<and>
   w_Bz (Wl (step1b_mhd (init_locals cfg0 grid0) grid0 0 0 scratch0) 0) = 3 \<and>
   w_By (Wr (step1b_mhd (init_locals cfg0 grid0) grid0 0 0 scratch0) 0) = 2 + 3 / 4 \<and>
   w_By (Wl (step2b_mhd (init_locals cfg0 grid0) grid0 0 0 scratch0) 0) = 2 \<and>
   w_Bz (Wl (step2b_mhd (init_locals cfg0 grid0) grid0 0 0 scratch0) 0) = 3 - 1 / 2 \<and>
   w_Bz (Wr (step2b_mhd (init_locals cfg0 grid0) grid0 0 0 scratch0) 0) = 3 - 1 / 2 \<and>
   w_By (Wl (step3b_mhd (init_locals cfg0 grid0) grid0 0 0 scratch0) 0) = 2 \<and>
   w_Bz (Wr (step3b_mhd (init_locals cfg0 grid0) grid0 0 0 scratch0) 0) = 3"
  using mhd_source_limited [of grid0 0 cfg0 0 0 scratch0 0]
  by (simp add: grid0_def scratch0_def prim0_def gas0_def limited_spec_def
      db1_cell_def db2_cell_def db3_cell_def)

section \<open>The shearing-box source terms of the sweeps\<close>

lemma step1c_shear_W:
  "(Wl (step1c_shear cfg lv pG sc) f, Wr (step1c_shear cfg lv pG sc) f, W (step1c_shear cfg lv pG sc)) =
    (if l_is lv - 1 \<le> f \<and> f \<le> l_ie lv + 2
     then (step1c_shear_l cfg pG (W sc (f - 1)) (Wl sc f),
           step1c_shear_l cfg pG (W sc f) (Wr sc f), W sc)
     else (Wl sc f, Wr sc f, W sc))"
  unfolding step1c_shear_def
  using upto_once [where obs = "\<lambda>sc. (Wl sc f, Wr sc f, W sc)" and y = f
      and body = "step1c_shear_cell cfg pG"
      and h = "\<lambda>(wl, wr, w). (step1c_shear_l cfg pG (w (f - 1)) wl,
                 step1c_shear_l cfg pG (w f) wr, w)"
      and a = "l_is lv - 1" and b = "l_ie lv + 2" and s = sc]
  by (simp add: step1c_shear_cell_def)

lemma step1c_shear_Wlr:
  "Wl (step1c_shear cfg lv pG sc) f =
    (if l_is lv - 1 \<le> f \<and> f \<le> l_ie lv + 2
     then step1c_shear_l cfg pG (W sc (f - 1)) (Wl sc f) else Wl sc f)"
  "Wr (step1c_shear cfg lv pG sc) f =
    (if l_is lv - 1 \<le> f \<and> f \<le> l_ie lv + 2
     then step1c_shear_l cfg pG (W sc f) (Wr sc f) else Wr sc f)"
  using step1c_shear_W [of cfg lv pG sc f] by (auto split: if_splits)

lemma cool_cell_cfg:
  "step1c_cool_cell (cfg\<lparr>SHEARING_BOX := b\<rparr>) pG cool = step1c_cool_cell cfg pG cool"
  "step2c_cool_cell (cfg\<lparr>SHEARING_BOX := b\<rparr>) pG cool = step2c_cool_cell cfg pG cool"
  "step3c_cool_cell (cfg\<lparr>SHEARING_BOX := b\<rparr>) pG cool = step3c_cool_cell cfg pG cool"
  by (intro ext, simp add: step1c_cool_cell_def step2c_cool_cell_def step3c_cool_cell_def)+

lemma step1_sources_shear:
  "SHEARING_BOX cfg \<Longrightarrow> step1_sources cfg ext lv pG k j sc =
    step1c_shear cfg lv pG (step1_sources (cfg\<lparr>SHEARING_BOX := False\<rparr>) ext lv pG k j sc)"
  by (simp add: step1_sources_def Let_def cool_cell_cfg cong: option.case_cong)

lemma step23_sources_no_shear:
  "step2_sources cfg ext lv pG k i sc =
     step2_sources (cfg\<lparr>SHEARING_BOX := False\<rparr>) ext lv pG k i sc"
  "step3_sources cfg ext lv pG j i sc =
     step3_sources (cfg\<lparr>SHEARING_BOX := False\<rparr>) ext lv pG j i sc"
  by (simp_all add: step2_sources_def step3_sources_def Let_def cool_cell_cfg
      cong: option.case_cong)

text \<open>
  C7, as the code has it: with the shearing box enabled, the source phase of the x1
  sweep ends with the Coriolis terms, \<open>Wl[f].Vx += dt Omega W[f-1].Vy\<close> and
  \<open>Wl[f].Vy -= dt Omega W[f-1].Vx\<close> (a quarter of that under FARGO), and the same for
  \<open>Wr[f]\<close> from cell \<open>f\<close>; the source phases of the x2 and x3 sweeps do not depend on the
  shearing-box switch.
\<close>

theorem shearing_box_sweep_sources:
  "SHEARING_BOX cfg \<longrightarrow>
     step1_sources cfg ext lv pG k j sc =
       step1c_shear cfg lv pG (step1_sources (cfg\<lparr>SHEARING_BOX := False\<rparr>) ext lv pG k j sc) \<and>
     (l_is lv - 1 \<le> f \<and> f \<le> l_ie lv + 2 \<longrightarrow>
        w_Vx (Wl (step1c_shear cfg lv pG sc) f) =
          w_Vx (Wl sc f) + dt pG * Omega cfg * w_Vy (W sc (f - 1)) \<and>
        w_Vy (Wl (step1c_shear cfg lv pG sc) f) =
          w_Vy (Wl sc f) - (if FARGO cfg then 0.25 else 1) * dt pG * Omega cfg * w_Vx (W sc (f - 1)) \<and>
        w_Vx (Wr (step1c_shear cfg lv pG sc) f) =
          w_Vx (Wr sc f) + dt pG * Omega cfg * w_Vy (W sc f) \<and>
        w_Vy (Wr (step1c_shear cfg lv pG sc) f) =
          w_Vy (Wr sc f) - (if FARGO cfg then 0.25 else 1) * dt pG * Omega cfg * w_Vx (W sc f)) \<and>
     step2_sources cfg ext lv pG k i sc =
       step2_sources (cfg\<lparr>SHEARING_BOX := False\<rparr>) ext lv pG k i sc \<and>
     step3_sources cfg ext lv pG j i sc =
       step3_sources (cfg\<lparr>SHEARING_BOX := False\<rparr>) ext lv pG j i sc"
  using step1_sources_shear [of cfg ext lv pG k j sc] step23_sources_no_shear [of cfg ext lv pG]
  by (simp add: step1c_shear_Wlr step1c_shear_l_def Let_def)

theorem shearing_box_sweep_sources_witness:
  "w_Vx (Wl (step1c_shear cfg_shear (init_locals cfg_shear grid0) grid0 scratch0) 0) = 5 \<and>
   w_Vy (Wl (step1c_shear cfg_shear (init_locals cfg_shear grid0) grid0 scratch0) 0) = 1 \<and>
   w_Vx (Wr (step1c_shear cfg_shear (init_locals cfg_shear grid0) grid0 scratch0) 0) = 5 \<and>
   w_Vy (Wr (step1c_shear cfg_shear (init_locals cfg_shear grid0) grid0 scratch0) 0) = 1"
  using shearing_box_sweep_sources [of cfg_shear ext0 "init_locals cfg_shear grid0" grid0
      0 0 scratch0 0 0]
  by (simp add: cfg_shear_def init_locals_simps grid0_def scratch0_def prim0_def)

text \<open>
  The claim as stated fails for the x2 sweep: with the shearing box enabled its source
  phase leaves \<open>Wl[0].Vx\<close> at \<open>2\<close>, where the claim has \<open>2 + dt Omega W[-1].Vy = 5\<close>.
\<close>

theorem shearing_box_x2_sweep_counterexample:
  "SHEARING_BOX cfg_shear \<and>
   w_Vx (Wl (step2_sources cfg_shear ext0 (init_locals cfg_shear grid0) grid0 0 0 scratch0) 0) = 2 \<and>
   w_Vx (Wl scratch0 0) + dt grid0 * Omega cfg_shear * w_Vy (W scratch0 (0 - 1)) = 5 \<and>
   w_Vx (Wl (step2_sources cfg_shear ext0 (init_locals cfg_shear grid0) grid0 0 0 scratch0) 0) \<noteq>
     w_Vx (Wl scratch0 0) + dt grid0 * Omega cfg_shear * w_Vy (W scratch0 (0 - 1))"
  by (simp add: step2_sources_def cfg_shear_def ext0_def grid0_def scratch0_def prim0_def)

section \<open>The corner EMFs follow the upwind formula\<close>

lemma upwind_src:
  "(if m > 0 then a - b else if m < 0 then c - d else 0.5 * (a - b + c - d)) =
    upwind_spec m (a - b) (c - d)"
  "(if m > 0 then - a - b else if m < 0 then - c - d else 0.5 * (- a - b - c - d)) =
    upwind_spec m (- a - b) (- c - d)"
  by (simp_all add: upwind_spec_def)

lemma emf_corner_val_spec:
  "emf1_corner_val x2F x3F cc k j i =
     corner_emf_spec (\<lambda>p. - c_By (at3 x2F p)) (\<lambda>p. c_Bz (at3 x3F p))
       (\<lambda>p. c_d (at3 x2F p)) (\<lambda>p. c_d (at3 x3F p)) (at3 cc) back2 back3 (k, j, i)"
  "emf2_corner_val x1F x3F cc k j i =
     corner_emf_spec (\<lambda>p. - c_By (at3 x3F p)) (\<lambda>p. c_Bz (at3 x1F p))
       (\<lambda>p. c_d (at3 x3F p)) (\<lambda>p. c_d (at3 x1F p)) (at3 cc) back3 back1 (k, j, i)"
  "emf3_corner_val x1F x2F cc k j i =
     corner_emf_spec (\<lambda>p. - c_By (at3 x1F p)) (\<lambda>p. c_Bz (at3 x2F p))
       (\<lambda>p. c_d (at3 x1F p)) (\<lambda>p. c_d (at3 x2F p)) (at3 cc) back1 back2 (k, j, i)"
  unfolding emf1_corner_val_def emf2_corner_val_def emf3_corner_val_def Let_def upwind_src
    corner_emf_spec_def
  by (simp_all add: at3_def back1_def back2_def back3_def)


lemma integrate_emf1_corner_emf1:
  "emf1 (integrate_emf1_corner pG sc) k j i =
    (if k_s pG - 1 \<le> k \<and> k \<le> k_e pG + 2 \<and> j_s pG - 1 \<le> j \<and> j \<le> j_e pG + 2 \<and>
        i_s pG - 2 \<le> i \<and> i \<le> i_e pG + 2
     then emf1_corner_val (x2Flux sc) (x3Flux sc) (emf1_cc sc) k j i else emf1 sc k j i)"
proof -
  let ?obs = "\<lambda>sc. (emf1 sc k j i, x2Flux sc, x3Flux sc, emf1_cc sc)"
  let ?h = "\<lambda>(e, fa, fb, cc). (emf1_corner_val fa fb cc k j i, fa, fb, cc)"
  have "?obs (integrate_emf1_corner pG sc) =
    (if k_s pG - 1 \<le> k \<and> k \<le> k_e pG + 2 \<and> j_s pG - 1 \<le> j \<and> j \<le> j_e pG + 2 \<and>
        i_s pG - 2 \<le> i \<and> i \<le> i_e pG + 2 then ?h (?obs sc) else ?obs sc)"
    unfolding integrate_emf1_corner_def
    by (rule loop3_once) (auto simp: emf1_corner_cell_def)
  then show ?thesis by (auto split: if_splits)
qed

lemma integrate_emf2_corner_emf2:
  "emf2 (integrate_emf2_corner pG sc) k j i =
    (if k_s pG - 1 \<le> k \<and> k \<le> k_e pG + 2 \<and> j_s pG - 2 \<le> j \<and> j \<le> j_e pG + 2 \<and>
        i_s pG - 1 \<le> i \<and> i \<le> i_e pG + 2
     then emf2_corner_val (x1Flux sc) (x3Flux sc) (emf2_cc sc) k j i else emf2 sc k j i)"
proof -
  let ?obs = "\<lambda>sc. (emf2 sc k j i, x1Flux sc, x3Flux sc, emf2_cc sc)"
  let ?h = "\<lambda>(e, fa, fb, cc). (emf2_corner_val fa fb cc k j i, fa, fb, cc)"
  have "?obs (integrate_emf2_corner pG sc) =
    (if k_s pG - 1 \<le> k \<and> k \<le> k_e pG + 2 \<and> j_s pG - 2 \<le> j \<and> j \<le> j_e pG + 2 \<and>
        i_s pG - 1 \<le> i \<and> i \<le> i_e pG + 2 then ?h (?obs sc) else ?obs sc)"
    unfolding integrate_emf2_corner_def
    by (rule loop3_once) (auto simp: emf2_corner_cell_def)
  then show ?thesis by (auto split: if_splits)
qed

lemma integrate_emf3_corner_emf3:
  "emf3 (integrate_emf3_corner pG sc) k j i =
    (if k_s pG - 2 \<le> k \<and> k \<le> k_e pG + 2 \<and> j_s pG - 1 \<le> j \<and> j \<le> j_e pG + 2 \<and>
        i_s pG - 1 \<le> i \<and> i \<le> i_e pG + 2
     then emf3_corner_val (x1Flux sc) (x2Flux sc) (emf3_cc sc) k j i else emf3 sc k j i)"
proof -
  let ?obs = "\<lambda>sc. (emf3 sc k j i, x1Flux sc, x2Flux sc, emf3_cc sc)"
  let ?h = "\<lambda>(e, fa, fb, cc). (emf3_corner_val fa fb cc k j i, fa, fb, cc)"
  have "?obs (integrate_emf3_corner pG sc) =
    (if k_s pG - 2 \<le> k \<and> k \<le> k_e pG + 2 \<and> j_s pG - 1 \<le> j \<and> j \<le> j_e pG + 2 \<and>
        i_s pG - 1 \<le> i \<and> i \<le> i_e pG + 2 then ?h (?obs sc) else ?obs sc)"
    unfolding integrate_emf3_corner_def
    by (rule loop3_once) (auto simp: emf3_corner_cell_def)
  then show ?thesis by (auto split: if_splits)
qed

text \<open>
  C3: at every corner of the computed ranges each corner EMF is a quarter of the sum of
  the four sign-corrected face-flux EMFs around the edge and of four contributions
  selected by the sign of the mass flux across the adjacent face (left difference if
  positive, right difference if negative, their mean if zero); \<open>emf1\<close>, \<open>emf2\<close> and
  \<open>emf3\<close> are the three cyclic instances of one formula.
\<close>

theorem corner_emf_upwind:
  "(k_s pG - 1 \<le> k \<and> k \<le> k_e pG + 2 \<and> j_s pG - 1 \<le> j \<and> j \<le> j_e pG + 2 \<and>
        i_s pG - 2 \<le> i \<and> i \<le> i_e pG + 2 \<longrightarrow>
     emf1 (integrate_emf1_corner pG sc) k j i =
       corner_emf_spec (\<lambda>p. - c_By (at3 (x2Flux sc) p)) (\<lambda>p. c_Bz (at3 (x3Flux sc) p))
         (\<lambda>p. c_d (at3 (x2Flux sc) p)) (\<lambda>p. c_d (at3 (x3Flux sc) p))
         (at3 (emf1_cc sc)) back2 back3 (k, j, i)) \<and>
   (k_s pG - 1 \<le> k \<and> k \<le> k_e pG + 2 \<and> j_s pG - 2 \<le> j \<and> j \<le> j_e pG + 2 \<and>
        i_s pG - 1 \<le> i \<and> i \<le> i_e pG + 2 \<longrightarrow>
     emf2 (integrate_emf2_corner pG sc) k j i =
       corner_emf_spec (\<lambda>p. - c_By (at3 (x3Flux sc) p)) (\<lambda>p. c_Bz (at3 (x1Flux sc) p))
         (\<lambda>p. c_d (at3 (x3Flux sc) p)) (\<lambda>p. c_d (at3 (x1Flux sc) p))
         (at3 (emf2_cc sc)) back3 back1 (k, j, i)) \<and>
   (k_s pG - 2 \<le> k \<and> k \<le> k_e pG + 2 \<and> j_s pG - 1 \<le> j \<and> j \<le> j_e pG + 2 \<and>
        i_s pG - 1 \<le> i \<and> i \<le> i_e pG + 2 \<longrightarrow>
     emf3 (integrate_emf3_corner pG sc) k j i =
       corner_emf_spec (\<lambda>p. - c_By (at3 (x1Flux sc) p)) (\<lambda>p. c_Bz (at3 (x2Flux sc) p))
         (\<lambda>p. c_d (at3 (x1Flux sc) p)) (\<lambda>p. c_d (at3 (x2Flux sc) p))
         (at3 (emf3_cc sc)) back1 back2 (k, j, i))"
  by (simp add: integrate_emf1_corner_emf1 integrate_emf2_corner_emf2
      integrate_emf3_corner_emf3 emf_corner_val_spec)

theorem corner_emf_upwind_witness:
  "emf1 (integrate_emf1_corner grid0 scratch0) 0 0 0 = 1 \<and>
   emf2 (integrate_emf2_corner grid0 scratch0) 0 0 0 = 1 \<and>
   emf3 (integrate_emf3_corner grid0 scratch0) 0 0 0 = 1"
  using corner_emf_upwind [of grid0 0 0 0 scratch0]
  by (simp add: grid0_def scratch0_def cons0_def corner_emf_spec_def upwind_spec_def
      at3_def back1_def back2_def back3_def)

section \<open>The H-correction: wave-speed differences and their nine-point maximum\<close>

lemma MAX_real_max: "MAX_real a b = max a b"
  by (simp add: MAX_real_def max_def)

lemma Max9:
  "Max {a, b, c, d, e, f, g, h, i::real} =
    max a (max b (max c (max d (max e (max f (max g (max h i)))))))"
  by (simp only: Max_insert Max_singleton finite_insert finite.emptyI insert_not_empty
      not_False_eq_True simp_thms)

lemma etah_nine:
  "etah_x1 (eta1 sc) (eta2 sc) (eta3 sc) k j i =
     Max {eta2 sc k j (i - 1), eta2 sc k j i,
          eta2 sc k (j + 1) (i - 1), eta2 sc k (j + 1) i,
          eta3 sc k j (i - 1), eta3 sc k j i,
          eta3 sc (k + 1) j (i - 1), eta3 sc (k + 1) j i,
          eta1 sc k j i}"
  "etah_x2 (eta1 sc) (eta2 sc) (eta3 sc) k j i =
     Max {eta1 sc k (j - 1) i, eta1 sc k j i,
          eta1 sc k (j - 1) (i + 1), eta1 sc k j (i + 1),
          eta3 sc k (j - 1) i, eta3 sc k j i,
          eta3 sc (k + 1) (j - 1) i, eta3 sc (k + 1) j i,
          eta2 sc k j i}"
  "etah_x3 (eta1 sc) (eta2 sc) (eta3 sc) k j i =
     Max {eta1 sc (k - 1) j i, eta1 sc k j i,
          eta1 sc (k - 1) j (i + 1), eta1 sc k j (i + 1),
          eta2 sc (k - 1) j i, eta2 sc k j i,
          eta2 sc (k - 1) (j + 1) i, eta2 sc k (j + 1) i,
          eta3 sc k j i}"
  by (simp_all only: etah_x1_def etah_x2_def etah_x3_def Let_def MAX_real_max Max9 max.assoc)

lemma step9a_eta1_eta:
  "eta1 (step9a_eta1 ext lv sc) k j i =
    (if l_ks lv - 1 \<le> k \<and> k \<le> l_ke lv + 1 \<and> l_js lv - 1 \<le> j \<and> j \<le> l_je lv + 1 \<and> l_is lv - 1 \<le> i \<and> i \<le> l_ie lv + 2
     then step9a_eta ext (Ur_x1Face sc k j i) (Ul_x1Face sc k j i) (B1_x1Face sc k j i)
     else eta1 sc k j i)"
proof -
  let ?obs = "\<lambda>sc. (eta1 sc k j i, Ur_x1Face sc, Ul_x1Face sc, B1_x1Face sc)"
  let ?h = "\<lambda>(e, ur, ul, b). (step9a_eta ext (ur k j i) (ul k j i) (b k j i), ur, ul, b)"
  have "?obs (step9a_eta1 ext lv sc) =
    (if l_ks lv - 1 \<le> k \<and> k \<le> l_ke lv + 1 \<and> l_js lv - 1 \<le> j \<and> j \<le> l_je lv + 1 \<and> l_is lv - 1 \<le> i \<and> i \<le> l_ie lv + 2 then ?h (?obs sc) else ?obs sc)"
    unfolding step9a_eta1_def
    by (rule loop3_once) (auto simp: step9a_eta1_cell_def)
  then show ?thesis by (auto split: if_splits)
qed

lemma step9a_eta2_eta:
  "eta2 (step9a_eta2 ext lv sc) k j i =
    (if l_ks lv - 1 \<le> k \<and> k \<le> l_ke lv + 1 \<and> l_js lv - 1 \<le> j \<and> j \<le> l_je lv + 2 \<and> l_is lv - 1 \<le> i \<and> i \<le> l_ie lv + 1
     then step9a_eta ext (Ur_x2Face sc k j i) (Ul_x2Face sc k j i) (B2_x2Face sc k j i)
     else eta2 sc k j i)"
proof -
  let ?obs = "\<lambda>sc. (eta2 sc k j i, Ur_x2Face sc, Ul_x2Face sc, B2_x2Face sc)"
  let ?h = "\<lambda>(e, ur, ul, b). (step9a_eta ext (ur k j i) (ul k j i) (b k j i), ur, ul, b)"
  have "?obs (step9a_eta2 ext lv sc) =
    (if l_ks lv - 1 \<le> k \<and> k \<le> l_ke lv + 1 \<and> l_js lv - 1 \<le> j \<and> j \<le> l_je lv + 2 \<and> l_is lv - 1 \<le> i \<and> i \<le> l_ie lv + 1 then ?h (?obs sc) else ?obs sc)"
    unfolding step9a_eta2_def
    by (rule loop3_once) (auto simp: step9a_eta2_cell_def)
  then show ?thesis by (auto split: if_splits)
qed

lemma step9a_eta3_eta:
  "eta3 (step9a_eta3 ext lv sc) k j i =
    (if l_ks lv - 1 \<le> k \<and> k \<le> l_ke lv + 2 \<and> l_js lv - 1 \<le> j \<and> j \<le> l_je lv + 1 \<and> l_is lv - 1 \<le> i \<and> i \<le> l_ie lv + 1
     then step9a_eta ext (Ur_x3Face sc k j i) (Ul_x3Face sc k j i) (B3_x3Face sc k j i)
     else eta3 sc k j i)"
proof -
  let ?obs = "\<lambda>sc. (eta3 sc k j i, Ur_x3Face sc, Ul_x3Face sc, B3_x3Face sc)"
  let ?h = "\<lambda>(e, ur, ul, b). (step9a_eta ext (ur k j i) (ul k j i) (b k j i), ur, ul, b)"
  have "?obs (step9a_eta3 ext lv sc) =
    (if l_ks lv - 1 \<le> k \<and> k \<le> l_ke lv + 2 \<and> l_js lv - 1 \<le> j \<and> j \<le> l_je lv + 1 \<and> l_is lv - 1 \<le> i \<and> i \<le> l_ie lv + 1 then ?h (?obs sc) else ?obs sc)"
    unfolding step9a_eta3_def
    by (rule loop3_once) (auto simp: step9a_eta3_cell_def)
  then show ?thesis by (auto split: if_splits)
qed

lemma step9a_eta_frame:
  "Ur_x2Face (step9a_eta1 ext lv sc) = Ur_x2Face sc" "Ul_x2Face (step9a_eta1 ext lv sc) = Ul_x2Face sc"
  "B2_x2Face (step9a_eta1 ext lv sc) = B2_x2Face sc" "Ur_x3Face (step9a_eta1 ext lv sc) = Ur_x3Face sc"
  "Ul_x3Face (step9a_eta1 ext lv sc) = Ul_x3Face sc" "B3_x3Face (step9a_eta1 ext lv sc) = B3_x3Face sc"
  "Ur_x3Face (step9a_eta2 ext lv sc) = Ur_x3Face sc" "Ul_x3Face (step9a_eta2 ext lv sc) = Ul_x3Face sc"
  "B3_x3Face (step9a_eta2 ext lv sc) = B3_x3Face sc"
  "eta1 (step9a_eta2 ext lv sc) = eta1 sc" "eta1 (step9a_eta3 ext lv sc) = eta1 sc"
  "eta2 (step9a_eta3 ext lv sc) = eta2 sc"
  unfolding step9a_eta1_def step9a_eta2_def step9a_eta3_def
  by (rule loop3_keep, simp add: step9a_eta1_cell_def step9a_eta2_cell_def step9a_eta3_cell_def)+

lemma step9b_flux:
  assumes "H_CORRECTION cfg"
  shows "x1Flux (step9b cfg ext lv sc) k j i =
    (if l_ks lv - 1 \<le> k \<and> k \<le> l_ke lv + 1 \<and> l_js lv - 1 \<le> j \<and> j \<le> l_je lv + 1 \<and> l_is lv \<le> i \<and> i \<le> l_ie lv + 1
     then GET_FLUXES ext (etah_x1 (eta1 sc) (eta2 sc) (eta3 sc) k j i)
             (Ul_x1Face sc k j i) (Ur_x1Face sc k j i)
             (Cons1D_to_Prim1D ext (Ul_x1Face sc k j i) (B1_x1Face sc k j i))
             (Cons1D_to_Prim1D ext (Ur_x1Face sc k j i) (B1_x1Face sc k j i))
             (B1_x1Face sc k j i)
     else x1Flux sc k j i)"
proof -
  let ?obs = "\<lambda>sc. (x1Flux sc k j i, Ul_x1Face sc, Ur_x1Face sc,
          B1_x1Face sc, eta1 sc, eta2 sc, eta3 sc)"
  let ?h = "\<lambda>(f, ul, ur, b, e1, e2, e3).
         (GET_FLUXES ext (etah_x1 e1 e2 e3 k j i) (ul k j i) (ur k j i)
             (Cons1D_to_Prim1D ext (ul k j i) (b k j i))
             (Cons1D_to_Prim1D ext (ur k j i) (b k j i)) (b k j i), ul, ur, b, e1, e2, e3)"
  have "?obs (step9b cfg ext lv sc) =
    (if l_ks lv - 1 \<le> k \<and> k \<le> l_ke lv + 1 \<and> l_js lv - 1 \<le> j \<and> j \<le> l_je lv + 1 \<and> l_is lv \<le> i \<and> i \<le> l_ie lv + 1 then ?h (?obs sc) else ?obs sc)"
    unfolding step9b_def
    by (rule loop3_once) (auto simp: step9b_cell_def Let_def assms)
  then show ?thesis by (auto split: if_splits)
qed

lemma step9c_flux:
  assumes "H_CORRECTION cfg"
  shows "x2Flux (step9c cfg ext lv sc) k j i =
    (if l_ks lv - 1 \<le> k \<and> k \<le> l_ke lv + 1 \<and> l_js lv \<le> j \<and> j \<le> l_je lv + 1 \<and> l_is lv - 1 \<le> i \<and> i \<le> l_ie lv + 1
     then GET_FLUXES ext (etah_x2 (eta1 sc) (eta2 sc) (eta3 sc) k j i)
             (Ul_x2Face sc k j i) (Ur_x2Face sc k j i)
             (Cons1D_to_Prim1D ext (Ul_x2Face sc k j i) (B2_x2Face sc k j i))
             (Cons1D_to_Prim1D ext (Ur_x2Face sc k j i) (B2_x2Face sc k j i))
             (B2_x2Face sc k j i)
     else x2Flux sc k j i)"
proof -
  let ?obs = "\<lambda>sc. (x2Flux sc k j i, Ul_x2Face sc, Ur_x2Face sc,
          B2_x2Face sc, eta1 sc, eta2 sc, eta3 sc)"
  let ?h = "\<lambda>(f, ul, ur, b, e1, e2, e3).
         (GET_FLUXES ext (etah_x2 e1 e2 e3 k j i) (ul k j i) (ur k j i)
             (Cons1D_to_Prim1D ext (ul k j i) (b k j i))
             (Cons1D_to_Prim1D ext (ur k j i) (b k j i)) (b k j i), ul, ur, b, e1, e2, e3)"
  have "?obs (step9c cfg ext lv sc) =
    (if l_ks lv - 1 \<le> k \<and> k \<le> l_ke lv + 1 \<and> l_js lv \<le> j \<and> j \<le> l_je lv + 1 \<and> l_is lv - 1 \<le> i \<and> i \<le> l_ie lv + 1 then ?h (?obs sc) else ?obs sc)"
    unfolding step9c_def
    by (rule loop3_once) (auto simp: step9c_cell_def Let_def assms)
  then show ?thesis by (auto split: if_splits)
qed

lemma step9d_flux:
  assumes "H_CORRECTION cfg"
  shows "x3Flux (step9d cfg ext lv sc) k j i =
    (if l_ks lv \<le> k \<and> k \<le> l_ke lv + 1 \<and> l_js lv - 1 \<le> j \<and> j \<le> l_je lv + 1 \<and> l_is lv - 1 \<le> i \<and> i \<le> l_ie lv + 1
     then GET_FLUXES ext (etah_x3 (eta1 sc) (eta2 sc) (eta3 sc) k j i)
             (Ul_x3Face sc k j i) (Ur_x3Face sc k j i)
             (Cons1D_to_Prim1D ext (Ul_x3Face sc k j i) (B3_x3Face sc k j i))
             (Cons1D_to_Prim1D ext (Ur_x3Face sc k j i) (B3_x3Face sc k j i))
             (B3_x3Face sc k j i)
     else x3Flux sc k j i)"
proof -
  let ?obs = "\<lambda>sc. (x3Flux sc k j i, Ul_x3Face sc, Ur_x3Face sc,
          B3_x3Face sc, eta1 sc, eta2 sc, eta3 sc)"
  let ?h = "\<lambda>(f, ul, ur, b, e1, e2, e3).
         (GET_FLUXES ext (etah_x3 e1 e2 e3 k j i) (ul k j i) (ur k j i)
             (Cons1D_to_Prim1D ext (ul k j i) (b k j i))
             (Cons1D_to_Prim1D ext (ur k j i) (b k j i)) (b k j i), ul, ur, b, e1, e2, e3)"
  have "?obs (step9d cfg ext lv sc) =
    (if l_ks lv \<le> k \<and> k \<le> l_ke lv + 1 \<and> l_js lv - 1 \<le> j \<and> j \<le> l_je lv + 1 \<and> l_is lv - 1 \<le> i \<and> i \<le> l_ie lv + 1 then ?h (?obs sc) else ?obs sc)"
    unfolding step9d_def
    by (rule loop3_once) (auto simp: step9d_cell_def Let_def assms)
  then show ?thesis by (auto split: if_splits)
qed

text \<open>
  C6: with the H-correction enabled, Step 9a stores \<open>0.5 |lambda_R - lambda_L|\<close> on every
  face of its ranges, with \<open>lambda_R = Ur.Mx/Ur.d + cfast(Ur)\<close> and
  \<open>lambda_L = Ul.Mx/Ul.d - cfast(Ul)\<close> of the face states at hand; and each Riemann solve of
  Steps 9b to 9d receives as \<open>etah\<close> the maximum of nine values: the face's own \<open>eta\<close> and
  the four bracketing transverse faces in each of the two planes through the face normal.
\<close>

theorem h_correction_eta:
  "H_CORRECTION cfg \<longrightarrow>
   (l_ks lv - 1 \<le> k \<and> k \<le> l_ke lv + 1 \<and> l_js lv - 1 \<le> j \<and> j \<le> l_je lv + 1 \<and> l_is lv - 1 \<le> i \<and> i \<le> l_ie lv + 2 \<longrightarrow>
      eta1 (step9a cfg ext lv sc) k j i =
        0.5 * \<bar>(c_Mx (Ur_x1Face sc k j i) / c_d (Ur_x1Face sc k j i) +
                  cfast ext (Ur_x1Face sc k j i) (B1_x1Face sc k j i)) -
                 (c_Mx (Ul_x1Face sc k j i) / c_d (Ul_x1Face sc k j i) -
                  cfast ext (Ul_x1Face sc k j i) (B1_x1Face sc k j i))\<bar>) \<and>
   (l_ks lv - 1 \<le> k \<and> k \<le> l_ke lv + 1 \<and> l_js lv - 1 \<le> j \<and> j \<le> l_je lv + 2 \<and> l_is lv - 1 \<le> i \<and> i \<le> l_ie lv + 1 \<longrightarrow>
      eta2 (step9a cfg ext lv sc) k j i =
        0.5 * \<bar>(c_Mx (Ur_x2Face sc k j i) / c_d (Ur_x2Face sc k j i) +
                  cfast ext (Ur_x2Face sc k j i) (B2_x2Face sc k j i)) -
                 (c_Mx (Ul_x2Face sc k j i) / c_d (Ul_x2Face sc k j i) -
                  cfast ext (Ul_x2Face sc k j i) (B2_x2Face sc k j i))\<bar>) \<and>
   (l_ks lv - 1 \<le> k \<and> k \<le> l_ke lv + 2 \<and> l_js lv - 1 \<le> j \<and> j \<le> l_je lv + 1 \<and> l_is lv - 1 \<le> i \<and> i \<le> l_ie lv + 1 \<longrightarrow>
      eta3 (step9a cfg ext lv sc) k j i =
        0.5 * \<bar>(c_Mx (Ur_x3Face sc k j i) / c_d (Ur_x3Face sc k j i) +
                  cfast ext (Ur_x3Face sc k j i) (B3_x3Face sc k j i)) -
                 (c_Mx (Ul_x3Face sc k j i) / c_d (Ul_x3Face sc k j i) -
                  cfast ext (Ul_x3Face sc k j i) (B3_x3Face sc k j i))\<bar>) \<and>
   (l_ks lv - 1 \<le> k \<and> k \<le> l_ke lv + 1 \<and> l_js lv - 1 \<le> j \<and> j \<le> l_je lv + 1 \<and> l_is lv \<le> i \<and> i \<le> l_ie lv + 1 \<longrightarrow>
      x1Flux (step9b cfg ext lv sc) k j i =
        GET_FLUXES ext
          (Max {eta2 sc k j (i - 1), eta2 sc k j i,
               eta2 sc k (j + 1) (i - 1), eta2 sc k (j + 1) i,
               eta3 sc k j (i - 1), eta3 sc k j i,
               eta3 sc (k + 1) j (i - 1), eta3 sc (k + 1) j i,
               eta1 sc k j i})
          (Ul_x1Face sc k j i) (Ur_x1Face sc k j i)
          (Cons1D_to_Prim1D ext (Ul_x1Face sc k j i) (B1_x1Face sc k j i))
          (Cons1D_to_Prim1D ext (Ur_x1Face sc k j i) (B1_x1Face sc k j i))
          (B1_x1Face sc k j i)) \<and>
   (l_ks lv - 1 \<le> k \<and> k \<le> l_ke lv + 1 \<and> l_js lv \<le> j \<and> j \<le> l_je lv + 1 \<and> l_is lv - 1 \<le> i \<and> i \<le> l_ie lv + 1 \<longrightarrow>
      x2Flux (step9c cfg ext lv sc) k j i =
        GET_FLUXES ext
          (Max {eta1 sc k (j - 1) i, eta1 sc k j i,
               eta1 sc k (j - 1) (i + 1), eta1 sc k j (i + 1),
               eta3 sc k (j - 1) i, eta3 sc k j i,
               eta3 sc (k + 1) (j - 1) i, eta3 sc (k + 1) j i,
               eta2 sc k j i})
          (Ul_x2Face sc k j i) (Ur_x2Face sc k j i)
          (Cons1D_to_Prim1D ext (Ul_x2Face sc k j i) (B2_x2Face sc k j i))
          (Cons1D_to_Prim1D ext (Ur_x2Face sc k j i) (B2_x2Face sc k j i))
          (B2_x2Face sc k j i)) \<and>
   (l_ks lv \<le> k \<and> k \<le> l_ke lv + 1 \<and> l_js lv - 1 \<le> j \<and> j \<le> l_je lv + 1 \<and> l_is lv - 1 \<le> i \<and> i \<le> l_ie lv + 1 \<longrightarrow>
      x3Flux (step9d cfg ext lv sc) k j i =
        GET_FLUXES ext
          (Max {eta1 sc (k - 1) j i, eta1 sc k j i,
               eta1 sc (k - 1) j (i + 1), eta1 sc k j (i + 1),
               eta2 sc (k - 1) j i, eta2 sc k j i,
               eta2 sc (k - 1) (j + 1) i, eta2 sc k (j + 1) i,
               eta3 sc k j i})
          (Ul_x3Face sc k j i) (Ur_x3Face sc k j i)
          (Cons1D_to_Prim1D ext (Ul_x3Face sc k j i) (B3_x3Face sc k j i))
          (Cons1D_to_Prim1D ext (Ur_x3Face sc k j i) (B3_x3Face sc k j i))
          (B3_x3Face sc k j i))"
  unfolding etah_nine [symmetric]
  by (simp add: step9a_def step9a_eta_frame step9a_eta1_eta step9a_eta2_eta step9a_eta3_eta
      step9b_flux step9c_flux step9d_flux step9a_eta_def Let_def)

theorem h_correction_eta_witness:
  "eta1 (step9a cfg_h ext0 (init_locals cfg_h grid0) scratch0) 0 0 0 = 1 \<and>
   eta2 (step9a cfg_h ext0 (init_locals cfg_h grid0) scratch0) 0 0 0 = 1 \<and>
   eta3 (step9a cfg_h ext0 (init_locals cfg_h grid0) scratch0) 0 0 0 = 1 \<and>
   c_E (x1Flux (step9b cfg_h ext0 (init_locals cfg_h grid0) scratch0) 0 0 0) = 3 \<and>
   c_E (x2Flux (step9c cfg_h ext0 (init_locals cfg_h grid0) scratch0) 0 0 0) = 3 \<and>
   c_E (x3Flux (step9d cfg_h ext0 (init_locals cfg_h grid0) scratch0) 0 0 0) = 2"
  using h_correction_eta [of cfg_h "init_locals cfg_h grid0" 0 0 0 ext0 scratch0]
  by (simp add: cfg_h_def init_locals_simps grid0_def scratch0_def cons0_def ext0_def)

section \<open>The full-step constrained-transport update preserves the divergence\<close>

lemma step10b_cell_B:
  "B1i (step10b_cell lv sc k j i pG) k0 j0 i0 =
    (if i = i0 \<and> (k0 = k \<and> j0 = j) then B1i pG k0 j0 i0 + dB1 lv sc k0 j0 i0 else B1i pG k0 j0 i0)"
  "B2i (step10b_cell lv sc k j i pG) k0 j0 i0 =
    (if i = i0 \<and> (k0 = k \<and> j0 = j) then B2i pG k0 j0 i0 + dB2 lv sc k0 j0 i0 else B2i pG k0 j0 i0)"
  "B3i (step10b_cell lv sc k j i pG) k0 j0 i0 =
    (if i = i0 \<and> (k0 = k \<and> j0 = j) then B3i pG k0 j0 i0 + dB3 lv sc k0 j0 i0 else B3i pG k0 j0 i0)"
  by (auto simp: step10b_cell_def Let_def dB1_def dB2_def dB3_def)

lemma step10b_edge_B:
  "B1i (step10b_B1edge lv sc k j pG) k0 j0 i0 =
    (if k0 = k \<and> j0 = j \<and> i0 = l_ie lv + 1 then B1i pG k0 j0 i0 + dB1 lv sc k0 j0 i0
     else B1i pG k0 j0 i0)"
  "B2i (step10b_B1edge lv sc k j pG) = B2i pG"
  "B3i (step10b_B1edge lv sc k j pG) = B3i pG"
  "B1i (step10b_B2edge lv sc k i pG) = B1i pG"
  "B2i (step10b_B2edge lv sc k i pG) k0 j0 i0 =
    (if i = i0 \<and> (k0 = k \<and> j0 = l_je lv + 1) then B2i pG k0 j0 i0 + dB2 lv sc k0 j0 i0
     else B2i pG k0 j0 i0)"
  "B3i (step10b_B2edge lv sc k i pG) = B3i pG"
  "B1i (step10b_B3edge lv sc j i pG) = B1i pG"
  "B2i (step10b_B3edge lv sc j i pG) = B2i pG"
  "B3i (step10b_B3edge lv sc j i pG) k0 j0 i0 =
    (if i = i0 \<and> (k0 = l_ke lv + 1 \<and> j = j0) then B3i pG k0 j0 i0 + dB3 lv sc k0 j0 i0
     else B3i pG k0 j0 i0)"
  by (auto simp: step10b_B1edge_def step10b_B2edge_def step10b_B3edge_def dB1_def dB2_def dB3_def)

lemma step10b_cells_B:
  "B1i (fold (\<lambda>i. step10b_cell lv sc k j i) [il..iu] pG) k0 j0 i0 =
    (if il \<le> i0 \<and> i0 \<le> iu \<and> (k0 = k \<and> j0 = j)
     then B1i pG k0 j0 i0 + dB1 lv sc k0 j0 i0 else B1i pG k0 j0 i0)"
  "B2i (fold (\<lambda>i. step10b_cell lv sc k j i) [il..iu] pG) k0 j0 i0 =
    (if il \<le> i0 \<and> i0 \<le> iu \<and> (k0 = k \<and> j0 = j)
     then B2i pG k0 j0 i0 + dB2 lv sc k0 j0 i0 else B2i pG k0 j0 i0)"
  "B3i (fold (\<lambda>i. step10b_cell lv sc k j i) [il..iu] pG) k0 j0 i0 =
    (if il \<le> i0 \<and> i0 \<le> iu \<and> (k0 = k \<and> j0 = j)
     then B3i pG k0 j0 i0 + dB3 lv sc k0 j0 i0 else B3i pG k0 j0 i0)"
  using upto_cond [where obs = "\<lambda>pG. B1i pG k0 j0 i0" and y = i0
      and body = "\<lambda>i. step10b_cell lv sc k j i" and C = "k0 = k \<and> j0 = j"
      and h = "\<lambda>b. b + dB1 lv sc k0 j0 i0" and a = il and b = iu and s = pG]
    upto_cond [where obs = "\<lambda>pG. B2i pG k0 j0 i0" and y = i0
      and body = "\<lambda>i. step10b_cell lv sc k j i" and C = "k0 = k \<and> j0 = j"
      and h = "\<lambda>b. b + dB2 lv sc k0 j0 i0" and a = il and b = iu and s = pG]
    upto_cond [where obs = "\<lambda>pG. B3i pG k0 j0 i0" and y = i0
      and body = "\<lambda>i. step10b_cell lv sc k j i" and C = "k0 = k \<and> j0 = j"
      and h = "\<lambda>b. b + dB3 lv sc k0 j0 i0" and a = il and b = iu and s = pG]
  by (simp_all add: step10b_cell_B)

lemma step10b_row_B:
  "l_is lv \<le> l_ie lv + 1 \<Longrightarrow> B1i (step10b_row lv sc k j pG) k0 j0 i0 =
    (if j = j0 \<and> (k0 = k \<and> l_is lv \<le> i0 \<and> i0 \<le> l_ie lv + 1)
     then B1i pG k0 j0 i0 + dB1 lv sc k0 j0 i0 else B1i pG k0 j0 i0)"
  "B2i (step10b_row lv sc k j pG) k0 j0 i0 =
    (if j = j0 \<and> (k0 = k \<and> l_is lv \<le> i0 \<and> i0 \<le> l_ie lv)
     then B2i pG k0 j0 i0 + dB2 lv sc k0 j0 i0 else B2i pG k0 j0 i0)"
  "B3i (step10b_row lv sc k j pG) k0 j0 i0 =
    (if j = j0 \<and> (k0 = k \<and> l_is lv \<le> i0 \<and> i0 \<le> l_ie lv)
     then B3i pG k0 j0 i0 + dB3 lv sc k0 j0 i0 else B3i pG k0 j0 i0)"
  unfolding step10b_row_def step10b_edge_B step10b_cells_B
  by auto

lemma step10b_rows_B:
  "l_is lv \<le> l_ie lv + 1 \<Longrightarrow>
   B1i (fold (\<lambda>j. step10b_row lv sc k j) [jl..ju] pG) k0 j0 i0 =
    (if jl \<le> j0 \<and> j0 \<le> ju \<and> (k0 = k \<and> l_is lv \<le> i0 \<and> i0 \<le> l_ie lv + 1)
     then B1i pG k0 j0 i0 + dB1 lv sc k0 j0 i0 else B1i pG k0 j0 i0)"
  "B2i (fold (\<lambda>j. step10b_row lv sc k j) [jl..ju] pG) k0 j0 i0 =
    (if jl \<le> j0 \<and> j0 \<le> ju \<and> (k0 = k \<and> l_is lv \<le> i0 \<and> i0 \<le> l_ie lv)
     then B2i pG k0 j0 i0 + dB2 lv sc k0 j0 i0 else B2i pG k0 j0 i0)"
  "B3i (fold (\<lambda>j. step10b_row lv sc k j) [jl..ju] pG) k0 j0 i0 =
    (if jl \<le> j0 \<and> j0 \<le> ju \<and> (k0 = k \<and> l_is lv \<le> i0 \<and> i0 \<le> l_ie lv)
     then B3i pG k0 j0 i0 + dB3 lv sc k0 j0 i0 else B3i pG k0 j0 i0)"
  using upto_cond [where obs = "\<lambda>pG. B1i pG k0 j0 i0" and y = j0
      and body = "\<lambda>j. step10b_row lv sc k j"
      and C = "k0 = k \<and> l_is lv \<le> i0 \<and> i0 \<le> l_ie lv + 1"
      and h = "\<lambda>b. b + dB1 lv sc k0 j0 i0" and a = jl and b = ju and s = pG]
    upto_cond [where obs = "\<lambda>pG. B2i pG k0 j0 i0" and y = j0
      and body = "\<lambda>j. step10b_row lv sc k j"
      and C = "k0 = k \<and> l_is lv \<le> i0 \<and> i0 \<le> l_ie lv"
      and h = "\<lambda>b. b + dB2 lv sc k0 j0 i0" and a = jl and b = ju and s = pG]
    upto_cond [where obs = "\<lambda>pG. B3i pG k0 j0 i0" and y = j0
      and body = "\<lambda>j. step10b_row lv sc k j"
      and C = "k0 = k \<and> l_is lv \<le> i0 \<and> i0 \<le> l_ie lv"
      and h = "\<lambda>b. b + dB3 lv sc k0 j0 i0" and a = jl and b = ju and s = pG]
  by (simp_all add: step10b_row_B)

lemma step10b_B2edges_B:
  "B1i (fold (\<lambda>i. step10b_B2edge lv sc k i) [il..iu] pG) = B1i pG"
  "B3i (fold (\<lambda>i. step10b_B2edge lv sc k i) [il..iu] pG) = B3i pG"
  "B2i (fold (\<lambda>i. step10b_B2edge lv sc k i) [il..iu] pG) k0 j0 i0 =
    (if il \<le> i0 \<and> i0 \<le> iu \<and> (k0 = k \<and> j0 = l_je lv + 1)
     then B2i pG k0 j0 i0 + dB2 lv sc k0 j0 i0 else B2i pG k0 j0 i0)"
  using fold_keep [where obs = B1i and body = "\<lambda>i. step10b_B2edge lv sc k i"
      and xs = "[il..iu]" and s = pG]
    fold_keep [where obs = B3i and body = "\<lambda>i. step10b_B2edge lv sc k i"
      and xs = "[il..iu]" and s = pG]
    upto_cond [where obs = "\<lambda>pG. B2i pG k0 j0 i0" and y = i0
      and body = "\<lambda>i. step10b_B2edge lv sc k i" and C = "k0 = k \<and> j0 = l_je lv + 1"
      and h = "\<lambda>b. b + dB2 lv sc k0 j0 i0" and a = il and b = iu and s = pG]
  by (simp_all add: step10b_edge_B)

lemma step10b_plane_B:
  "l_is lv \<le> l_ie lv + 1 \<Longrightarrow> B1i (step10b_plane lv sc k pG) k0 j0 i0 =
    (if k = k0 \<and> (l_js lv \<le> j0 \<and> j0 \<le> l_je lv \<and> l_is lv \<le> i0 \<and> i0 \<le> l_ie lv + 1)
     then B1i pG k0 j0 i0 + dB1 lv sc k0 j0 i0 else B1i pG k0 j0 i0)"
  "l_js lv \<le> l_je lv + 1 \<Longrightarrow> B2i (step10b_plane lv sc k pG) k0 j0 i0 =
    (if k = k0 \<and> (l_js lv \<le> j0 \<and> j0 \<le> l_je lv + 1 \<and> l_is lv \<le> i0 \<and> i0 \<le> l_ie lv)
     then B2i pG k0 j0 i0 + dB2 lv sc k0 j0 i0 else B2i pG k0 j0 i0)"
  "B3i (step10b_plane lv sc k pG) k0 j0 i0 =
    (if k = k0 \<and> (l_js lv \<le> j0 \<and> j0 \<le> l_je lv \<and> l_is lv \<le> i0 \<and> i0 \<le> l_ie lv)
     then B3i pG k0 j0 i0 + dB3 lv sc k0 j0 i0 else B3i pG k0 j0 i0)"
  unfolding step10b_plane_def step10b_B2edges_B
  by (auto simp: step10b_rows_B)

lemma step10b_planes_B:
  "l_is lv \<le> l_ie lv + 1 \<Longrightarrow>
   B1i (fold (\<lambda>k. step10b_plane lv sc k) [kl..ku] pG) k0 j0 i0 =
    (if kl \<le> k0 \<and> k0 \<le> ku \<and>
        (l_js lv \<le> j0 \<and> j0 \<le> l_je lv \<and> l_is lv \<le> i0 \<and> i0 \<le> l_ie lv + 1)
     then B1i pG k0 j0 i0 + dB1 lv sc k0 j0 i0 else B1i pG k0 j0 i0)"
  "l_js lv \<le> l_je lv + 1 \<Longrightarrow>
   B2i (fold (\<lambda>k. step10b_plane lv sc k) [kl..ku] pG) k0 j0 i0 =
    (if kl \<le> k0 \<and> k0 \<le> ku \<and>
        (l_js lv \<le> j0 \<and> j0 \<le> l_je lv + 1 \<and> l_is lv \<le> i0 \<and> i0 \<le> l_ie lv)
     then B2i pG k0 j0 i0 + dB2 lv sc k0 j0 i0 else B2i pG k0 j0 i0)"
  "B3i (fold (\<lambda>k. step10b_plane lv sc k) [kl..ku] pG) k0 j0 i0 =
    (if kl \<le> k0 \<and> k0 \<le> ku \<and>
        (l_js lv \<le> j0 \<and> j0 \<le> l_je lv \<and> l_is lv \<le> i0 \<and> i0 \<le> l_ie lv)
     then B3i pG k0 j0 i0 + dB3 lv sc k0 j0 i0 else B3i pG k0 j0 i0)"
  using upto_cond [where obs = "\<lambda>pG. B1i pG k0 j0 i0" and y = k0
      and body = "\<lambda>k. step10b_plane lv sc k"
      and C = "l_js lv \<le> j0 \<and> j0 \<le> l_je lv \<and> l_is lv \<le> i0 \<and> i0 \<le> l_ie lv + 1"
      and h = "\<lambda>b. b + dB1 lv sc k0 j0 i0" and a = kl and b = ku and s = pG]
    upto_cond [where obs = "\<lambda>pG. B2i pG k0 j0 i0" and y = k0
      and body = "\<lambda>k. step10b_plane lv sc k"
      and C = "l_js lv \<le> j0 \<and> j0 \<le> l_je lv + 1 \<and> l_is lv \<le> i0 \<and> i0 \<le> l_ie lv"
      and h = "\<lambda>b. b + dB2 lv sc k0 j0 i0" and a = kl and b = ku and s = pG]
    upto_cond [where obs = "\<lambda>pG. B3i pG k0 j0 i0" and y = k0
      and body = "\<lambda>k. step10b_plane lv sc k"
      and C = "l_js lv \<le> j0 \<and> j0 \<le> l_je lv \<and> l_is lv \<le> i0 \<and> i0 \<le> l_ie lv"
      and h = "\<lambda>b. b + dB3 lv sc k0 j0 i0" and a = kl and b = ku and s = pG]
  by (simp_all add: step10b_plane_B)

lemma step10b_B3edges_B:
  "B1i (fold (\<lambda>j. fold (\<lambda>i. step10b_B3edge lv sc j i) [il..iu]) [jl..ju] pG) = B1i pG"
  "B2i (fold (\<lambda>j. fold (\<lambda>i. step10b_B3edge lv sc j i) [il..iu]) [jl..ju] pG) = B2i pG"
  "B3i (fold (\<lambda>j. fold (\<lambda>i. step10b_B3edge lv sc j i) [il..iu]) [jl..ju] pG) k0 j0 i0 =
    (if jl \<le> j0 \<and> j0 \<le> ju \<and> (il \<le> i0 \<and> i0 \<le> iu \<and> k0 = l_ke lv + 1)
     then B3i pG k0 j0 i0 + dB3 lv sc k0 j0 i0 else B3i pG k0 j0 i0)"
proof -
  have inner1: "B1i (fold (\<lambda>i. step10b_B3edge lv sc j i) [il..iu] t) = B1i t" for j t
    using fold_keep [where obs = B1i and body = "\<lambda>i. step10b_B3edge lv sc j i"
        and xs = "[il..iu]" and s = t]
    by (simp add: step10b_edge_B)
  have inner2: "B2i (fold (\<lambda>i. step10b_B3edge lv sc j i) [il..iu] t) = B2i t" for j t
    using fold_keep [where obs = B2i and body = "\<lambda>i. step10b_B3edge lv sc j i"
        and xs = "[il..iu]" and s = t]
    by (simp add: step10b_edge_B)
  have inner3: "B3i (fold (\<lambda>i. step10b_B3edge lv sc j i) [il..iu] t) k0 j0 i0 =
      (if j = j0 \<and> (il \<le> i0 \<and> i0 \<le> iu \<and> k0 = l_ke lv + 1)
       then B3i t k0 j0 i0 + dB3 lv sc k0 j0 i0 else B3i t k0 j0 i0)" for j t
    using upto_cond [where obs = "\<lambda>pG. B3i pG k0 j0 i0" and y = i0
      and body = "\<lambda>i. step10b_B3edge lv sc j i" and C = "k0 = l_ke lv + 1 \<and> j = j0"
      and h = "\<lambda>b. b + dB3 lv sc k0 j0 i0" and a = il and b = iu and s = t]
    by (simp add: step10b_edge_B)
  show "B1i (fold (\<lambda>j. fold (\<lambda>i. step10b_B3edge lv sc j i) [il..iu]) [jl..ju] pG) = B1i pG"
    using fold_keep [where obs = B1i and body = "\<lambda>j. fold (\<lambda>i. step10b_B3edge lv sc j i) [il..iu]"
        and xs = "[jl..ju]" and s = pG]
    by (simp add: inner1)
  show "B2i (fold (\<lambda>j. fold (\<lambda>i. step10b_B3edge lv sc j i) [il..iu]) [jl..ju] pG) = B2i pG"
    using fold_keep [where obs = B2i and body = "\<lambda>j. fold (\<lambda>i. step10b_B3edge lv sc j i) [il..iu]"
        and xs = "[jl..ju]" and s = pG]
    by (simp add: inner2)
  show "B3i (fold (\<lambda>j. fold (\<lambda>i. step10b_B3edge lv sc j i) [il..iu]) [jl..ju] pG) k0 j0 i0 =
    (if jl \<le> j0 \<and> j0 \<le> ju \<and> (il \<le> i0 \<and> i0 \<le> iu \<and> k0 = l_ke lv + 1)
     then B3i pG k0 j0 i0 + dB3 lv sc k0 j0 i0 else B3i pG k0 j0 i0)"
    using upto_cond [where obs = "\<lambda>pG. B3i pG k0 j0 i0" and y = j0
      and body = "\<lambda>j. fold (\<lambda>i. step10b_B3edge lv sc j i) [il..iu]"
      and C = "il \<le> i0 \<and> i0 \<le> iu \<and> k0 = l_ke lv + 1"
      and h = "\<lambda>b. b + dB3 lv sc k0 j0 i0" and a = jl and b = ju and s = pG]
    by (simp add: inner3)
qed

lemma step10b_B1i:
  assumes "l_is lv \<le> l_ie lv + 1"
  shows "B1i (step10b lv sc pG) k j i =
    (if l_ks lv \<le> k \<and> k \<le> l_ke lv \<and> l_js lv \<le> j \<and> j \<le> l_je lv \<and>
        l_is lv \<le> i \<and> i \<le> l_ie lv + 1
     then B1i pG k j i + dB1 lv sc k j i else B1i pG k j i)"
  unfolding step10b_def step10b_B3edges_B
  by (simp add: step10b_planes_B(1) [OF assms])

lemma step10b_B2i:
  assumes "l_js lv \<le> l_je lv + 1"
  shows "B2i (step10b lv sc pG) k j i =
    (if l_ks lv \<le> k \<and> k \<le> l_ke lv \<and> l_js lv \<le> j \<and> j \<le> l_je lv + 1 \<and>
        l_is lv \<le> i \<and> i \<le> l_ie lv
     then B2i pG k j i + dB2 lv sc k j i else B2i pG k j i)"
  unfolding step10b_def step10b_B3edges_B
  by (simp add: step10b_planes_B(2) [OF assms])

lemma step10b_B3i:
  assumes "l_ks lv \<le> l_ke lv + 1"
  shows "B3i (step10b lv sc pG) k j i =
    (if l_ks lv \<le> k \<and> k \<le> l_ke lv + 1 \<and> l_js lv \<le> j \<and> j \<le> l_je lv \<and>
        l_is lv \<le> i \<and> i \<le> l_ie lv
     then B3i pG k j i + dB3 lv sc k j i else B3i pG k j i)"
  unfolding step10b_def step10b_B3edges_B
  using assms by (auto simp: step10b_planes_B(3))

lemma step10b_parts_clearB:
  "clearB (step10b_cell lv sc k j i pG) = clearB pG"
  "clearB (step10b_B1edge lv sc k j pG) = clearB pG"
  "clearB (step10b_B2edge lv sc k i pG) = clearB pG"
  "clearB (step10b_B3edge lv sc j i pG) = clearB pG"
  by (simp_all add: clearB_def step10b_cell_def step10b_B1edge_def step10b_B2edge_def
      step10b_B3edge_def)

lemma step10b_row_clearB: "clearB (step10b_row lv sc k j pG) = clearB pG"
  unfolding step10b_row_def step10b_parts_clearB
  by (rule fold_keep) (rule step10b_parts_clearB)

lemma step10b_plane_clearB: "clearB (step10b_plane lv sc k pG) = clearB pG"
proof -
  have "clearB (step10b_plane lv sc k pG) =
      clearB (fold (\<lambda>j. step10b_row lv sc k j) [l_js lv..l_je lv] pG)"
    unfolding step10b_plane_def by (rule fold_keep) (rule step10b_parts_clearB)
  also have "\<dots> = clearB pG"
    by (rule fold_keep) (rule step10b_row_clearB)
  finally show ?thesis .
qed

lemma step10b_clearB: "clearB (step10b lv sc pG) = clearB pG"
proof -
  have "clearB (step10b lv sc pG) =
      clearB (fold (\<lambda>k. step10b_plane lv sc k) [l_ks lv..l_ke lv] pG)"
    unfolding step10b_def
    by (rule fold_keep, rule fold_keep) (rule step10b_parts_clearB)
  also have "\<dots> = clearB pG"
    by (rule fold_keep) (rule step10b_plane_clearB)
  finally show ?thesis .
qed

lemma clearB_fields:
  "dx1 (clearB pG) = dx1 pG" "dx2 (clearB pG) = dx2 pG" "dx3 (clearB pG) = dx3 pG"
  "dt (clearB pG) = dt pG" "time (clearB pG) = time pG" "Phi (clearB pG) = Phi pG"
  "U (clearB pG) = U pG"
  by (simp_all add: clearB_def)

lemma step10b_dx:
  "dx1 (step10b lv sc pG) = dx1 pG" "dx2 (step10b lv sc pG) = dx2 pG"
  "dx3 (step10b lv sc pG) = dx3 pG"
  using step10b_clearB [of lv sc pG] clearB_fields by metis+

text \<open>
  C1: for every interior cell the full-step constrained-transport update of Step 10b
  leaves the discrete divergence of the face field unchanged, whatever the corner
  EMFs are (exact real arithmetic).
\<close>

theorem ct_update_preserves_divB:
  assumes "k_s pG \<le> k" "k \<le> k_e pG" "j_s pG \<le> j" "j \<le> j_e pG" "i_s pG \<le> i" "i \<le> i_e pG"
  shows "divB (step10b (init_locals cfg pG) sc pG) k j i = divB pG k j i"
proof -
  let ?lv = "init_locals cfg pG"
  have lv: "l_is ?lv = i_s pG" "l_ie ?lv = i_e pG" "l_js ?lv = j_s pG" "l_je ?lv = j_e pG"
    "l_ks ?lv = k_s pG" "l_ke ?lv = k_e pG"
    "dtodx1 ?lv = dt pG / dx1 pG" "dtodx2 ?lv = dt pG / dx2 pG" "dtodx3 ?lv = dt pG / dx3 pG"
    by (simp_all add: init_locals_def)
  have r: "l_is ?lv \<le> l_ie ?lv + 1" "l_js ?lv \<le> l_je ?lv + 1" "l_ks ?lv \<le> l_ke ?lv + 1"
    using assms by (simp_all add: lv)
  have b1: "B1i (step10b ?lv sc pG) k j (i + 1) = B1i pG k j (i + 1) + dB1 ?lv sc k j (i + 1)"
    "B1i (step10b ?lv sc pG) k j i = B1i pG k j i + dB1 ?lv sc k j i"
    using assms by (simp_all add: step10b_B1i [OF r(1)] lv)
  have b2: "B2i (step10b ?lv sc pG) k (j + 1) i = B2i pG k (j + 1) i + dB2 ?lv sc k (j + 1) i"
    "B2i (step10b ?lv sc pG) k j i = B2i pG k j i + dB2 ?lv sc k j i"
    using assms by (simp_all add: step10b_B2i [OF r(2)] lv)
  have b3: "B3i (step10b ?lv sc pG) (k + 1) j i = B3i pG (k + 1) j i + dB3 ?lv sc (k + 1) j i"
    "B3i (step10b ?lv sc pG) k j i = B3i pG k j i + dB3 ?lv sc k j i"
    using assms by (simp_all add: step10b_B3i [OF r(3)] lv)
  have cancel: "(dB1 ?lv sc k j (i + 1) - dB1 ?lv sc k j i) / dx1 pG +
      (dB2 ?lv sc k (j + 1) i - dB2 ?lv sc k j i) / dx2 pG +
      (dB3 ?lv sc (k + 1) j i - dB3 ?lv sc k j i) / dx3 pG = 0"
    by (simp add: dB1_def dB2_def dB3_def lv divide_inverse algebra_simps)
  have "divB (step10b ?lv sc pG) k j i = divB pG k j i +
      ((dB1 ?lv sc k j (i + 1) - dB1 ?lv sc k j i) / dx1 pG +
      (dB2 ?lv sc k (j + 1) i - dB2 ?lv sc k j i) / dx2 pG +
      (dB3 ?lv sc (k + 1) j i - dB3 ?lv sc k j i) / dx3 pG)"
    unfolding divB_def step10b_dx b1 b2 b3
    by (simp add: divide_inverse algebra_simps)
  then show ?thesis by (simp only: cancel add_0_right)
qed

theorem ct_update_preserves_divB_witness:
  "k_s grid0 \<le> 0 \<and> 0 \<le> k_e grid0 \<and> j_s grid0 \<le> 0 \<and> 0 \<le> j_e grid0 \<and>
   i_s grid0 \<le> 0 \<and> 0 \<le> i_e grid0 \<and>
   divB (step10b (init_locals cfg0 grid0) scratch0 grid0) 0 0 0 = 1 / 2"
  using ct_update_preserves_divB [of grid0 0 0 0 cfg0 scratch0]
  by (simp add: grid0_def divB_def)

section \<open>The Crank-Nicholson update of the shearing box\<close>

lemma step11a_shear_gas_clearU:
  "step11a_shear_gas cfg ext lv sc phi (clearU pG) = step11a_shear_gas cfg ext lv sc phi pG"
  unfolding step11a_shear_gas_def shear_dM2e_def Let_def clearU_simps ..

lemma step11a_shear_U:
  assumes "SHEARING_BOX cfg" "StaticGravPot ext = Some phi"
  shows "step11a cfg ext lv sc pG =
      Inr (loop_kji (l_ks lv) (l_ke lv) (l_js lv) (l_je lv) (l_is lv) (l_ie lv)
             (step11a_shear_cell cfg ext lv sc phi) pG)"
    and "U (loop_kji (l_ks lv) (l_ke lv) (l_js lv) (l_je lv) (l_is lv) (l_ie lv)
             (step11a_shear_cell cfg ext lv sc phi) pG) k j i =
      (if l_ks lv \<le> k \<and> k \<le> l_ke lv \<and> l_js lv \<le> j \<and> j \<le> l_je lv \<and> l_is lv \<le> i \<and> i \<le> l_ie lv
       then step11a_shear_gas cfg ext lv sc phi pG k j i (U pG k j i) else U pG k j i)"
proof -
  show "step11a cfg ext lv sc pG =
      Inr (loop_kji (l_ks lv) (l_ke lv) (l_js lv) (l_je lv) (l_is lv) (l_ie lv)
             (step11a_shear_cell cfg ext lv sc phi) pG)"
    using assms by (simp add: step11a_def)
  show "U (loop_kji (l_ks lv) (l_ke lv) (l_js lv) (l_je lv) (l_is lv) (l_ie lv)
             (step11a_shear_cell cfg ext lv sc phi) pG) k j i =
      (if l_ks lv \<le> k \<and> k \<le> l_ke lv \<and> l_js lv \<le> j \<and> j \<le> l_je lv \<and> l_is lv \<le> i \<and> i \<le> l_ie lv
       then step11a_shear_gas cfg ext lv sc phi pG k j i (U pG k j i) else U pG k j i)"
    using loop_kji_U(1) [where body = "step11a_shear_cell cfg ext lv sc phi"
        and f = "step11a_shear_gas cfg ext lv sc phi" and pG = pG and ?k0.0 = k and ?j0.0 = j
        and ?i0.0 = i and kl = "l_ks lv" and ku = "l_ke lv" and jl = "l_js lv" and ju = "l_je lv"
        and il = "l_is lv" and iu = "l_ie lv"]
    by (simp add: step11a_shear_cell_def step11a_shear_gas_clearU)
qed

lemma step11a_shear_gas_M:
  "g_M1 (step11a_shear_gas cfg ext lv sc phi g k j i u) =
     g_M1 u + (2 * shear_dM2e cfg lv sc g (fst (cc_pos ext i j k)) k j i u -
               0.5 * om_dt lv * shear_M1e lv sc k j i u) *
              (om_dt lv / (1 + 0.25 * (om_dt lv)\<^sup>2))"
  "g_M2 (step11a_shear_gas cfg ext lv sc phi g k j i u) =
     g_M2 u - 0.5 * (shear_M1e lv sc k j i u +
                     om_dt lv * shear_dM2e cfg lv sc g (fst (cc_pos ext i j k)) k j i u) *
              (om_dt lv / (1 + 0.25 * (om_dt lv)\<^sup>2)) -
       (if FARGO cfg then 0
        else 0.75 * om_dt lv * (c_d (x1Flux sc k j i) + c_d (x1Flux sc k j (i + 1))))"
  by (simp_all add: step11a_shear_gas_def Let_def power2_eq_square split: prod.splits)


lemma shear_predictions:
  "shear_dM2n cfg x1 u = (if FARGO cfg then g_M2 u else g_M2 u + g_d u * (3 / 2) * Omega cfg * x1)"
  "shear_M1e (init_locals cfg pG) sc k j i u =
     g_M1 u - dt pG / 2 / dx1 pG * (c_Mx (x1Flux sc k j (i + 1)) - c_Mx (x1Flux sc k j i))
            - dt pG / 2 / dx2 pG * (c_Mz (x2Flux sc k (j + 1) i) - c_Mz (x2Flux sc k j i))
            - dt pG / 2 / dx3 pG * (c_My (x3Flux sc (k + 1) j i) - c_My (x3Flux sc k j i))"
  "shear_dM2e cfg (init_locals cfg pG) sc pG x1 k j i u =
     shear_dM2n cfg x1 u
       - dt pG / 2 / dx1 pG *
           ((c_My (x1Flux sc k j (i + 1)) +
               (if FARGO cfg then 0
                else 3 / 2 * Omega cfg * (x1 + dx1 pG / 2) * c_d (x1Flux sc k j (i + 1)))) -
            (c_My (x1Flux sc k j i) +
               (if FARGO cfg then 0
                else 3 / 2 * Omega cfg * (x1 - dx1 pG / 2) * c_d (x1Flux sc k j i))))
       - dt pG / 2 / dx2 pG *
           ((c_Mx (x2Flux sc k (j + 1) i) +
               (if FARGO cfg then 0 else 3 / 2 * Omega cfg * x1 * c_d (x2Flux sc k (j + 1) i))) -
            (c_Mx (x2Flux sc k j i) +
               (if FARGO cfg then 0 else 3 / 2 * Omega cfg * x1 * c_d (x2Flux sc k j i))))
       - dt pG / 2 / dx3 pG *
           ((c_Mz (x3Flux sc (k + 1) j i) +
               (if FARGO cfg then 0 else 3 / 2 * Omega cfg * x1 * c_d (x3Flux sc (k + 1) j i))) -
            (c_Mz (x3Flux sc k j i) +
               (if FARGO cfg then 0 else 3 / 2 * Omega cfg * x1 * c_d (x3Flux sc k j i))))"
  by (simp_all add: shear_dM2n_def shear_M1e_def shear_dM2e_def Let_def init_locals_simps)




section \<open>Passive scalars are updated like the density\<close>

lemma step12abc_U:
  "U (step12a cfg lv sc pG) k j i =
    (if l_ks lv \<le> k \<and> k \<le> l_ke lv \<and> l_js lv \<le> j \<and> j \<le> l_je lv \<and> l_is lv \<le> i \<and> i \<le> l_ie lv
     then step12a_gas cfg lv sc k j i (U pG k j i) else U pG k j i)"
  "U (step12b cfg lv sc pG) k j i =
    (if l_ks lv \<le> k \<and> k \<le> l_ke lv \<and> l_js lv \<le> j \<and> j \<le> l_je lv \<and> l_is lv \<le> i \<and> i \<le> l_ie lv
     then step12b_gas cfg lv sc k j i (U pG k j i) else U pG k j i)"
  "U (step12c cfg lv sc pG) k j i =
    (if l_ks lv \<le> k \<and> k \<le> l_ke lv \<and> l_js lv \<le> j \<and> j \<le> l_je lv \<and> l_is lv \<le> i \<and> i \<le> l_ie lv
     then step12c_gas cfg lv sc k j i (U pG k j i) else U pG k j i)"
  unfolding step12a_def step12b_def step12c_def
  by (rule loop_kji_U(1) [where f = "\<lambda>c. step12a_gas cfg lv sc"], simp add: step12a_cell_def,
      rule loop_kji_U(1) [where f = "\<lambda>c. step12b_gas cfg lv sc"], simp add: step12b_cell_def,
      rule loop_kji_U(1) [where f = "\<lambda>c. step12c_gas cfg lv sc"], simp add: step12c_cell_def)

lemma step12abc_clearU:
  "clearU (step12a cfg lv sc pG) = clearU pG"
  "clearU (step12b cfg lv sc pG) = clearU pG"
  "clearU (step12c cfg lv sc pG) = clearU pG"
  unfolding step12a_def step12b_def step12c_def
  by (rule loop_kji_U(2) [where f = "\<lambda>c. step12a_gas cfg lv sc"], simp add: step12a_cell_def,
      rule loop_kji_U(2) [where f = "\<lambda>c. step12b_gas cfg lv sc"], simp add: step12b_cell_def,
      rule loop_kji_U(2) [where f = "\<lambda>c. step12c_gas cfg lv sc"], simp add: step12c_cell_def)

lemma step12_gas_d:
  "g_d (step12a_gas cfg lv sc k j i u) = g_d u - dtodx1 lv * (c_d (x1Flux sc k j (i + 1)) - c_d (x1Flux sc k j i))"
  "g_d (step12b_gas cfg lv sc k j i u) = g_d u - dtodx2 lv * (c_d (x2Flux sc k (j + 1) i) - c_d (x2Flux sc k j i))"
  "g_d (step12c_gas cfg lv sc k j i u) = g_d u - dtodx3 lv * (c_d (x3Flux sc (k + 1) j i) - c_d (x3Flux sc k j i))"
  by (simp_all add: step12a_gas_def step12b_gas_def step12c_gas_def Let_def)

lemma step12_gas_s:
  "g_s (step12a_gas cfg lv sc k j i u) n = (if n < NSCALARS cfg then g_s u n - dtodx1 lv * (c_s (x1Flux sc k j (i + 1)) n - c_s (x1Flux sc k j i) n) else g_s u n)"
  "g_s (step12b_gas cfg lv sc k j i u) n = (if n < NSCALARS cfg then g_s u n - dtodx2 lv * (c_s (x2Flux sc k (j + 1) i) n - c_s (x2Flux sc k j i) n) else g_s u n)"
  "g_s (step12c_gas cfg lv sc k j i u) n = (if n < NSCALARS cfg then g_s u n - dtodx3 lv * (c_s (x3Flux sc (k + 1) j i) n - c_s (x3Flux sc k j i) n) else g_s u n)"
  by (simp_all add: step12a_gas_def step12b_gas_def step12c_gas_def Let_def for_scalars_apply)




section \<open>The scratch arrays: allocation and release\<close>

lemma init_allocs_ok:
  assumes "\<forall>m < length rs. ok (n + m)" "distinct (map fst rs)"
  shows "snd (init_allocs ok n rs p) = True \<and>
    (\<forall>(x, s) \<in> set rs. fst (init_allocs ok n rs p) x = Live s) \<and>
    (\<forall>x. x \<notin> fst ` set rs \<longrightarrow> fst (init_allocs ok n rs p) x = p x)"
  using assms
proof (induction rs arbitrary: n p)
  case Nil
  then show ?case by simp
next
  case (Cons r rs)
  obtain x s where r: "r = (x, s)" by (cases r)
  have okn: "ok n" using Cons.prems(1) by force
  have rest: "\<forall>m < length rs. ok (Suc n + m)"
    using Cons.prems(1) by force
  have dist: "distinct (map fst rs)" "x \<notin> fst ` set rs"
    using Cons.prems(2) r by auto
  let ?p = "p(x := Live s)"
  have eq: "init_allocs ok n (r # rs) p = init_allocs ok (Suc n) rs ?p"
    using okn by (simp add: r)
  have IH1: "snd (init_allocs ok (Suc n) rs ?p) = True"
    and IH2: "\<forall>(y, t) \<in> set rs. fst (init_allocs ok (Suc n) rs ?p) y = Live t"
    and IH3: "\<forall>y. y \<notin> fst ` set rs \<longrightarrow> fst (init_allocs ok (Suc n) rs ?p) y = ?p y"
    using Cons.IH [OF rest dist(1), of ?p] by blast+
  have "fst (init_allocs ok (Suc n) rs ?p) x = Live s"
    using IH3 dist(2) by simp
  moreover have "\<forall>y. y \<notin> fst ` set (r # rs) \<longrightarrow> fst (init_allocs ok (Suc n) rs ?p) y = p y"
    using IH3 by (simp add: r)
  ultimately show ?case
    unfolding eq using IH1 IH2 by (simp add: r)
qed

lemma init_allocs_fail:
  assumes "m < length rs" "\<not> ok (n + m)"
  shows "snd (init_allocs ok n rs p) = False"
  using assms
proof (induction rs arbitrary: n m p)
  case Nil
  then show ?case by simp
next
  case (Cons r rs)
  obtain x s where r: "r = (x, s)" by (cases r)
  show ?case
  proof (cases "ok n")
    case False
    then show ?thesis by (simp add: r)
  next
    case True
    with Cons.prems(2) obtain m' where m': "m = Suc m'" by (cases m) auto
    with Cons.prems have "m' < length rs" "\<not> ok (Suc n + m')" by auto
    from Cons.IH [OF this] True show ?thesis by (simp add: r)
  qed
qed

lemma init_allocs_no_dangling:
  "\<forall>x. p x \<noteq> Freed \<Longrightarrow> \<forall>x. fst (init_allocs ok n rs p) x \<noteq> Freed"
proof (induction rs arbitrary: n p)
  case Nil
  then show ?case by simp
next
  case (Cons r rs)
  obtain y s where r: "r = (y, s)" by (cases r)
  show ?case
  proof (cases "ok n")
    case True
    have eq: "init_allocs ok n (r # rs) p = init_allocs ok (Suc n) rs (p(y := Live s))"
      using True by (simp add: r)
    have "\<forall>x. (p(y := Live s)) x \<noteq> Freed" using Cons.prems by simp
    then show ?thesis unfolding eq by (rule Cons.IH)
  next
    case False
    then show ?thesis using Cons.prems by (simp add: r)
  qed
qed

lemma free_seq_ok:
  assumes "distinct xs" "\<forall>x \<in> set xs. p x \<noteq> Freed"
  shows "free_seq xs p =
    Inr (\<lambda>y. if y \<in> set xs then (case p y of Live s \<Rightarrow> Freed | c \<Rightarrow> c) else p y)"
  using assms
proof (induction xs arbitrary: p)
  case Nil
  then show ?case by simp
next
  case (Cons x xs)
  have px: "p x \<noteq> Freed" and notin: "x \<notin> set xs" and dist: "distinct xs"
    using Cons.prems by auto
  obtain p' where step: "free_if_set x p = Inr p'"
    and p': "p' = (case p x of Live s \<Rightarrow> p(x := Freed) | c \<Rightarrow> p)"
    using px by (cases "p x") (auto simp: free_if_set_def)
  have rest: "\<forall>y \<in> set xs. p' y \<noteq> Freed"
    using Cons.prems(2) notin by (auto simp: p' split: cell.splits)
  have same: "\<And>y. y \<noteq> x \<Longrightarrow> p' y = p y"
    by (auto simp: p' split: cell.splits)
  have atx: "p' x = (case p x of Live s \<Rightarrow> Freed | c \<Rightarrow> c)"
    by (auto simp: p' split: cell.splits)
  have "(\<lambda>y. if y \<in> set xs then (case p' y of Live s \<Rightarrow> Freed | c \<Rightarrow> c) else p' y) =
      (\<lambda>y. if y \<in> set (x # xs) then (case p y of Live s \<Rightarrow> Freed | c \<Rightarrow> c) else p y)"
  proof (rule ext)
    fix y
    show "(if y \<in> set xs then (case p' y of Live s \<Rightarrow> Freed | c \<Rightarrow> c) else p' y) =
      (if y \<in> set (x # xs) then (case p y of Live s \<Rightarrow> Freed | c \<Rightarrow> c) else p y)"
    proof (cases "y = x")
      case True
      then show ?thesis using notin atx by simp
    next
      case False
      then show ?thesis using same [of y] by simp
    qed
  qed
  then show ?case
    unfolding free_seq.simps step sum.case Cons.IH [OF dist rest] by simp
qed

lemma free_seq_not_live:
  assumes "distinct xs" "\<forall>x. p x \<noteq> Freed"
  shows "\<exists>p'. free_seq xs p = Inr p' \<and> (\<forall>x \<in> set xs. \<forall>s. p' x \<noteq> Live s)"
proof -
  have "\<forall>x \<in> set xs. p x \<noteq> Freed" using assms(2) by blast
  from free_seq_ok [OF assms(1) this] show ?thesis
    by (simp split: cell.splits)
qed

lemma destruct_names:
  "distinct ((if MHD cfg
        then [p_emf1, p_emf2, p_emf3, p_emf1_cc, p_emf2_cc, p_emf3_cc] else []) @
       (if H_CORRECTION cfg then [p_eta1, p_eta2, p_eta3] else []) @
       (if MHD cfg
        then [p_Bxc, p_Bxi, p_B1_x1Face, p_B2_x2Face, p_B3_x3Face] else []) @
       [p_U1d, p_W, p_Wl, p_Wr,
        p_Ul_x1Face, p_Ur_x1Face, p_Ul_x2Face, p_Ur_x2Face, p_Ul_x3Face, p_Ur_x3Face,
        p_x1Flux, p_x2Flux, p_x3Flux, p_dhalf, p_phalf] @
       (if SHEARING_BOX cfg then [p_remapEyiib, p_remapEyoib] else []))"
  by (cases "MHD cfg"; cases "H_CORRECTION cfg"; cases "SHEARING_BOX cfg"; simp)

lemma int32_id: "in_int32 x \<Longrightarrow> int32 x = x"
  by (simp add: int32_def in_int32_def)

lemma init_requests_map_fst:
  "map fst (init_requests cfg ext nx1 nx2 nx3) =
       (if MHD cfg
        then [p_emf1, p_emf2, p_emf3, p_emf1_cc, p_emf2_cc, p_emf3_cc] else []) @
       (if H_CORRECTION cfg then [p_eta1, p_eta2, p_eta3] else []) @
       (if MHD cfg
        then [p_Bxc, p_Bxi, p_B1_x1Face, p_B2_x2Face, p_B3_x3Face] else []) @
       [p_U1d, p_W, p_Wl, p_Wr,
        p_Ul_x1Face, p_Ur_x1Face, p_Ul_x2Face, p_Ur_x2Face, p_Ul_x3Face, p_Ur_x3Face,
        p_x1Flux, p_x2Flux, p_x3Flux] @
       (if MHD cfg \<or> \<not> Option.is_none (StaticGravPot ext) \<or>
            \<not> Option.is_none (CoolingFunc ext)
        then [p_dhalf, p_phalf] else []) @
       (if SHEARING_BOX cfg then [p_remapEyiib, p_remapEyoib] else [])"
  unfolding init_requests_def Let_def map_append if_distrib [where f = "map fst"]
    list.map fst_conv ..

lemma init_requests_names:
  "distinct (map fst (init_requests cfg ext nx1 nx2 nx3))"
  unfolding init_requests_map_fst
  by (cases "MHD cfg"; cases "H_CORRECTION cfg"; cases "SHEARING_BOX cfg";
      cases "Option.is_none (StaticGravPot ext)"; cases "Option.is_none (CoolingFunc ext)";
      simp)


lemma init_requests_freed:
  "fst ` set (init_requests cfg ext nx1 nx2 nx3) \<subseteq>
    set ((if MHD cfg
        then [p_emf1, p_emf2, p_emf3, p_emf1_cc, p_emf2_cc, p_emf3_cc] else []) @
       (if H_CORRECTION cfg then [p_eta1, p_eta2, p_eta3] else []) @
       (if MHD cfg
        then [p_Bxc, p_Bxi, p_B1_x1Face, p_B2_x2Face, p_B3_x3Face] else []) @
       [p_U1d, p_W, p_Wl, p_Wr,
        p_Ul_x1Face, p_Ur_x1Face, p_Ul_x2Face, p_Ur_x2Face, p_Ul_x3Face, p_Ur_x3Face,
        p_x1Flux, p_x2Flux, p_x3Flux, p_dhalf, p_phalf] @
       (if SHEARING_BOX cfg then [p_remapEyiib, p_remapEyoib] else []))"
  unfolding set_map [symmetric] init_requests_map_fst
  by (cases "MHD cfg"; cases "H_CORRECTION cfg"; cases "SHEARING_BOX cfg";
      cases "Option.is_none (StaticGravPot ext)"; cases "Option.is_none (CoolingFunc ext)";
      simp)


lemma init_requests_3d:
  assumes "in_int32 (2 * nghost cfg)" "in_int32 (nx1 + 2 * nghost cfg)"
    "in_int32 (nx2 + 2 * nghost cfg)" "in_int32 (nx3 + 2 * nghost cfg)"
  shows "\<forall>(x, s) \<in> set (init_requests cfg ext nx1 nx2 nx3). is_3d s \<longrightarrow>
    s = Arr3 (nx3 + 2 * nghost cfg) (nx2 + 2 * nghost cfg) (nx1 + 2 * nghost cfg)"
proof -
  have "list_all (\<lambda>(x, s). is_3d s \<longrightarrow>
      s = Arr3 (nx3 + 2 * nghost cfg) (nx2 + 2 * nghost cfg) (nx1 + 2 * nghost cfg))
    (init_requests cfg ext nx1 nx2 nx3)"
    unfolding init_requests_def Let_def int32_id [OF assms(1)] int32_id [OF assms(2)]
      int32_id [OF assms(3)] int32_id [OF assms(4)]
    by (simp add: is_3d_def)
  then show ?thesis unfolding list_all_iff .
qed

lemma integrate_destruct_ok:
  assumes "\<forall>x. p x \<noteq> Freed"
  shows "\<exists>p'. integrate_destruct cfg p = Inr p' \<and>
    (\<forall>x \<in> fst ` set (init_requests cfg ext nx1 nx2 nx3). \<forall>s. p' x \<noteq> Live s)"
proof -
  from free_seq_not_live [OF destruct_names assms, of cfg]
  obtain p' where d: "integrate_destruct cfg p = Inr p'"
    and nl: "\<forall>x \<in> set ((if MHD cfg
        then [p_emf1, p_emf2, p_emf3, p_emf1_cc, p_emf2_cc, p_emf3_cc] else []) @
       (if H_CORRECTION cfg then [p_eta1, p_eta2, p_eta3] else []) @
       (if MHD cfg
        then [p_Bxc, p_Bxi, p_B1_x1Face, p_B2_x2Face, p_B3_x3Face] else []) @
       [p_U1d, p_W, p_Wl, p_Wr,
        p_Ul_x1Face, p_Ur_x1Face, p_Ul_x2Face, p_Ur_x2Face, p_Ul_x3Face, p_Ur_x3Face,
        p_x1Flux, p_x2Flux, p_x3Flux, p_dhalf, p_phalf] @
       (if SHEARING_BOX cfg then [p_remapEyiib, p_remapEyoib] else [])). \<forall>s. p' x \<noteq> Live s"
    unfolding integrate_destruct_def integrate_destruct_3d_def by blast
  have "\<forall>x \<in> fst ` set (init_requests cfg ext nx1 nx2 nx3). \<forall>s. p' x \<noteq> Live s"
    using nl subsetD [OF init_requests_freed [of cfg ext nx1 nx2 nx3]] by blast
  with d show ?thesis by blast
qed




end
